(* ===== verification/Chess_Prelude.thy ===== *)
theory Chess_Prelude
  imports Main
begin

text \<open>
  Shared vocabulary of the pencil-chess development: the names of the model's basic
  types, the collections of rewrite rules the component theories contribute to, and
  generic facts about lists of posted messages and FIFO channels that several
  components use.
\<close>

section \<open>Basic types\<close>

text \<open>
  A position string (FEN) and a browser origin are JavaScript strings; a window is
  identified by an abstract number, standing for the identity of a \<open>Window\<close> object
  that the code compares with \<open>===\<close>.
\<close>

type_synonym fen = string
type_synonym origin = string
type_synonym win = nat

text \<open>
  A FIFO message channel (the task queue of \<open>postMessage\<close> events of one target
  window): sending appends at the end, delivery takes the head.
\<close>

type_synonym 'm channel = "'m list"

named_theorems handler_simps
  "equations of the message handlers, unfolded when a handler runs on a concrete message"

named_theorems inv_simps
  "definitions of the component invariants, unfolded in invariant-preservation proofs"

section \<open>Generic facts\<close>

lemma filter_append_empty [simp]:
  "filter P (xs @ ys) = [] \<longleftrightarrow> filter P xs = [] \<and> filter P ys = []"
  by simp

lemma set_channel_send [simp]: "set (q @ [m]) = insert m (set q)"
  by simp

lemma in_set_tl_channel: "x \<in> set (tl q) \<Longrightarrow> x \<in> set q"
  by (cases q) auto

lemma hd_in_channel: "q = m # q' \<Longrightarrow> m \<in> set q"
  by simp

lemma list_all_channel_deliver:
  "list_all P (m # q) \<Longrightarrow> P m \<and> list_all P q"
  by simp

lemma option_case_same_result:
  "(case x of None \<Rightarrow> r | Some _ \<Rightarrow> r) = r"
  by (cases x) simp_all

end
