(* ===== verification/Messages.thy ===== *)
theory Messages
  imports Chess_Prelude
begin

text \<open>
  The closed message protocol between the offline host page and its embedded board
  frames (\<open>src/unnamed/part_004\<close>, the module \<open>types/messages.ts\<close>): the two
  roles, the side to move as chess.js reports it, and the tagged union of wire messages.
  Every constructor and field of the TypeScript union is kept.
\<close>

section \<open>Roles, turns and wire messages\<close>

datatype role = White | Black

text \<open>\<open>Turn = 'w' | 'b'\<close>.\<close>

datatype turn = Tw | Tb

text \<open>The only \<open>reason\<close> of \<open>GAME_OVER\<close> is the literal type \<open>'checkmate'\<close>.\<close>

datatype over_reason = Checkmate

datatype wire_message =
    IFRAME_READY
  | ROLE_ASSIGN role
  | REQUEST_SYNC
  | SYNC_STATE fen "string option"
  | BOARD_UPDATE fen
  | TURN turn
  | RESET
  | GAME_OVER role over_reason

text \<open>
  A \<open>MessageEvent\<close> as the listeners see it: the sender's origin, the sending window
  (\<open>event.source\<close>, possibly \<open>null\<close>) and the data. Data that is not an object with a
  \<open>type\<close> field, or whose \<open>type\<close> is none of the union's tags, is \<open>None\<close>: both
  listeners drop it (the \<open>typeof data !== 'object'\<close> test and the \<open>switch\<close> with no
  default).
\<close>

record msg_event =
  ev_origin :: origin
  ev_source :: "win option"
  ev_data :: "wire_message option"

section \<open>Helpers shared by the host and the boards\<close>

text \<open>
  The test \<open>(role === 'white' && turn === 'w') || (role === 'black' && turn === 'b')\<close>,
  written the same way in \<open>board-embed.component.ts\<close> and in
  \<open>online-game.component.ts\<close>.
\<close>

fun is_my_turn :: "role \<Rightarrow> turn \<Rightarrow> bool" where
  "is_my_turn White t = (t = Tw)"
| "is_my_turn Black t = (t = Tb)"

text \<open>The winner of a checkmate: the side that is NOT to move (\<open>turn === 'w' ? 'black' : 'white'\<close>).\<close>

definition winner_of :: "turn \<Rightarrow> role" where
  "winner_of t = (if t = Tw then Black else White)"

text \<open>\<open>winner.toUpperCase()\<close> in the overlay text.\<close>

fun role_upper :: "role \<Rightarrow> string" where
  "role_upper White = ''WHITE''"
| "role_upper Black = ''BLACK''"

definition checkmate_text :: "role \<Rightarrow> string" where
  "checkmate_text r = role_upper r @ '' wins by checkmate''"

text \<open>The side a role plays, as a chess.js turn value.\<close>

fun turn_of :: "role \<Rightarrow> turn" where
  "turn_of White = Tw"
| "turn_of Black = Tb"

lemma is_my_turn_iff [simp]: "is_my_turn r t \<longleftrightarrow> t = turn_of r"
  by (cases r) auto

lemma winner_of_not_to_move [simp]: "turn_of (winner_of t) \<noteq> t"
  by (cases t) (simp_all add: winner_of_def)

lemma turn_of_inj [simp]: "turn_of r = turn_of r' \<longleftrightarrow> r = r'"
  by (cases r; cases r') simp_all

lemma role_neq_simps [simp]:
  "r \<noteq> White \<longleftrightarrow> r = Black" "r \<noteq> Black \<longleftrightarrow> r = White"
  by (cases r; simp)+

end
