(* ===== verification/Engine.thy ===== *)
theory Engine
  imports Messages
begin

text \<open>
  The interface of the two external libraries the components call: the chess rules
  engine (chess.js, \<open>new Chess()\<close>, \<open>load\<close>, \<open>fen\<close>, \<open>turn\<close>, \<open>isCheckmate\<close>,
  \<open>pgn\<close>) and the board widget (ngx-chess-board's \<open>NgxChessBoardView\<close>:
  \<open>setFEN\<close>, \<open>getFEN\<close>, \<open>reverse\<close>, \<open>reset\<close>). Neither is code of the repository,
  so both are parameters of the component models: every theorem about a component holds
  for every engine, or for every engine that meets the contract stated here. A small
  executable demo engine instantiates the interface in the witnesses.
\<close>

section \<open>The rules engine\<close>

text \<open>
  A value of type \<open>'p\<close> is the state of a \<open>Chess\<close> object. \<open>load\<close> mutates the
  object or throws on a malformed string, leaving it unchanged (chess.js validates before
  it clears): \<open>eng_load\<close> is \<open>None\<close> for a thrown exception.
\<close>

record 'p chess_engine =
  eng_start :: 'p
  eng_load :: "fen \<Rightarrow> 'p option"
  eng_fen :: "'p \<Rightarrow> fen"
  eng_turn :: "'p \<Rightarrow> turn"
  eng_checkmate :: "'p \<Rightarrow> bool"
  eng_pgn :: "'p \<Rightarrow> string"

text \<open>
  The contract of the spec (section 6): the canonical string of a position that was
  loaded, or of the start position, loads back to the same position.
\<close>

definition engine_contract :: "'p chess_engine \<Rightarrow> bool" where
  "engine_contract E \<longleftrightarrow>
     eng_load E (eng_fen E (eng_start E)) = Some (eng_start E) \<and>
     (\<forall>s p. eng_load E s = Some p \<longrightarrow> eng_load E (eng_fen E p) = Some p)"

subsection \<open>A demo engine\<close>

text \<open>
  Positions of the demo engine are a piece-placement field and the side to move, written
  \<open>placement side\<close>; the side to move is mated when its king letter is missing from
  the placement. It is not chess: it exists so that the witnesses run the components
  on concrete strings.
\<close>

record demo_pos =
  dp_placement :: string
  dp_side :: turn

definition demo_fen :: "demo_pos \<Rightarrow> fen" where
  "demo_fen p = dp_placement p @ (if dp_side p = Tw then '' w'' else '' b'')"

definition demo_load :: "fen \<Rightarrow> demo_pos option" where
  "demo_load s =
     (let pl = takeWhile (\<lambda>c. c \<noteq> CHR '' '') s; rest = dropWhile (\<lambda>c. c \<noteq> CHR '' '') s
      in if pl = [] then None
         else if rest = '' w'' then Some \<lparr>dp_placement = pl, dp_side = Tw\<rparr>
         else if rest = '' b'' then Some \<lparr>dp_placement = pl, dp_side = Tb\<rparr>
         else None)"

definition demo_checkmate :: "demo_pos \<Rightarrow> bool" where
  "demo_checkmate p =
     (if dp_side p = Tw then CHR ''K'' \<notin> set (dp_placement p)
      else CHR ''k'' \<notin> set (dp_placement p))"

definition demo_engine :: "demo_pos chess_engine" where
  "demo_engine =
     \<lparr>eng_start = \<lparr>dp_placement = ''Kk'', dp_side = Tw\<rparr>,
      eng_load = demo_load, eng_fen = demo_fen, eng_turn = dp_side,
      eng_checkmate = demo_checkmate, eng_pgn = (\<lambda>_. [])\<rparr>"

section \<open>The board widget\<close>

text \<open>
  The widget holds the displayed position and its visual orientation. Two properties of
  the library matter to the components and are not fixed by the repository, so they are
  parameters: whether a programmatic \<open>setFEN\<close> or \<open>reset\<close> restores the default
  (white-at-bottom) orientation, as the comment \<open>setFEN may reset orientation\<close> in
  the source assumes, and whether such a programmatic change fires the widget's
  move-completed callback synchronously.
\<close>

record board =
  bd_fen :: fen
  bd_reversed :: bool

record widget_sem =
  ws_set_resets :: bool
  ws_set_fires_move :: bool

definition board_start_fen :: fen where
  "board_start_fen = ''rnbqkbnr/pppppppp/8/8/8/8/PPPPPPPP/RNBQKBNR w KQkq - 0 1''"

definition board_init :: board where
  "board_init = \<lparr>bd_fen = board_start_fen, bd_reversed = False\<rparr>"

definition board_setFEN :: "widget_sem \<Rightarrow> fen \<Rightarrow> board \<Rightarrow> board" where
  "board_setFEN ws f b =
     \<lparr>bd_fen = f, bd_reversed = (if ws_set_resets ws then False else bd_reversed b)\<rparr>"

definition board_reset :: "widget_sem \<Rightarrow> board \<Rightarrow> board" where
  "board_reset ws b = board_setFEN ws board_start_fen b"

text \<open>\<open>reverse()\<close> is a toggle, not an absolute setting.\<close>

definition board_reverse :: "board \<Rightarrow> board" where
  "board_reverse b = b\<lparr>bd_reversed := \<not> bd_reversed b\<rparr>"

section \<open>Facts about the demo engine and the widget\<close>

lemma demo_load_Some:
  "demo_load s = Some p \<Longrightarrow> dp_placement p \<noteq> [] \<and> CHR '' '' \<notin> set (dp_placement p)
     \<and> s = demo_fen p"
proof -
  assume ld: "demo_load s = Some p"
  let ?pl = "takeWhile (\<lambda>c. c \<noteq> CHR '' '') s"
  have nospace: "CHR '' '' \<notin> set ?pl"
    by (metis (mono_tags, lifting) set_takeWhileD)
  from ld nospace show ?thesis
    by (auto simp: demo_load_def demo_fen_def Let_def split: if_splits)
      (metis takeWhile_dropWhile_id)+
qed

lemma demo_load_fen:
  assumes "dp_placement p \<noteq> []" and "CHR '' '' \<notin> set (dp_placement p)"
  shows "demo_load (demo_fen p) = Some p"
proof -
  have tw: "takeWhile (\<lambda>c. c \<noteq> CHR '' '') (dp_placement p @ xs) = dp_placement p @
              takeWhile (\<lambda>c. c \<noteq> CHR '' '') xs" for xs
    using assms(2) by (intro takeWhile_append2) auto
  have dw: "dropWhile (\<lambda>c. c \<noteq> CHR '' '') (dp_placement p @ xs) =
              dropWhile (\<lambda>c. c \<noteq> CHR '' '') xs" for xs
    using assms(2) by (intro dropWhile_append2) auto
  show ?thesis
  proof (cases "dp_side p")
    case Tw
    with assms show ?thesis by (simp add: demo_load_def demo_fen_def tw dw)
  next
    case Tb
    with assms show ?thesis by (simp add: demo_load_def demo_fen_def tw dw)
  qed
qed

lemma demo_engine_contract: "engine_contract demo_engine"
proof -
  have start: "demo_load (demo_fen \<lparr>dp_placement = ''Kk'', dp_side = Tw\<rparr>) =
                 Some \<lparr>dp_placement = ''Kk'', dp_side = Tw\<rparr>"
    by (rule demo_load_fen) simp_all
  have loaded: "\<forall>s p. demo_load s = Some p \<longrightarrow> demo_load (demo_fen p) = Some p"
    using demo_load_Some demo_load_fen by blast
  show ?thesis
    using start loaded by (simp add: engine_contract_def demo_engine_def)
qed

lemma board_setFEN_fen [simp]: "bd_fen (board_setFEN ws f b) = f"
  by (simp add: board_setFEN_def)

lemma board_setFEN_reversed [simp]:
  "bd_reversed (board_setFEN ws f b) = (\<not> ws_set_resets ws \<and> bd_reversed b)"
  by (simp add: board_setFEN_def)

lemma board_reverse_simps [simp]:
  "bd_fen (board_reverse b) = bd_fen b" "bd_reversed (board_reverse b) = (\<not> bd_reversed b)"
  by (simp_all add: board_reverse_def)

lemma board_reset_simps [simp]:
  "bd_fen (board_reset ws b) = board_start_fen"
  "bd_reversed (board_reset ws b) = (\<not> ws_set_resets ws \<and> bd_reversed b)"
  by (simp_all add: board_reset_def)

end
