(* ===== verification/Embed.thy ===== *)
theory Embed
  imports Engine
begin

text \<open>
  The board controller that runs in each frame
  (\<open>BoardEmbedComponent\<close>, \<open>src/src/app/features/board-embed/board-embed.component.ts\<close>,
  lines 15--134; lines 1--13 of the file are an unused empty stub of the same class).
  Its state is the record \<open>embed\<close>; each handler returns the new state and the list of
  messages it posts to the parent window, in posting order. The widget's behaviour under
  programmatic changes is the parameter \<open>ws\<close> (theory \<open>Engine\<close>).
\<close>

section \<open>State\<close>

record embed =
  em_origin :: origin
  em_role :: "role option"
  em_moveDisabled :: bool
  em_applyingRemote :: bool
  em_isReversed :: bool
  em_board :: board

definition embed_init :: "origin \<Rightarrow> embed" where
  "embed_init orig = \<lparr>em_origin = orig, em_role = None, em_moveDisabled = True,
     em_applyingRemote = False, em_isReversed = False, em_board = board_init\<rparr>"

text \<open>\<open>ngAfterViewInit\<close>: announce readiness, then ask for the current state.\<close>

definition embed_after_view_init :: "wire_message list" where
  "embed_after_view_init = [IFRAME_READY, REQUEST_SYNC]"

section \<open>Drag gating\<close>

text \<open>The getters bound to the widget's \<open>darkDisabled\<close> / \<open>lightDisabled\<close> inputs.\<close>

definition darkDisabled :: "embed \<Rightarrow> bool" where
  "darkDisabled e \<longleftrightarrow> em_role e = Some White \<or> em_moveDisabled e \<or> em_applyingRemote e"

definition lightDisabled :: "embed \<Rightarrow> bool" where
  "lightDisabled e \<longleftrightarrow> em_role e = Some Black \<or> em_moveDisabled e \<or> em_applyingRemote e"

text \<open>The pieces of a colour can be dragged when the widget input for it is false.\<close>

fun can_drag :: "embed \<Rightarrow> role \<Rightarrow> bool" where
  "can_drag e White = (\<not> lightDisabled e)"
| "can_drag e Black = (\<not> darkDisabled e)"

section \<open>Operations\<close>

text \<open>\<open>ensureOrientation\<close>: flip once when the wanted orientation differs from the tracked one.\<close>

definition ensureOrientation :: "embed \<Rightarrow> embed" where
  "ensureOrientation e =
     (let shouldBeReversed = (em_role e = Some Black) in
      if shouldBeReversed \<noteq> em_isReversed e
      then e\<lparr>em_board := board_reverse (em_board e), em_isReversed := shouldBeReversed\<rparr>
      else e)"

text \<open>\<open>onUserMove\<close>: the widget's move-completed callback.\<close>

definition embed_onUserMove :: "embed \<Rightarrow> embed \<times> wire_message list" where
  "embed_onUserMove e =
     (if em_applyingRemote e then (e, []) else (e, [BOARD_UPDATE (bd_fen (em_board e))]))"

text \<open>
  A programmatic board change inside the echo guard: \<open>applyingRemote\<close> is raised,
  the widget is changed, and if the widget fires its move callback on such a change the
  callback runs there and then, with the guard up.
\<close>

definition guarded_board_change ::
  "widget_sem \<Rightarrow> (board \<Rightarrow> board) \<Rightarrow> embed \<Rightarrow> embed \<times> wire_message list" where
  "guarded_board_change ws f e =
     (let e1 = e\<lparr>em_applyingRemote := True, em_board := f (em_board e)\<rparr>
      in if ws_set_fires_move ws then embed_onUserMove e1 else (e1, []))"

text \<open>The \<open>switch\<close> of \<open>onMessage\<close>, one equation per tag.\<close>

fun embed_handle :: "widget_sem \<Rightarrow> embed \<Rightarrow> wire_message \<Rightarrow> embed \<times> wire_message list" where
  "embed_handle ws e (ROLE_ASSIGN r) = (ensureOrientation (e\<lparr>em_role := Some r\<rparr>), [])"
| "embed_handle ws e (SYNC_STATE f pgn) =
     (let (e1, out) = guarded_board_change ws (board_setFEN ws f) e;
          e2 = ensureOrientation (e1\<lparr>em_isReversed := False\<rparr>)
      in (e2\<lparr>em_applyingRemote := False\<rparr>, out))"
| "embed_handle ws e (TURN t) =
     (case em_role e of
        None \<Rightarrow> (e, [])
      | Some r \<Rightarrow> (e\<lparr>em_moveDisabled := \<not> is_my_turn r t\<rparr>, []))"
| "embed_handle ws e RESET =
     (let (e1, out) = guarded_board_change ws (board_reset ws) e;
          e2 = ensureOrientation (e1\<lparr>em_applyingRemote := False, em_isReversed := False\<rparr>)
      in (e2\<lparr>em_moveDisabled := (em_role e2 \<noteq> Some White)\<rparr>, out))"
| "embed_handle ws e (GAME_OVER w reason) = (e\<lparr>em_moveDisabled := True\<rparr>, [])"
| "embed_handle ws e IFRAME_READY = (e, [])"
| "embed_handle ws e REQUEST_SYNC = (e, [])"
| "embed_handle ws e (BOARD_UPDATE f) = (e, [])"

text \<open>\<open>onMessage\<close>: the same-origin guard and the shape test, then the switch.\<close>

definition embed_onMessage :: "widget_sem \<Rightarrow> embed \<Rightarrow> msg_event \<Rightarrow> embed \<times> wire_message list" where
  "embed_onMessage ws e ev =
     (if ev_origin ev \<noteq> em_origin e then (e, [])
      else case ev_data ev of None \<Rightarrow> (e, []) | Some m \<Rightarrow> embed_handle ws e m)"

text \<open>A run of delivered host messages, with everything the board posted.\<close>

fun embed_run :: "widget_sem \<Rightarrow> embed \<Rightarrow> wire_message list \<Rightarrow> embed \<times> wire_message list" where
  "embed_run ws e [] = (e, [])"
| "embed_run ws e (m # ms) =
     (let (e1, out1) = embed_handle ws e m; (e2, out2) = embed_run ws e1 ms in (e2, out1 @ out2))"

text \<open>A board that has been assigned black, as the witnesses use it.\<close>

definition demo_black_board :: embed where
  "demo_black_board = ensureOrientation ((embed_init ''http://localhost:4200'')\<lparr>em_role := Some Black\<rparr>)"

section \<open>Invariants\<close>

text \<open>
  The gating invariant: a board without a role never has moves enabled, and outside a
  handler the echo guard is down.
\<close>

definition embed_inv :: "embed \<Rightarrow> bool" where
  "embed_inv e \<longleftrightarrow> (em_role e = None \<longrightarrow> em_moveDisabled e) \<and> \<not> em_applyingRemote e"

text \<open>
  The orientation invariant: the tracked flag says whether the role is black, and the
  widget shows exactly what the flag says.
\<close>

definition orient_inv :: "embed \<Rightarrow> bool" where
  "orient_inv e \<longleftrightarrow>
     em_isReversed e = (em_role e = Some Black) \<and> bd_reversed (em_board e) = em_isReversed e"

declare embed_inv_def [inv_simps] orient_inv_def [inv_simps]

lemma embed_run_Cons_fst:
  "fst (embed_run ws e (m # ms)) = fst (embed_run ws (fst (embed_handle ws e m)) ms)"
  by (simp add: split_def Let_def)

lemma ensureOrientation_simps [simp]:
  "em_role (ensureOrientation e) = em_role e"
  "em_moveDisabled (ensureOrientation e) = em_moveDisabled e"
  "em_applyingRemote (ensureOrientation e) = em_applyingRemote e"
  "em_origin (ensureOrientation e) = em_origin e"
  "em_isReversed (ensureOrientation e) = (em_role e = Some Black)"
  "bd_fen (em_board (ensureOrientation e)) = bd_fen (em_board e)"
  by (simp_all add: ensureOrientation_def Let_def)

lemma ensureOrientation_board_reversed:
  "bd_reversed (em_board (ensureOrientation e)) =
     (if (em_role e = Some Black) \<noteq> em_isReversed e then \<not> bd_reversed (em_board e)
      else bd_reversed (em_board e))"
  by (simp add: ensureOrientation_def Let_def)

lemma guarded_board_change_simps [simp]:
  "em_role (fst (guarded_board_change ws f e)) = em_role e"
  "em_moveDisabled (fst (guarded_board_change ws f e)) = em_moveDisabled e"
  "em_isReversed (fst (guarded_board_change ws f e)) = em_isReversed e"
  "em_origin (fst (guarded_board_change ws f e)) = em_origin e"
  "em_board (fst (guarded_board_change ws f e)) = f (em_board e)"
  "snd (guarded_board_change ws f e) = []"
  by (simp_all add: guarded_board_change_def embed_onUserMove_def Let_def)

lemma guarded_board_change_eq:
  "guarded_board_change ws f e = (e\<lparr>em_applyingRemote := True, em_board := f (em_board e)\<rparr>, [])"
  by (simp add: guarded_board_change_def embed_onUserMove_def Let_def)

lemmas embed_step_simps = guarded_board_change_eq ensureOrientation_board_reversed

section \<open>Properties of the board controller\<close>

subsection \<open>Gating\<close>

lemma embed_handle_inv: "embed_inv e \<Longrightarrow> embed_inv (fst (embed_handle ws e m))"
  by (cases m) (auto simp: embed_inv_def embed_step_simps Let_def split: option.splits)

lemma embed_onMessage_inv: "embed_inv e \<Longrightarrow> embed_inv (fst (embed_onMessage ws e ev))"
  by (auto simp: embed_onMessage_def embed_handle_inv split: option.splits)

lemma embed_run_inv: "embed_inv e \<Longrightarrow> embed_inv (fst (embed_run ws e ms))"
proof (induction ms arbitrary: e)
  case Nil
  then show ?case by simp
next
  case (Cons m ms)
  from Cons.prems have "embed_inv (fst (embed_handle ws e m))" by (rule embed_handle_inv)
  then show ?case unfolding embed_run_Cons_fst by (rule Cons.IH)
qed

lemma embed_init_inv: "embed_inv (embed_init orig)"
  by (simp add: embed_inv_def embed_init_def)

lemma can_drag_iff:
  "embed_inv e \<Longrightarrow> can_drag e c \<longleftrightarrow> em_role e = Some c \<and> \<not> em_moveDisabled e"
  by (cases c) (auto simp: embed_inv_def darkDisabled_def lightDisabled_def)

subsection \<open>No echo\<close>

lemma embed_handle_no_echo: "snd (embed_handle ws e m) = []"
  by (cases m) (simp_all add: embed_step_simps Let_def split: option.splits)

lemma embed_run_no_echo: "snd (embed_run ws e ms) = []"
  by (induction ms arbitrary: e) (simp_all add: split_def embed_handle_no_echo)

subsection \<open>Orientation\<close>

lemma embed_handle_orient:
  "ws_set_resets ws \<Longrightarrow> orient_inv e \<Longrightarrow> orient_inv (fst (embed_handle ws e m))"
  by (cases m) (auto simp: orient_inv_def embed_step_simps Let_def split: option.splits)

lemma embed_run_orient:
  "ws_set_resets ws \<Longrightarrow> orient_inv e \<Longrightarrow> orient_inv (fst (embed_run ws e ms))"
proof (induction ms arbitrary: e)
  case Nil
  then show ?case by simp
next
  case (Cons m ms)
  then have "orient_inv (fst (embed_handle ws e m))" by (intro embed_handle_orient)
  with Cons.prems(1) show ?case unfolding embed_run_Cons_fst by (rule Cons.IH)
qed

lemma embed_init_orient: "orient_inv (embed_init orig)"
  by (simp add: orient_inv_def embed_init_def board_init_def)

subsection \<open>Frame facts for the composed system\<close>

lemma embed_handle_role:
  "em_role (fst (embed_handle ws e m)) = (case m of ROLE_ASSIGN r \<Rightarrow> Some r | _ \<Rightarrow> em_role e)"
  by (cases m) (simp_all add: embed_step_simps Let_def split: option.splits)

lemma embed_handle_origin [simp]: "em_origin (fst (embed_handle ws e m)) = em_origin e"
  by (cases m) (simp_all add: embed_step_simps Let_def split: option.splits)

lemma embed_onUserMove_eq:
  "embed_onUserMove e = (e, if em_applyingRemote e then [] else [BOARD_UPDATE (bd_fen (em_board e))])"
  by (simp add: embed_onUserMove_def)

lemma embed_user_move_inv:
  "embed_inv e \<Longrightarrow> embed_inv (e\<lparr>em_board := b\<rparr>)"
  "orient_inv e \<Longrightarrow> bd_reversed b = bd_reversed (em_board e) \<Longrightarrow> orient_inv (e\<lparr>em_board := b\<rparr>)"
  by (simp_all add: embed_inv_def orient_inv_def)

section \<open>Claims about the board controller\<close>

text \<open>
  C5. No echo: whatever the widget does on programmatic changes (even if it fires its
  move callback during \<open>setFEN\<close> or \<open>reset\<close>), handling any sequence of messages from
  the host posts nothing back to the host.
\<close>

theorem embed_no_echo:
  "snd (embed_onMessage ws e ev) = [] \<and> snd (embed_run ws e ms) = []"
proof
  show "snd (embed_onMessage ws e ev) = []"
    by (simp add: embed_onMessage_def embed_handle_no_echo split: option.splits)
  show "snd (embed_run ws e ms) = []"
    by (rule embed_run_no_echo)
qed

text \<open>
  C9. Role assignment is idempotent: handling the same \<open>ROLE_ASSIGN\<close> twice gives the
  state handling it once gives, so a black board is flipped once, not twice, although
  \<open>reverse()\<close> is a toggle.
\<close>

theorem embed_role_assign_idempotent:
  "embed_handle ws (fst (embed_handle ws e (ROLE_ASSIGN r))) (ROLE_ASSIGN r) =
     embed_handle ws e (ROLE_ASSIGN r)"
  by (simp add: ensureOrientation_def Let_def)

text \<open>
  A \<open>TURN\<close> message enables moves exactly when the announced side is the board's
  role, and is ignored by a board that has no role yet; nothing else changes.
\<close>

theorem embed_turn_gating:
  "embed_handle ws e (TURN t) =
     ((case em_role e of None \<Rightarrow> e | Some r \<Rightarrow> e\<lparr>em_moveDisabled := (t \<noteq> turn_of r)\<rparr>), [])"
  by (simp split: option.splits)

text \<open>
  \<open>RESET\<close> shows the start position, leaves the echo guard down, orients the
  board for its role, and enables moves exactly on the white board.
\<close>

theorem embed_reset_restarts:
  "bd_fen (em_board (fst (embed_handle ws e RESET))) = board_start_fen \<and>
   \<not> em_applyingRemote (fst (embed_handle ws e RESET)) \<and>
   em_isReversed (fst (embed_handle ws e RESET)) = (em_role e = Some Black) \<and>
   em_moveDisabled (fst (embed_handle ws e RESET)) = (em_role e \<noteq> Some White) \<and>
   em_role (fst (embed_handle ws e RESET)) = em_role e"
  by (simp add: embed_step_simps Let_def)

text \<open>
  C19. The orientation logic of \<open>SYNC_STATE\<close> is right only if the widget's
  \<open>setFEN\<close> resets the orientation: on a correctly oriented black board, the
  orientation invariant survives a \<open>SYNC_STATE\<close> exactly when \<open>setFEN\<close> resets the
  orientation; if it keeps it, the unconditional \<open>isReversed = false\<close> makes
  \<open>ensureOrientation\<close> flip the board back to white-at-bottom.
\<close>

theorem embed_orientation_needs_reset:
  assumes "orient_inv e" and "em_role e = Some Black"
  shows "orient_inv (fst (embed_handle ws e (SYNC_STATE f pgn))) \<longleftrightarrow> ws_set_resets ws"
  using assms by (auto simp: orient_inv_def embed_step_simps Let_def)

theorem embed_orientation_needs_reset_witness:
  "orient_inv demo_black_board \<and> em_role demo_black_board = Some Black \<and>
   \<not> orient_inv (fst (embed_handle \<lparr>ws_set_resets = False, ws_set_fires_move = False\<rparr>
        demo_black_board (SYNC_STATE ''Kk w'' None)))"
proof -
  have o: "orient_inv demo_black_board"
    by (simp add: demo_black_board_def orient_inv_def embed_init_def board_init_def
        ensureOrientation_def)
  have b: "em_role demo_black_board = Some Black"
    by (simp add: demo_black_board_def)
  show ?thesis
    using o b embed_orientation_needs_reset [OF o b,
        of "\<lparr>ws_set_resets = False, ws_set_fires_move = False\<rparr>" "''Kk w''" None]
    by simp
qed

end
