(* ===== verification/Json_String.thy ===== *)
theory Json_String
  imports Chess_Prelude
begin

text \<open>
  JSON string literals as \<open>JSON.stringify\<close> writes them (ECMAScript's
  QuoteJSONString) and as \<open>JSON.parse\<close> reads them, on byte strings, with the proof
  that reading a written literal gives the string back. A \<open>\u\<close> escape above
  \<open>00ff\<close> has no byte and is rejected; \<open>JSON.stringify\<close> never writes one here.
\<close>

section \<open>String escaping\<close>

abbreviation dq :: char where "dq \<equiv> CHR 0x22"
abbreviation bsl :: char where "bsl \<equiv> CHR 0x5C"

definition hex_digit :: "nat \<Rightarrow> char" where
  "hex_digit n = (if n < 10 then char_of (48 + n) else char_of (87 + n))"

definition hex_val :: "char \<Rightarrow> nat option" where
  "hex_val c =
     (let n = of_char c :: nat in
      if 48 \<le> n \<and> n \<le> 57 then Some (n - 48)
      else if 97 \<le> n \<and> n \<le> 102 then Some (n - 87)
      else if 65 \<le> n \<and> n \<le> 70 then Some (n - 55)
      else None)"

text \<open>QuoteJSONString, one code unit at a time.\<close>

definition json_esc :: "char \<Rightarrow> string" where
  "json_esc c =
     (if c = dq then [bsl, dq]
      else if c = bsl then [bsl, bsl]
      else if c = CHR 0x08 then [bsl, CHR ''b'']
      else if c = CHR 0x09 then [bsl, CHR ''t'']
      else if c = CHR 0x0A then [bsl, CHR ''n'']
      else if c = CHR 0x0C then [bsl, CHR ''f'']
      else if c = CHR 0x0D then [bsl, CHR ''r'']
      else if of_char c < (32::nat)
        then [bsl, CHR ''u'', CHR ''0'', CHR ''0'',
              hex_digit (of_char c div 16), hex_digit (of_char c mod 16)]
      else [c])"

definition json_quote :: "string \<Rightarrow> string" where
  "json_quote s = dq # concat (map json_esc s) @ [dq]"

text \<open>The one-character escapes JSON.parse accepts after a backslash.\<close>

definition unesc_simple :: "char \<Rightarrow> char option" where
  "unesc_simple e =
     (if e = dq then Some dq else if e = bsl then Some bsl
      else if e = CHR ''/'' then Some (CHR ''/'')
      else if e = CHR ''b'' then Some (CHR 0x08) else if e = CHR ''t'' then Some (CHR 0x09)
      else if e = CHR ''n'' then Some (CHR 0x0A) else if e = CHR ''f'' then Some (CHR 0x0C)
      else if e = CHR ''r'' then Some (CHR 0x0D) else None)"

definition hex4 :: "char \<Rightarrow> char \<Rightarrow> char \<Rightarrow> char \<Rightarrow> char option" where
  "hex4 a b c d =
     (case (hex_val a, hex_val b, hex_val c, hex_val d) of
        (Some x, Some y, Some z, Some w) \<Rightarrow>
          (let v = 4096 * x + 256 * y + 16 * z + w in if v < 256 then Some (char_of v) else None)
      | _ \<Rightarrow> None)"

text \<open>
  The body of a JSON string literal after its opening quote: the decoded characters and
  the text after the closing quote. A raw control character is a syntax error.
\<close>

fun json_unq :: "string \<Rightarrow> (string \<times> string) option" where
  "json_unq [] = None"
| "json_unq (c # cs) =
     (if c = dq then Some ([], cs)
      else if c = bsl then
        (case cs of
           [] \<Rightarrow> None
         | e # cs' \<Rightarrow>
             (if e = CHR ''u'' then
                (case cs' of
                   h1 # h2 # h3 # h4 # cs'' \<Rightarrow>
                     (case hex4 h1 h2 h3 h4 of
                        None \<Rightarrow> None
                      | Some d \<Rightarrow> map_option (apfst (Cons d)) (json_unq cs''))
                 | _ \<Rightarrow> None)
              else
                (case unesc_simple e of
                   None \<Rightarrow> None
                 | Some d \<Rightarrow> map_option (apfst (Cons d)) (json_unq cs'))))
      else if of_char c < (32::nat) then None
      else map_option (apfst (Cons c)) (json_unq cs))"

section \<open>Escaping round trip\<close>

lemma hex_val_hex_digit: "n < 16 \<Longrightarrow> hex_val (hex_digit n) = Some n"
  by (auto simp: hex_val_def hex_digit_def Let_def)

lemma json_unq_esc:
  "json_unq (json_esc c @ xs) = map_option (apfst (Cons c)) (json_unq xs)"
proof -
  have lt: "of_char c < (32::nat) \<Longrightarrow>
      hex4 (CHR ''0'') (CHR ''0'') (hex_digit (of_char c div 16)) (hex_digit (of_char c mod 16))
        = Some c"
    by (simp add: hex4_def hex_val_hex_digit Let_def) (simp add: hex_val_def)
  show ?thesis
    using lt by (simp add: json_esc_def unesc_simple_def)
qed

lemma json_unq_quote_body:
  "json_unq (concat (map json_esc s) @ dq # rest) = Some (s, rest)"
  by (induction s) (simp_all add: json_unq_esc)

lemma json_unq_shorter: "json_unq s = Some (r, rest) \<Longrightarrow> length rest < length s"
proof (induction s arbitrary: r rule: json_unq.induct)
  case 1
  then show ?case by simp
next
  case (2 c cs)
  then show ?case
    by (fastforce split: if_splits list.splits option.splits)
qed

end
