(* ===== verification/Json.thy ===== *)
theory Json
  imports Json_String
begin

text \<open>
  The JSON text of the persisted session records. \<open>StorageService.save\<close> writes
  \<open>JSON.stringify(state)\<close> and \<open>load\<close> reads \<open>JSON.parse(raw)\<close>; the states saved are
  flat objects whose fields are strings (\<open>{fen}\<close> offline, \<open>{code, role, clientId}\<close>
  online). This theory models \<open>JSON.stringify\<close> on such objects (fields in insertion
  order, no whitespace) and a parser for the same shape, and proves that parsing a
  stringified object gives the object back.
\<close>

section \<open>Flat objects of string fields\<close>

text \<open>
  \<open>JSON.stringify\<close> of an object whose fields are strings: the fields in insertion
  order, each \<open>"key":"value"\<close>, separated by commas, no whitespace.
\<close>

fun json_members_enc :: "(string \<times> string) list \<Rightarrow> string" where
  "json_members_enc [] = ''}''"
| "json_members_enc [(k, v)] = json_quote k @ CHR '':'' # json_quote v @ ''}''"
| "json_members_enc ((k, v) # kvs) =
     json_quote k @ CHR '':'' # json_quote v @ CHR '','' # json_members_enc kvs"

definition json_stringify_obj :: "(string \<times> string) list \<Rightarrow> string" where
  "json_stringify_obj kvs = CHR ''{'' # json_members_enc kvs"

text \<open>
  The parser for the members of such an object, after its opening brace. It fails
  (\<open>None\<close>, a thrown \<open>SyntaxError\<close>) on any other shape.
\<close>

function json_members :: "string \<Rightarrow> (string \<times> string) list option" where
  "json_members s =
     (case s of
        [] \<Rightarrow> None
      | c # s1 \<Rightarrow>
          if c = CHR ''}'' \<and> s1 = [] then Some []
          else if c \<noteq> dq then None
          else
            (case json_unq s1 of
               None \<Rightarrow> None
             | Some (k, s2) \<Rightarrow>
                 (case s2 of
                    c2 # c3 # s3 \<Rightarrow>
                      if c2 \<noteq> CHR '':'' \<or> c3 \<noteq> dq then None
                      else
                        (case json_unq s3 of
                           None \<Rightarrow> None
                         | Some (v, s4) \<Rightarrow>
                             (case s4 of
                                [] \<Rightarrow> None
                              | c4 # s5 \<Rightarrow>
                                  if c4 = CHR ''}'' \<and> s5 = [] then Some [(k, v)]
                                  else if c4 = CHR '','' then map_option (Cons (k, v)) (json_members s5)
                                  else None))
                  | _ \<Rightarrow> None)))"
  by pat_completeness auto
termination
  by (relation "measure length") (auto dest!: json_unq_shorter)

declare json_members.simps [simp del]

definition json_parse_obj :: "string \<Rightarrow> (string \<times> string) list option" where
  "json_parse_obj s = (case s of c # s1 \<Rightarrow> if c = CHR ''{'' then json_members s1 else None | [] \<Rightarrow> None)"

section \<open>Object round trip\<close>

lemma json_unq_quote:
  "json_unq (tl (json_quote s) @ rest) = Some (s, rest)"
  by (simp add: json_quote_def json_unq_quote_body)

lemma json_members_member:
  "json_members (json_quote k @ CHR '':'' # json_quote v @ c # rest) =
     (if c = CHR ''}'' \<and> rest = [] then Some [(k, v)]
      else if c = CHR '','' then map_option (Cons (k, v)) (json_members rest) else None)"
  by (subst json_members.simps) (simp add: json_quote_def json_unq_quote_body)

lemma json_members_enc_roundtrip: "json_members (json_members_enc kvs) = Some kvs"
proof (induction kvs rule: json_members_enc.induct)
  case 1
  then show ?case by (simp add: json_members.simps)
next
  case (2 k v)
  then show ?case using json_members_member [of k v "CHR ''}''" "[]"] by simp
next
  case (3 k v kv kvs)
  then show ?case
    using json_members_member [of k v "CHR '',''" "json_members_enc (kv # kvs)"] by simp
qed

lemma json_parse_stringify_obj: "json_parse_obj (json_stringify_obj kvs) = Some kvs"
  by (simp add: json_parse_obj_def json_stringify_obj_def json_members_enc_roundtrip)

lemma json_stringify_obj_nonempty: "json_stringify_obj kvs \<noteq> []"
  by (simp add: json_stringify_obj_def)

end
