(* ===== verification/Storage.thy ===== *)
theory Storage
  imports Json Messages
begin

text \<open>
  \<open>StorageService<T>\<close> (\<open>src/src/app/services/storage.service.ts\<close>): a typed view
  of one key of the browser's \<open>localStorage\<close>. The browser store is a map from keys to
  strings, shared by every page of the origin; it can be unusable (storage disabled,
  quota exceeded), in which case every access throws and the service swallows the
  exception. \<open>T\<close> is read and written through a codec, \<open>JSON.stringify\<close> and
  \<open>JSON.parse\<close>; the two record types the application stores have their codecs here.
\<close>

section \<open>The browser store and the service\<close>

record local_storage =
  ls_items :: "string \<rightharpoonup> string"
  ls_ok :: bool

record 't codec =
  cd_stringify :: "'t \<Rightarrow> string"
  cd_parse :: "string \<Rightarrow> 't option"

text \<open>
  \<open>load()\<close>: a missing item and the empty string (falsy) give \<open>null\<close>, a parse error
  gives \<open>null\<close>, a storage error gives \<open>null\<close>.
\<close>

definition storage_load :: "string \<Rightarrow> 't codec \<Rightarrow> local_storage \<Rightarrow> 't option" where
  "storage_load key cd ls =
     (if \<not> ls_ok ls then None
      else case ls_items ls key of
             None \<Rightarrow> None
           | Some raw \<Rightarrow> if raw = [] then None else cd_parse cd raw)"

definition storage_save :: "string \<Rightarrow> 't codec \<Rightarrow> 't \<Rightarrow> local_storage \<Rightarrow> local_storage" where
  "storage_save key cd x ls =
     (if \<not> ls_ok ls then ls else ls\<lparr>ls_items := (ls_items ls)(key \<mapsto> cd_stringify cd x)\<rparr>)"

definition storage_clear :: "string \<Rightarrow> local_storage \<Rightarrow> local_storage" where
  "storage_clear key ls =
     (if \<not> ls_ok ls then ls else ls\<lparr>ls_items := (ls_items ls)(key := None)\<rparr>)"

section \<open>The offline session record\<close>

text \<open>
  \<open>type SavedState = { fen: string }\<close>, stored under \<open>'offline-game-state'\<close> by the
  host page. A parsed object without a \<open>fen\<close> member reads as the empty string, which
  the host's test \<open>saved?.fen\<close> treats as the missing (falsy) member it is.
\<close>

record saved_state =
  saved_fen :: fen

definition offline_key :: string where
  "offline_key = ''offline-game-state''"

definition saved_stringify :: "saved_state \<Rightarrow> string" where
  "saved_stringify st = json_stringify_obj [(''fen'', saved_fen st)]"

definition saved_parse :: "string \<Rightarrow> saved_state option" where
  "saved_parse raw =
     map_option (\<lambda>kvs. \<lparr>saved_fen = (case map_of kvs ''fen'' of Some f \<Rightarrow> f | None \<Rightarrow> [])\<rparr>)
       (json_parse_obj raw)"

definition saved_codec :: "saved_state codec" where
  "saved_codec = \<lparr>cd_stringify = saved_stringify, cd_parse = saved_parse\<rparr>"

text \<open>The key of the online page's session (\<open>online-game.component.ts\<close>, line 48).\<close>

definition online_key :: string where
  "online_key = ''online-game-state''"

text \<open>A fresh, usable browser store, for the witnesses.\<close>

definition fresh_store :: local_storage where
  "fresh_store = \<lparr>ls_items = Map.empty, ls_ok = True\<rparr>"

section \<open>Properties of the service\<close>

definition codec_ok :: "'t codec \<Rightarrow> bool" where
  "codec_ok cd \<longleftrightarrow> (\<forall>x. cd_parse cd (cd_stringify cd x) = Some x \<and> cd_stringify cd x \<noteq> [])"

lemma storage_ok_simps [simp]:
  "ls_ok (storage_save k cd x ls) = ls_ok ls" "ls_ok (storage_clear k ls) = ls_ok ls"
  by (simp_all add: storage_save_def storage_clear_def)

lemma storage_load_save_same:
  "ls_ok ls \<Longrightarrow> codec_ok cd \<Longrightarrow> storage_load k cd (storage_save k cd x ls) = Some x"
  by (simp add: storage_load_def storage_save_def codec_ok_def)

lemma storage_load_save_other:
  "k \<noteq> k' \<Longrightarrow> storage_load k' cd' (storage_save k cd x ls) = storage_load k' cd' ls"
  by (simp add: storage_load_def storage_save_def)

lemma storage_load_clear_same: "storage_load k cd (storage_clear k ls) = None"
  by (simp add: storage_load_def storage_clear_def)

lemma storage_load_clear_other:
  "k \<noteq> k' \<Longrightarrow> storage_load k' cd (storage_clear k ls) = storage_load k' cd ls"
  by (simp add: storage_load_def storage_clear_def)

lemma storage_failed_simps [simp]:
  "\<not> ls_ok ls \<Longrightarrow> storage_load k cd ls = None"
  "\<not> ls_ok ls \<Longrightarrow> storage_save k cd x ls = ls"
  "\<not> ls_ok ls \<Longrightarrow> storage_clear k ls = ls"
  by (simp_all add: storage_load_def storage_save_def storage_clear_def)

lemma saved_codec_ok: "codec_ok saved_codec"
  by (simp add: codec_ok_def saved_codec_def saved_stringify_def saved_parse_def
      json_parse_stringify_obj json_stringify_obj_nonempty)

section \<open>Claims about the storage service\<close>

text \<open>
  C13. Round trip of the offline session: on a usable store, loading the offline key
  after saving a session record gives the record back, whatever its position string
  contains (quotes, backslashes, control characters are escaped and unescaped).
\<close>

theorem storage_roundtrip_saved_state:
  "ls_ok ls \<Longrightarrow> storage_load offline_key saved_codec (storage_save offline_key saved_codec st ls) = Some st"
  using saved_codec_ok by (simp add: storage_load_save_same)

theorem storage_roundtrip_saved_state_witness:
  "ls_ok fresh_store \<and>
   storage_load offline_key saved_codec
     (storage_save offline_key saved_codec \<lparr>saved_fen = (''a'' @ CHR 0x22 # CHR 0x5C # CHR 0x0A # ''c'')\<rparr> fresh_store) =
   Some \<lparr>saved_fen = (''a'' @ CHR 0x22 # CHR 0x5C # CHR 0x0A # ''c'')\<rparr>"
proof -
  have ok: "ls_ok fresh_store" by (simp add: fresh_store_def)
  show ?thesis using ok storage_roundtrip_saved_state [OF ok] by simp
qed


end
