(* ===== verification/Host.thy ===== *)
theory Host
  imports Engine Storage
begin

text \<open>
  The offline host page (\<open>GameHostComponent\<close>,
  \<open>src/src/app/features/game-host/game-host.component.ts\<close>): the single source of truth
  of a two-frame local game. Its state is the record \<open>host\<close>, parametric in the
  engine's position type; every handler takes the engine \<open>E\<close> and returns the new state
  and the messages it posts, as pairs of target window and message, in posting order.
  \<open>postTo\<close> with a \<open>null\<close> target posts nothing.
\<close>

section \<open>State\<close>

record 'p host =
  h_origin :: origin
  h_window1 :: "win option"
  h_window2 :: "win option"
  h_chess :: 'p
  h_currentTurnText :: string
  h_overlayVisible :: bool
  h_overlayText :: string
  h_storage :: local_storage

type_synonym posts = "(win \<times> wire_message) list"

text \<open>
  The component as constructed: \<open>new Chess()\<close>, empty texts, and the two frames'
  windows (their \<open>contentWindow\<close>s, fixed once the view exists).
\<close>

definition host_init ::
  "'p chess_engine \<Rightarrow> origin \<Rightarrow> win option \<Rightarrow> win option \<Rightarrow> local_storage \<Rightarrow> 'p host" where
  "host_init E orig w1 w2 ls =
     \<lparr>h_origin = orig, h_window1 = w1, h_window2 = w2, h_chess = eng_start E,
      h_currentTurnText = [], h_overlayVisible = False, h_overlayText = [], h_storage = ls\<rparr>"

section \<open>Helpers\<close>

definition postTo :: "win option \<Rightarrow> wire_message \<Rightarrow> posts" where
  "postTo target msg = (case target of None \<Rightarrow> [] | Some w \<Rightarrow> [(w, msg)])"

definition postToBoth :: "'p host \<Rightarrow> wire_message \<Rightarrow> posts" where
  "postToBoth h msg = postTo (h_window1 h) msg @ postTo (h_window2 h) msg"

definition otherWindow :: "'p host \<Rightarrow> win \<Rightarrow> win option" where
  "otherWindow h src = (if Some src = h_window1 h then h_window2 h else h_window1 h)"

definition currentTurnWindow :: "'p chess_engine \<Rightarrow> 'p host \<Rightarrow> win option" where
  "currentTurnWindow E h = (if eng_turn E (h_chess h) = Tw then h_window1 h else h_window2 h)"

definition syncStateTo :: "'p chess_engine \<Rightarrow> 'p host \<Rightarrow> win \<Rightarrow> posts" where
  "syncStateTo E h target = postTo (Some target) (SYNC_STATE (eng_fen E (h_chess h)) None)"

definition broadcastTurn :: "'p chess_engine \<Rightarrow> 'p host \<Rightarrow> 'p host \<times> posts" where
  "broadcastTurn E h =
     (let turn = eng_turn E (h_chess h)
      in (h\<lparr>h_currentTurnText := (if turn = Tw then ''White to move'' else ''Black to move'')\<rparr>,
          postToBoth h (TURN turn)))"

section \<open>Message handling\<close>

text \<open>
  The accepted-move branch of \<open>BOARD_UPDATE\<close>, after the turn check and the
  successful \<open>load\<close>: persist the reported string, then either announce the checkmate or
  mirror the move to the other frame and announce the next turn.
\<close>

definition host_accept :: "'p chess_engine \<Rightarrow> 'p host \<Rightarrow> win \<Rightarrow> fen \<Rightarrow> 'p \<Rightarrow> 'p host \<times> posts" where
  "host_accept E h src f p =
     (let h1 = h\<lparr>h_chess := p,
                 h_storage := storage_save offline_key saved_codec \<lparr>saved_fen = f\<rparr> (h_storage h)\<rparr>
      in if eng_checkmate E p
         then (let winner = winner_of (eng_turn E p)
               in (h1\<lparr>h_overlayText := checkmate_text winner, h_overlayVisible := True\<rparr>,
                   postToBoth h1 (GAME_OVER winner Checkmate)))
         else (let out1 = postTo (otherWindow h1 src) (SYNC_STATE f None);
                   (h2, out2) = broadcastTurn E h1
               in (h2, out1 @ out2)))"

text \<open>The \<open>switch (data.type)\<close> of \<open>onMessage\<close>, for a message from window \<open>src\<close>.\<close>

fun host_handle :: "'p chess_engine \<Rightarrow> 'p host \<Rightarrow> win \<Rightarrow> wire_message \<Rightarrow> 'p host \<times> posts" where
  "host_handle E h src IFRAME_READY =
     (let role = (if Some src = h_window1 h then White else Black);
          out1 = postTo (Some src) (ROLE_ASSIGN role) @ syncStateTo E h src;
          (h1, out2) = broadcastTurn E h
      in (h1, out1 @ out2))"
| "host_handle E h src REQUEST_SYNC =
     (let out1 = syncStateTo E h src; (h1, out2) = broadcastTurn E h in (h1, out1 @ out2))"
| "host_handle E h src (BOARD_UPDATE f) =
     (if currentTurnWindow E h \<noteq> Some src then (h, [])
      else case eng_load E f of
             None \<Rightarrow> (h, [])
           | Some p \<Rightarrow> host_accept E h src f p)"
| "host_handle E h src (ROLE_ASSIGN r) = (h, [])"
| "host_handle E h src (SYNC_STATE f pgn) = (h, [])"
| "host_handle E h src (TURN t) = (h, [])"
| "host_handle E h src RESET = (h, [])"
| "host_handle E h src (GAME_OVER w reason) = (h, [])"

text \<open>\<open>onMessage\<close>: the same-origin guard, the \<open>null\<close>-source guard, the shape test.\<close>

definition host_onMessage :: "'p chess_engine \<Rightarrow> 'p host \<Rightarrow> msg_event \<Rightarrow> 'p host \<times> posts" where
  "host_onMessage E h ev =
     (if ev_origin ev \<noteq> h_origin h then (h, [])
      else case ev_source ev of
             None \<Rightarrow> (h, [])
           | Some src \<Rightarrow> (case ev_data ev of None \<Rightarrow> (h, []) | Some m \<Rightarrow> host_handle E h src m))"

section \<open>User operations\<close>

text \<open>\<open>ngAfterViewInit\<close>: restore the last unfinished game; a load error is swallowed.\<close>

definition host_afterViewInit :: "'p chess_engine \<Rightarrow> 'p host \<Rightarrow> 'p host" where
  "host_afterViewInit E h =
     (case storage_load offline_key saved_codec (h_storage h) of
        None \<Rightarrow> h
      | Some saved \<Rightarrow>
          if saved_fen saved = [] then h
          else (case eng_load E (saved_fen saved) of None \<Rightarrow> h | Some p \<Rightarrow> h\<lparr>h_chess := p\<rparr>))"

text \<open>\<open>newGame\<close>: fresh engine, storage cleared, then RESET, the fresh position and the turn to both.\<close>

definition newGame :: "'p chess_engine \<Rightarrow> 'p host \<Rightarrow> 'p host \<times> posts" where
  "newGame E h =
     (let h1 = h\<lparr>h_chess := eng_start E, h_storage := storage_clear offline_key (h_storage h),
                 h_overlayVisible := False, h_overlayText := []\<rparr>;
          fen = eng_fen E (h_chess h1);
          out1 = postToBoth h1 RESET @ postToBoth h1 (SYNC_STATE fen None);
          (h2, out2) = broadcastTurn E h1
      in (h2, out1 @ out2))"

definition openOverlay :: "'p host \<Rightarrow> 'p host" where
  "openOverlay h = h\<lparr>h_overlayText := ''Do you want to reset the game?'', h_overlayVisible := True\<rparr>"

text \<open>The host as the witnesses run it: the demo engine, frames 1 and 2, a fresh store.\<close>

definition demo_host :: "demo_pos host" where
  "demo_host = host_init demo_engine ''http://localhost:4200'' (Some 1) (Some 2) fresh_store"

section \<open>Properties of the host\<close>

lemma postTo_simps [simp]:
  "postTo None m = []" "postTo (Some w) m = [(w, m)]"
  by (simp_all add: postTo_def)

lemma host_accept_eq:
  "host_accept E h src f p =
     (if eng_checkmate E p
      then (h\<lparr>h_chess := p,
              h_storage := storage_save offline_key saved_codec \<lparr>saved_fen = f\<rparr> (h_storage h),
              h_overlayText := checkmate_text (winner_of (eng_turn E p)), h_overlayVisible := True\<rparr>,
            postToBoth h (GAME_OVER (winner_of (eng_turn E p)) Checkmate))
      else (h\<lparr>h_chess := p,
              h_storage := storage_save offline_key saved_codec \<lparr>saved_fen = f\<rparr> (h_storage h),
              h_currentTurnText := (if eng_turn E p = Tw then ''White to move'' else ''Black to move'')\<rparr>,
            postTo (otherWindow h src) (SYNC_STATE f None) @ postToBoth h (TURN (eng_turn E p))))"
  by (simp add: host_accept_def broadcastTurn_def postToBoth_def otherWindow_def Let_def)

text \<open>Only a \<open>BOARD_UPDATE\<close> can change the position or the stored game.\<close>

lemma host_handle_other_keeps:
  "\<forall>f. m \<noteq> BOARD_UPDATE f \<Longrightarrow>
     h_chess (fst (host_handle E h src m)) = h_chess h \<and>
     h_storage (fst (host_handle E h src m)) = h_storage h"
  by (cases m) (simp_all add: broadcastTurn_def Let_def split_def)

lemma host_accept_chess [simp]: "h_chess (fst (host_accept E h src f p)) = p"
  by (simp add: host_accept_eq)

lemma host_accept_storage [simp]:
  "h_storage (fst (host_accept E h src f p)) =
     storage_save offline_key saved_codec \<lparr>saved_fen = f\<rparr> (h_storage h)"
  by (simp add: host_accept_eq)

lemma host_accept_windows [simp]:
  "h_window1 (fst (host_accept E h src f p)) = h_window1 h"
  "h_window2 (fst (host_accept E h src f p)) = h_window2 h"
  "h_origin (fst (host_accept E h src f p)) = h_origin h"
  by (simp_all add: host_accept_eq)

lemma host_handle_windows [simp]:
  "h_window1 (fst (host_handle E h src m)) = h_window1 h"
  "h_window2 (fst (host_handle E h src m)) = h_window2 h"
  "h_origin (fst (host_handle E h src m)) = h_origin h"
  by (cases m; simp add: broadcastTurn_def Let_def split_def split: option.splits)+

lemma host_init_afterViewInit_stored:
  "ls_ok ls \<Longrightarrow> f \<noteq> [] \<Longrightarrow> eng_load E f = Some p \<Longrightarrow>
     h_chess (host_afterViewInit E (host_init E orig w1 w2
        (storage_save offline_key saved_codec \<lparr>saved_fen = f\<rparr> ls))) = p"
  using saved_codec_ok
  by (simp add: host_afterViewInit_def host_init_def storage_load_save_same)

lemma host_init_afterViewInit_cleared:
  "h_chess (host_afterViewInit E (host_init E orig w1 w2 (storage_clear offline_key ls))) = eng_start E"
  by (simp add: host_afterViewInit_def host_init_def storage_load_clear_same)

lemma host_handle_role_assign:
  "(w, ROLE_ASSIGN r) \<in> set (snd (host_handle E h src m)) \<Longrightarrow>
     w = src \<and> r = (if Some src = h_window1 h then White else Black)"
  by (cases m)
     (auto simp: syncStateTo_def broadcastTurn_def postToBoth_def postTo_def host_accept_eq
        Let_def split_def split: option.splits if_splits)

lemma host_onMessage_cases:
  "host_onMessage E h ev = (h, []) \<or>
     (\<exists>src m. ev_source ev = Some src \<and> ev_data ev = Some m \<and> host_onMessage E h ev = host_handle E h src m)"
  by (auto simp: host_onMessage_def split: option.splits)

lemma newGame_no_role_assign: "(w, ROLE_ASSIGN r) \<notin> set (snd (newGame E h))"
  by (auto simp: newGame_def broadcastTurn_def postToBoth_def postTo_def Let_def split: option.splits)

lemma newGame_windows [simp]:
  "h_window1 (fst (newGame E h)) = h_window1 h"
  "h_window2 (fst (newGame E h)) = h_window2 h"
  "h_origin (fst (newGame E h)) = h_origin h"
  by (simp_all add: newGame_def broadcastTurn_def Let_def)

lemma host_afterViewInit_windows [simp]:
  "h_window1 (host_afterViewInit E h) = h_window1 h"
  "h_window2 (host_afterViewInit E h) = h_window2 h"
  "h_origin (host_afterViewInit E h) = h_origin h"
  by (simp_all add: host_afterViewInit_def split: option.splits)

section \<open>Claims about the host\<close>

text \<open>
  C1. A move report from a frame that is not the frame of the side to move is ignored:
  the host's state does not change and nothing is posted.
\<close>

theorem host_rejects_wrong_turn:
  "currentTurnWindow E h \<noteq> Some src \<Longrightarrow> host_handle E h src (BOARD_UPDATE f) = (h, [])"
  by simp

theorem host_rejects_wrong_turn_witness:
  "currentTurnWindow demo_engine demo_host \<noteq> Some 2 \<and>
   host_handle demo_engine demo_host 2 (BOARD_UPDATE ''Kk b'') = (demo_host, [])"
proof -
  have w: "currentTurnWindow demo_engine demo_host \<noteq> Some 2"
    by (simp add: currentTurnWindow_def demo_host_def host_init_def demo_engine_def)
  show ?thesis using w host_rejects_wrong_turn [OF w] by simp
qed

text \<open>
  C2. A move report whose position the rules engine rejects is ignored: no state change
  (position, stored game, texts), nothing posted.
\<close>

theorem host_rejects_invalid_position:
  "eng_load E f = None \<Longrightarrow> host_handle E h src (BOARD_UPDATE f) = (h, [])"
  by simp

theorem host_rejects_invalid_position_witness:
  "eng_load demo_engine ''garbage'' = None \<and>
   host_handle demo_engine demo_host 1 (BOARD_UPDATE ''garbage'') = (demo_host, [])"
proof -
  have n: "eng_load demo_engine ''garbage'' = None"
    by (simp add: demo_engine_def demo_load_def)
  show ?thesis using n host_rejects_invalid_position [OF n] by simp
qed

text \<open>
  C6. An accepted move that checkmates is announced to both frames as one
  \<open>GAME_OVER\<close> naming the side that is not to move, the overlay shows the winner, and
  nothing else is posted (in particular no \<open>SYNC_STATE\<close> and no \<open>TURN\<close>).
\<close>

theorem host_checkmate_announces_winner:
  assumes "currentTurnWindow E h = Some src" and "eng_load E f = Some p" and "eng_checkmate E p"
  shows "snd (host_handle E h src (BOARD_UPDATE f)) =
           postToBoth h (GAME_OVER (winner_of (eng_turn E p)) Checkmate) \<and>
         turn_of (winner_of (eng_turn E p)) \<noteq> eng_turn E p \<and>
         h_overlayVisible (fst (host_handle E h src (BOARD_UPDATE f))) \<and>
         h_overlayText (fst (host_handle E h src (BOARD_UPDATE f))) =
           checkmate_text (winner_of (eng_turn E p))"
  using assms by (simp add: host_accept_eq)

theorem host_checkmate_announces_winner_witness:
  "snd (host_handle demo_engine demo_host 1 (BOARD_UPDATE ''K b'')) =
     [(1, GAME_OVER White Checkmate), (2, GAME_OVER White Checkmate)]"
proof -
  let ?p = "\<lparr>dp_placement = ''K'', dp_side = Tb\<rparr>"
  have c: "currentTurnWindow demo_engine demo_host = Some 1"
    by (simp add: currentTurnWindow_def demo_host_def host_init_def demo_engine_def)
  have l: "eng_load demo_engine ''K b'' = Some ?p"
    by (simp add: demo_engine_def demo_load_def)
  have m: "eng_checkmate demo_engine ?p"
    by (simp add: demo_engine_def demo_checkmate_def)
  show ?thesis
    using host_checkmate_announces_winner [OF c l m]
    by (simp add: postToBoth_def demo_host_def host_init_def demo_engine_def winner_of_def)
qed

text \<open>
  C7. An accepted move that does not checkmate replaces the host's position, persists the
  reported string, mirrors it to the other frame only, and then announces the new side
  to move to both frames.
\<close>

theorem host_accepts_move:
  assumes "currentTurnWindow E h = Some src" and "eng_load E f = Some p" and "\<not> eng_checkmate E p"
  shows "host_handle E h src (BOARD_UPDATE f) =
     (h\<lparr>h_chess := p,
        h_storage := storage_save offline_key saved_codec \<lparr>saved_fen = f\<rparr> (h_storage h),
        h_currentTurnText := (if eng_turn E p = Tw then ''White to move'' else ''Black to move'')\<rparr>,
      postTo (otherWindow h src) (SYNC_STATE f None) @ postToBoth h (TURN (eng_turn E p)))"
  using assms by (simp add: host_accept_eq)

theorem host_accepts_move_witness:
  "snd (host_handle demo_engine demo_host 1 (BOARD_UPDATE ''Kk b'')) =
     [(2, SYNC_STATE ''Kk b'' None), (1, TURN Tb), (2, TURN Tb)]"
proof -
  let ?p = "\<lparr>dp_placement = ''Kk'', dp_side = Tb\<rparr>"
  have c: "currentTurnWindow demo_engine demo_host = Some 1"
    by (simp add: currentTurnWindow_def demo_host_def host_init_def demo_engine_def)
  have l: "eng_load demo_engine ''Kk b'' = Some ?p"
    by (simp add: demo_engine_def demo_load_def)
  have m: "\<not> eng_checkmate demo_engine ?p"
    by (simp add: demo_engine_def demo_checkmate_def)
  show ?thesis
    using host_accepts_move [OF c l m]
    by (simp add: postToBoth_def otherWindow_def demo_host_def host_init_def demo_engine_def)
qed

text \<open>
  C15. Refresh-resume: after the host accepts a move (checkmating or not) on a usable
  store, a host page loaded afresh on that store restores the accepted position.
\<close>

theorem host_resume_after_reload:
  assumes "currentTurnWindow E h = Some src" and "eng_load E f = Some p" and "f \<noteq> []"
    and "ls_ok (h_storage h)"
  shows "h_chess (host_afterViewInit E (host_init E orig w1 w2
           (h_storage (fst (host_handle E h src (BOARD_UPDATE f)))))) = p"
  using assms host_init_afterViewInit_stored [OF assms(4,3,2)] by simp

theorem host_resume_after_reload_witness:
  "h_chess (host_afterViewInit demo_engine (host_init demo_engine ''o'' None None
     (h_storage (fst (host_handle demo_engine demo_host 1 (BOARD_UPDATE ''Kk b'')))))) =
   \<lparr>dp_placement = ''Kk'', dp_side = Tb\<rparr>"
proof -
  have c: "currentTurnWindow demo_engine demo_host = Some 1"
    by (simp add: currentTurnWindow_def demo_host_def host_init_def demo_engine_def)
  have l: "eng_load demo_engine ''Kk b'' = Some \<lparr>dp_placement = ''Kk'', dp_side = Tb\<rparr>"
    by (simp add: demo_engine_def demo_load_def)
  have ok: "ls_ok (h_storage demo_host)" by (simp add: demo_host_def host_init_def fresh_store_def)
  show ?thesis using host_resume_after_reload [OF c l _ ok] by simp
qed

text \<open>
  \<open>newGame\<close> restarts from the engine's start position, clears the stored game
  (a reloaded host starts afresh), hides the overlay, and posts \<open>RESET\<close>, then the
  start position, then the turn, each to both frames, in that order.
\<close>

theorem host_new_game_restarts:
  "h_chess (fst (newGame E h)) = eng_start E \<and>
   \<not> h_overlayVisible (fst (newGame E h)) \<and>
   snd (newGame E h) =
     postToBoth h RESET @ postToBoth h (SYNC_STATE (eng_fen E (eng_start E)) None) @
     postToBoth h (TURN (eng_turn E (eng_start E))) \<and>
   h_chess (host_afterViewInit E (host_init E orig w1 w2 (h_storage (fst (newGame E h))))) = eng_start E"
  by (simp add: newGame_def broadcastTurn_def postToBoth_def Let_def host_init_afterViewInit_cleared)

text \<open>
  C17. Roles follow the frame: a ready notification from frame 1 is answered with
  \<open>white\<close>, from any other frame with \<open>black\<close>, followed by the current position to
  that frame and the turn to both; a resync request is answered with the position and
  the turn and never with a role.
\<close>

theorem host_role_by_frame:
  "snd (host_handle E h src IFRAME_READY) =
     (src, ROLE_ASSIGN (if Some src = h_window1 h then White else Black)) #
     (src, SYNC_STATE (eng_fen E (h_chess h)) None) # postToBoth h (TURN (eng_turn E (h_chess h))) \<and>
   snd (host_handle E h src REQUEST_SYNC) =
     (src, SYNC_STATE (eng_fen E (h_chess h)) None) # postToBoth h (TURN (eng_turn E (h_chess h)))"
  by (simp add: syncStateTo_def broadcastTurn_def Let_def)

text \<open>
  Messages from another origin, without a source window, or whose data is not a
  protocol message are dropped without any effect.
\<close>

theorem host_ignores_foreign_messages:
  "ev_origin ev \<noteq> h_origin h \<or> ev_source ev = None \<or> ev_data ev = None \<Longrightarrow>
     host_onMessage E h ev = (h, [])"
  by (auto simp: host_onMessage_def split: option.splits)

theorem host_ignores_foreign_messages_witness:
  "host_onMessage demo_engine demo_host
     \<lparr>ev_origin = ''https://evil.example'', ev_source = Some 1, ev_data = Some (BOARD_UPDATE ''K b'')\<rparr> =
   (demo_host, [])"
proof -
  have d: "ev_origin \<lparr>ev_origin = ''https://evil.example'', ev_source = Some 1,
      ev_data = Some (BOARD_UPDATE ''K b'')\<rparr> \<noteq> h_origin demo_host \<or> False \<or> False"
    by (simp add: demo_host_def host_init_def)
  show ?thesis using host_ignores_foreign_messages [of _ demo_host demo_engine] d by blast
qed

text \<open>
  C20. At checkmate the host keeps the finished game in storage: the store still holds
  the mating position, so a reloaded host resumes a finished game (the spec says the
  session record is deleted on game end).
\<close>

theorem host_checkmate_keeps_saved_game:
  assumes "currentTurnWindow E h = Some src" and "eng_load E f = Some p" and "eng_checkmate E p"
    and "ls_ok (h_storage h)"
  shows "storage_load offline_key saved_codec (h_storage (fst (host_handle E h src (BOARD_UPDATE f)))) =
           Some \<lparr>saved_fen = f\<rparr>"
  using assms saved_codec_ok by (simp add: storage_load_save_same)

theorem host_checkmate_keeps_saved_game_witness:
  "storage_load offline_key saved_codec
     (h_storage (fst (host_handle demo_engine demo_host 1 (BOARD_UPDATE ''K b'')))) =
   Some \<lparr>saved_fen = ''K b''\<rparr>"
proof -
  let ?p = "\<lparr>dp_placement = ''K'', dp_side = Tb\<rparr>"
  have c: "currentTurnWindow demo_engine demo_host = Some 1"
    by (simp add: currentTurnWindow_def demo_host_def host_init_def demo_engine_def)
  have l: "eng_load demo_engine ''K b'' = Some ?p"
    by (simp add: demo_engine_def demo_load_def)
  have m: "eng_checkmate demo_engine ?p"
    by (simp add: demo_engine_def demo_checkmate_def)
  have ok: "ls_ok (h_storage demo_host)" by (simp add: demo_host_def host_init_def fresh_store_def)
  show ?thesis by (rule host_checkmate_keeps_saved_game [OF c l m ok])
qed

end
