(* ===== verification/Offline.thy ===== *)
theory Offline
  imports Embed Host
begin

text \<open>
  The offline mode as a whole: the host page and the two board frames it loads
  (\<open>frame1\<close>, \<open>frame2\<close> of \<open>GameHostComponent\<close>, each running
  \<open>BoardEmbedComponent\<close>), connected by \<open>postMessage\<close>. Each window has a FIFO queue of
  delivered-but-unhandled messages; a message to the host carries its source frame.
  A step is one event of the browser: the host handles its oldest message, a frame
  handles its oldest message, a user drags a piece on a frame, a frame (re)loads, or the
  user starts a new game. The step function is deterministic given the event label;
  nondeterminism is the choice of the next label. Frames are windows 1 and 2; the host
  window is 0; all three share one origin.
\<close>

section \<open>System state and events\<close>

definition app_origin :: origin where
  "app_origin = ''http://localhost:4200''"

definition is_frame :: "win \<Rightarrow> bool" where
  "is_frame i \<longleftrightarrow> i = 1 \<or> i = 2"

definition frame_role :: "win \<Rightarrow> role" where
  "frame_role i = (if i = 1 then White else Black)"

definition frame_of_turn :: "turn \<Rightarrow> win" where
  "frame_of_turn t = (if t = Tw then 1 else 2)"

record 'p offline =
  off_host :: "'p host"
  off_boards :: "win \<Rightarrow> embed"
  off_to_host :: "(win \<times> wire_message) channel"
  off_inbox :: "win \<Rightarrow> wire_message channel"

datatype off_event =
    Deliver_host
  | Deliver_board win
  | User_move win fen
  | Load_board win
  | New_game

text \<open>The state after the host page's \<open>ngAfterViewInit\<close>, before any frame has loaded.\<close>

definition off_init :: "'p chess_engine \<Rightarrow> local_storage \<Rightarrow> 'p offline" where
  "off_init E ls =
     \<lparr>off_host = host_afterViewInit E (host_init E app_origin (Some 1) (Some 2) ls),
      off_boards = (\<lambda>_. embed_init app_origin), off_to_host = [], off_inbox = (\<lambda>_. [])\<rparr>"

text \<open>Delivery of the host's posts into the frames' queues; a post to another window leaves the system.\<close>

definition route :: "posts \<Rightarrow> (win \<Rightarrow> wire_message channel) \<Rightarrow> (win \<Rightarrow> wire_message channel)" where
  "route outs ib = (\<lambda>i. ib i @ map snd (filter (\<lambda>(w, m). w = i) outs))"

definition host_event :: "win \<Rightarrow> wire_message \<Rightarrow> msg_event" where
  "host_event w m = \<lparr>ev_origin = app_origin, ev_source = Some w, ev_data = Some m\<rparr>"

definition frame_event :: "wire_message \<Rightarrow> msg_event" where
  "frame_event m = \<lparr>ev_origin = app_origin, ev_source = Some 0, ev_data = Some m\<rparr>"

definition off_exec ::
  "'p chess_engine \<Rightarrow> widget_sem \<Rightarrow> off_event \<Rightarrow> 'p offline \<Rightarrow> 'p offline option" where
  "off_exec E ws ev s =
     (case ev of
        Deliver_host \<Rightarrow>
          (case off_to_host s of
             [] \<Rightarrow> None
           | (w, m) # q \<Rightarrow>
               (let (h', outs) = host_onMessage E (off_host s) (host_event w m)
                in Some (s\<lparr>off_host := h', off_to_host := q, off_inbox := route outs (off_inbox s)\<rparr>)))
      | Deliver_board i \<Rightarrow>
          (if \<not> is_frame i then None
           else case off_inbox s i of
             [] \<Rightarrow> None
           | m # q \<Rightarrow>
               (let (e', outs) = embed_onMessage ws (off_boards s i) (frame_event m)
                in Some (s\<lparr>off_boards := (off_boards s)(i := e'), off_inbox := (off_inbox s)(i := q),
                           off_to_host := off_to_host s @ map (Pair i) outs\<rparr>)))
      | User_move i f \<Rightarrow>
          (let e = off_boards s i in
           if \<not> is_frame i \<or> \<not> (can_drag e White \<or> can_drag e Black) then None
           else
             (let (e', outs) = embed_onUserMove (e\<lparr>em_board := (em_board e)\<lparr>bd_fen := f\<rparr>\<rparr>)
              in Some (s\<lparr>off_boards := (off_boards s)(i := e'),
                         off_to_host := off_to_host s @ map (Pair i) outs\<rparr>)))
      | Load_board i \<Rightarrow>
          (if \<not> is_frame i then None
           else Some (s\<lparr>off_boards := (off_boards s)(i := embed_init app_origin),
                       off_inbox := (off_inbox s)(i := []),
                       off_to_host := off_to_host s @ map (Pair i) embed_after_view_init\<rparr>))
      | New_game \<Rightarrow>
          (let (h', outs) = newGame E (off_host s)
           in Some (s\<lparr>off_host := h', off_inbox := route outs (off_inbox s)\<rparr>)))"

fun off_run ::
  "'p chess_engine \<Rightarrow> widget_sem \<Rightarrow> off_event list \<Rightarrow> 'p offline \<Rightarrow> 'p offline option" where
  "off_run E ws [] s = Some s"
| "off_run E ws (ev # evs) s =
     (case off_exec E ws ev s of None \<Rightarrow> None | Some s' \<Rightarrow> off_run E ws evs s')"

inductive off_reach :: "'p chess_engine \<Rightarrow> widget_sem \<Rightarrow> 'p offline \<Rightarrow> bool"
  for E :: "'p chess_engine" and ws :: widget_sem where
  init: "off_reach E ws (off_init E ls)"
| step: "off_reach E ws s \<Longrightarrow> off_exec E ws ev s = Some s' \<Longrightarrow> off_reach E ws s'"

subsection \<open>A concrete configuration for the witnesses\<close>

text \<open>
  The demo engine of theory \<open>Engine\<close>, a widget that resets orientation on
  \<open>setFEN\<close> and fires its move callback on programmatic changes (the worst case for
  the echo guard), an empty usable store, and the opening of a session: both frames load
  and every message is delivered.
\<close>

definition demo_ws :: widget_sem where
  "demo_ws = \<lparr>ws_set_resets = True, ws_set_fires_move = True\<rparr>"

definition demo_opening :: "off_event list" where
  "demo_opening = [Load_board 1, Load_board 2] @ replicate 4 Deliver_host @
     replicate 7 (Deliver_board 1) @ replicate 7 (Deliver_board 2)"

text \<open>A state with no message in flight.\<close>

definition off_quiescent :: "'p offline \<Rightarrow> bool" where
  "off_quiescent s \<longleftrightarrow> off_to_host s = [] \<and> off_inbox s 1 = [] \<and> off_inbox s 2 = []"

section \<open>The system invariant\<close>

text \<open>
  What each frame keeps true: it shares the app's origin, its gating invariant holds,
  its role is unset or the one its window is assigned, every queued role assignment to
  it names that role, and (when the widget resets orientation on \<open>setFEN\<close>) its
  orientation is right.
\<close>

definition frame_ok :: "widget_sem \<Rightarrow> win \<Rightarrow> embed \<Rightarrow> wire_message channel \<Rightarrow> bool" where
  "frame_ok ws i e q \<longleftrightarrow>
     em_origin e = app_origin \<and> embed_inv e \<and> em_role e \<in> {None, Some (frame_role i)} \<and>
     (\<forall>r. ROLE_ASSIGN r \<in> set q \<longrightarrow> r = frame_role i) \<and>
     (ws_set_resets ws \<longrightarrow> orient_inv e)"

definition off_inv :: "widget_sem \<Rightarrow> 'p offline \<Rightarrow> bool" where
  "off_inv ws s \<longleftrightarrow>
     h_window1 (off_host s) = Some 1 \<and> h_window2 (off_host s) = Some 2 \<and>
     h_origin (off_host s) = app_origin \<and>
     (\<forall>x \<in> set (off_to_host s). is_frame (fst x)) \<and>
     (\<forall>i. is_frame i \<longrightarrow> frame_ok ws i (off_boards s i) (off_inbox s i))"

text \<open>
  Two sessions: white plays a mating position from the opening; after the frames learn
  of the mate, frame 2 reloads and black moves.
\<close>

definition demo_mate_move :: "off_event list" where
  "demo_mate_move = demo_opening @ [User_move 1 ''K b'']"

definition demo_after_mate :: "off_event list" where
  "demo_after_mate = [Load_board 2, Deliver_host, Deliver_host] @ replicate 5 (Deliver_board 2) @
     replicate 2 (Deliver_board 1) @ [User_move 2 ''Kk w'', Deliver_host]"

section \<open>Runs and reachability\<close>

lemma off_run_reach:
  "off_reach E ws s \<Longrightarrow> off_run E ws evs s = Some s' \<Longrightarrow> off_reach E ws s'"
proof (induction evs arbitrary: s)
  case Nil
  then show ?case by simp
next
  case (Cons ev evs)
  then obtain s1 where s1: "off_exec E ws ev s = Some s1" and rest: "off_run E ws evs s1 = Some s'"
    by (auto split: option.splits)
  from Cons.prems(1) s1 have "off_reach E ws s1" by (rule off_reach.step)
  then show ?case using rest by (rule Cons.IH)
qed

declare frame_ok_def [inv_simps] off_inv_def [inv_simps]

lemma route_role_assign:
  "ROLE_ASSIGN r \<in> set (route outs ib i) \<longleftrightarrow>
     ROLE_ASSIGN r \<in> set (ib i) \<or> (i, ROLE_ASSIGN r) \<in> set outs"
  by (force simp: route_def image_iff)

lemma frame_ok_inbox_tl: "frame_ok ws i e (m # q) \<Longrightarrow> frame_ok ws i e q"
  by (simp add: frame_ok_def)

lemma off_init_inv: "off_inv ws (off_init E ls)"
  by (simp add: off_inv_def frame_ok_def off_init_def host_init_def is_frame_def
      embed_init_inv embed_init_orient) (simp add: embed_init_def)

lemma frame_ok_deliver:
  assumes ok: "frame_ok ws i e (m # q)"
  shows "frame_ok ws i (fst (embed_onMessage ws e (frame_event m))) q"
proof -
  have ev: "embed_onMessage ws e (frame_event m) = embed_handle ws e m"
    using ok by (simp add: embed_onMessage_def frame_event_def frame_ok_def)
  have "em_role (fst (embed_handle ws e m)) \<in> {None, Some (frame_role i)}"
    using ok embed_handle_role [of ws e m]
    by (cases m) (simp_all del: embed_handle.simps add: frame_ok_def)
  then show ?thesis
    using ok ev by (simp add: frame_ok_def embed_handle_inv embed_handle_orient)
qed


lemma frame_ok_route:
  "frame_ok ws i e (ib i) \<Longrightarrow> (\<And>r. (i, ROLE_ASSIGN r) \<in> set outs \<Longrightarrow> r = frame_role i) \<Longrightarrow>
     frame_ok ws i e (route outs ib i)"
  unfolding frame_ok_def route_role_assign by blast

lemma host_event_handle:
  "h_origin h = app_origin \<Longrightarrow> host_onMessage E h (host_event w m) = host_handle E h w m"
  by (simp add: host_onMessage_def host_event_def)

lemma off_inv_deliver_host:
  assumes inv: "off_inv ws s" and q: "off_to_host s = (w, m) # q"
    and ex: "off_exec E ws Deliver_host s = Some s'"
  shows "off_inv ws s'"
proof -
  obtain h' outs where hh: "host_handle E (off_host s) w m = (h', outs)"
    by fastforce
  have org: "h_origin (off_host s) = app_origin" using inv by (simp add: off_inv_def)
  have s': "s' = s\<lparr>off_host := h', off_to_host := q, off_inbox := route outs (off_inbox s)\<rparr>"
    using ex q hh by (simp add: off_exec_def host_event_handle [OF org])
  have w: "is_frame w" using inv q by (auto simp: off_inv_def)
  have h': "h' = fst (host_handle E (off_host s) w m)" and outs: "outs = snd (host_handle E (off_host s) w m)"
    using hh by simp_all
  have win: "h_window1 h' = Some 1" "h_window2 h' = Some 2" "h_origin h' = app_origin"
    using inv by (simp_all add: h' off_inv_def)
  have ra: "r = frame_role i" if "(i, ROLE_ASSIGN r) \<in> set outs" for i r
  proof -
    from that have "i = w \<and> r = (if Some w = h_window1 (off_host s) then White else Black)"
      unfolding outs by (rule host_handle_role_assign)
    with inv w show ?thesis by (auto simp: off_inv_def frame_role_def is_frame_def)
  qed
  have fr: "frame_ok ws i (off_boards s i) (route outs (off_inbox s) i)" if "is_frame i" for i
    using inv that ra by (intro frame_ok_route) (simp_all add: off_inv_def)
  have th: "\<forall>x \<in> set q. is_frame (fst x)" using inv q by (simp add: off_inv_def)
  show ?thesis
    unfolding s' off_inv_def using win fr th by simp
qed


lemma off_inv_deliver_board:
  assumes inv: "off_inv ws s" and ex: "off_exec E ws (Deliver_board i) s = Some s'"
  shows "off_inv ws s'"
proof -
  from ex obtain m q where fi: "is_frame i" and q: "off_inbox s i = m # q"
    by (auto simp: off_exec_def split: if_splits list.splits)
  have ok: "frame_ok ws i (off_boards s i) (m # q)" using inv fi q by (metis off_inv_def)
  let ?e' = "fst (embed_onMessage ws (off_boards s i) (frame_event m))"
  have outs: "snd (embed_onMessage ws (off_boards s i) (frame_event m)) = []"
    by (simp add: embed_onMessage_def embed_handle_no_echo split: option.splits)
  have s': "s' = s\<lparr>off_boards := (off_boards s)(i := ?e'), off_inbox := (off_inbox s)(i := q)\<rparr>"
    using ex fi q outs by (simp add: off_exec_def split_def)
  have "frame_ok ws i ?e' q" using ok by (rule frame_ok_deliver)
  then show ?thesis using inv unfolding s' off_inv_def by auto
qed

lemma off_inv_user_move:
  assumes inv: "off_inv ws s" and ex: "off_exec E ws (User_move i f) s = Some s'"
  shows "off_inv ws s'"
proof -
  let ?e = "off_boards s i"
  let ?e1 = "?e\<lparr>em_board := (em_board ?e)\<lparr>bd_fen := f\<rparr>\<rparr>"
  from ex have fi: "is_frame i" by (auto simp: off_exec_def Let_def split: if_splits)
  have s': "s' = s\<lparr>off_boards := (off_boards s)(i := ?e1),
                off_to_host := off_to_host s @ map (Pair i) (snd (embed_onUserMove ?e1))\<rparr>"
    using ex fi by (auto simp: off_exec_def Let_def embed_onUserMove_eq split: if_splits)
  have ok: "frame_ok ws i ?e (off_inbox s i)" using inv fi by (simp add: off_inv_def)
  then have "frame_ok ws i ?e1 (off_inbox s i)"
    by (simp add: frame_ok_def embed_user_move_inv)
  then show ?thesis using inv fi unfolding s' off_inv_def by auto
qed

lemma off_inv_load_board:
  assumes inv: "off_inv ws s" and ex: "off_exec E ws (Load_board i) s = Some s'"
  shows "off_inv ws s'"
proof -
  from ex have fi: "is_frame i" by (auto simp: off_exec_def split: if_splits)
  have s': "s' = s\<lparr>off_boards := (off_boards s)(i := embed_init app_origin),
                off_inbox := (off_inbox s)(i := []),
                off_to_host := off_to_host s @ map (Pair i) embed_after_view_init\<rparr>"
    using ex fi by (simp add: off_exec_def)
  have "frame_ok ws i (embed_init app_origin) []"
    by (simp add: frame_ok_def embed_init_inv embed_init_orient) (simp add: embed_init_def)
  then show ?thesis using inv fi unfolding s' off_inv_def by (auto simp: embed_after_view_init_def)
qed

lemma off_inv_new_game:
  assumes inv: "off_inv ws s" and ex: "off_exec E ws New_game s = Some s'"
  shows "off_inv ws s'"
proof -
  have s': "s' = s\<lparr>off_host := fst (newGame E (off_host s)),
                off_inbox := route (snd (newGame E (off_host s))) (off_inbox s)\<rparr>"
    using ex by (simp add: off_exec_def split_def Let_def)
  have fr: "frame_ok ws i (off_boards s i) (route (snd (newGame E (off_host s))) (off_inbox s) i)"
    if "is_frame i" for i
    using inv that newGame_no_role_assign by (intro frame_ok_route) (auto simp: off_inv_def)
  show ?thesis using inv fr unfolding s' off_inv_def by simp
qed

lemma off_exec_inv: "off_inv ws s \<Longrightarrow> off_exec E ws ev s = Some s' \<Longrightarrow> off_inv ws s'"
proof (cases ev)
  case Deliver_host
  assume inv: "off_inv ws s" and ex: "off_exec E ws ev s = Some s'"
  with Deliver_host obtain w m q where "off_to_host s = (w, m) # q"
    by (auto simp: off_exec_def split: list.splits)
  with inv ex Deliver_host show ?thesis by (blast intro: off_inv_deliver_host)
qed (blast intro: off_inv_deliver_board off_inv_user_move off_inv_load_board off_inv_new_game)+

lemma off_reach_inv: "off_reach E ws s \<Longrightarrow> off_inv ws s"
proof (induction rule: off_reach.induct)
  case (init ls)
  show ?case by (rule off_init_inv)
next
  case (step s ev s')
  then show ?case by (blast intro: off_exec_inv)
qed

section \<open>Properties of the offline mode\<close>


lemma host_handle_changes_chess:
  "h_chess (fst (host_handle E h w m)) \<noteq> h_chess h \<Longrightarrow>
     \<exists>f. m = BOARD_UPDATE f \<and> currentTurnWindow E h = Some w \<and>
       eng_load E f = Some (h_chess (fst (host_handle E h w m)))"
  using host_handle_other_keeps [of m E h w]
  by (cases m) (auto split: if_splits option.splits)

text \<open>A host delivery that changes the position accepts a report of the frame whose side is to move.\<close>

lemma deliver_host_accepts:
  assumes inv: "off_inv ws s" and q: "off_to_host s = (w, m) # q"
    and ex: "off_exec E ws Deliver_host s = Some s'"
    and ch: "h_chess (off_host s') \<noteq> h_chess (off_host s)"
  shows "\<exists>f. m = BOARD_UPDATE f \<and> is_frame w \<and>
           turn_of (frame_role w) = eng_turn E (h_chess (off_host s)) \<and>
           eng_load E f = Some (h_chess (off_host s'))"
proof -
  have org: "h_origin (off_host s) = app_origin" using inv by (simp add: off_inv_def)
  have h': "h_chess (off_host s') = h_chess (fst (host_handle E (off_host s) w m))"
    using ex q by (auto simp: off_exec_def host_event_handle [OF org] split_def Let_def)
  with ch obtain f where m: "m = BOARD_UPDATE f"
    and cw: "currentTurnWindow E (off_host s) = Some w"
    and ld: "eng_load E f = Some (h_chess (off_host s'))"
    using host_handle_changes_chess by metis
  have "is_frame w \<and> turn_of (frame_role w) = eng_turn E (h_chess (off_host s))"
    using cw inv by (cases "eng_turn E (h_chess (off_host s))")
      (auto simp: currentTurnWindow_def off_inv_def is_frame_def frame_role_def)
  with m ld show ?thesis by blast
qed

text \<open>
  C3. In every reachable state of the offline mode, a delivery to the host that changes
  the game's position handles a \<open>BOARD_UPDATE\<close> sent by a frame, and that frame's
  assigned role is the side to move in the position it replaces.
\<close>

theorem offline_accepted_move_from_mover:
  assumes "off_reach E ws s" and "off_exec E ws Deliver_host s = Some s'"
    and "h_chess (off_host s') \<noteq> h_chess (off_host s)"
  shows "\<exists>w f q. off_to_host s = (w, BOARD_UPDATE f) # q \<and> is_frame w \<and>
           turn_of (frame_role w) = eng_turn E (h_chess (off_host s))"
proof -
  have inv: "off_inv ws s" using assms(1) by (rule off_reach_inv)
  from assms(2) obtain w m q where q: "off_to_host s = (w, m) # q"
    by (auto simp: off_exec_def split: list.splits)
  show ?thesis using deliver_host_accepts [OF inv q assms(2,3)] q by blast
qed

text \<open>
  C4. In every reachable state, a frame can drag only the pieces of the colour its
  window is assigned (frame 1 white, frame 2 black), and only while its moves are enabled.
\<close>

theorem offline_drag_own_colour:
  assumes "off_reach E ws s" and "is_frame i" and "can_drag (off_boards s i) c"
  shows "c = frame_role i \<and> \<not> em_moveDisabled (off_boards s i)"
proof -
  have "frame_ok ws i (off_boards s i) (off_inbox s i)"
    using off_reach_inv [OF assms(1)] assms(2) by (simp add: off_inv_def)
  then have "embed_inv (off_boards s i)" and "em_role (off_boards s i) \<in> {None, Some (frame_role i)}"
    by (simp_all add: frame_ok_def)
  with assms(3) show ?thesis by (auto simp: can_drag_iff)
qed

text \<open>
  C8. When the widget restores the default orientation on \<open>setFEN\<close>, in every
  reachable state frame 1's board is never shown reversed and frame 2's board is shown
  reversed exactly when it has been assigned black.
\<close>

theorem offline_orientation:
  assumes "off_reach E ws s" and "ws_set_resets ws"
  shows "\<not> bd_reversed (em_board (off_boards s 1)) \<and>
         bd_reversed (em_board (off_boards s 2)) = (em_role (off_boards s 2) = Some Black)"
proof -
  have inv: "off_inv ws s" using assms(1) by (rule off_reach_inv)
  have "frame_ok ws 1 (off_boards s 1) (off_inbox s 1)" "frame_ok ws 2 (off_boards s 2) (off_inbox s 2)"
    using inv by (simp_all add: off_inv_def is_frame_def)
  with assms(2) show ?thesis by (auto simp: frame_ok_def orient_inv_def frame_role_def)
qed

lemma demo_opening_frames:
  "case off_run demo_engine demo_ws demo_opening (off_init demo_engine fresh_store) of
     None \<Rightarrow> False
   | Some s \<Rightarrow> can_drag (off_boards s 1) White \<and> em_role (off_boards s 2) = Some Black"
  by code_simp

lemma demo_opening_reach:
  "\<exists>s. off_reach demo_engine demo_ws s \<and> can_drag (off_boards s 1) White \<and>
     em_role (off_boards s 2) = Some Black"
proof -
  obtain s where run: "off_run demo_engine demo_ws demo_opening (off_init demo_engine fresh_store) = Some s"
    and p: "can_drag (off_boards s 1) White \<and> em_role (off_boards s 2) = Some Black"
    using demo_opening_frames by (auto split: option.splits)
  have "off_reach demo_engine demo_ws s" using off_reach.init run by (rule off_run_reach)
  with p show ?thesis by blast
qed

lemma demo_opening_move:
  "case off_run demo_engine demo_ws (demo_opening @ [User_move 1 ''Kk b''])
          (off_init demo_engine fresh_store) of
     None \<Rightarrow> False
   | Some s \<Rightarrow> (case off_exec demo_engine demo_ws Deliver_host s of
        None \<Rightarrow> False
      | Some s' \<Rightarrow> h_chess (off_host s') \<noteq> h_chess (off_host s))"
  by code_simp

theorem offline_accepted_move_from_mover_witness:
  "\<exists>s s'. off_reach demo_engine demo_ws s \<and> off_exec demo_engine demo_ws Deliver_host s = Some s' \<and>
     h_chess (off_host s') \<noteq> h_chess (off_host s) \<and>
     (\<exists>w f q. off_to_host s = (w, BOARD_UPDATE f) # q \<and> is_frame w \<and>
        turn_of (frame_role w) = eng_turn demo_engine (h_chess (off_host s)))"
proof -
  obtain s s' where run: "off_run demo_engine demo_ws (demo_opening @ [User_move 1 ''Kk b''])
      (off_init demo_engine fresh_store) = Some s"
    and ex: "off_exec demo_engine demo_ws Deliver_host s = Some s'"
    and ch: "h_chess (off_host s') \<noteq> h_chess (off_host s)"
    using demo_opening_move by (auto split: option.splits)
  have r: "off_reach demo_engine demo_ws s"
    using off_reach.init run by (rule off_run_reach)
  show ?thesis
    using r ex ch offline_accepted_move_from_mover [OF r ex ch] by blast
qed

theorem offline_drag_own_colour_witness:
  "\<exists>s. off_reach demo_engine demo_ws s \<and> is_frame 1 \<and> can_drag (off_boards s 1) White \<and>
     White = frame_role 1 \<and> \<not> em_moveDisabled (off_boards s 1)"
proof -
  obtain s where r: "off_reach demo_engine demo_ws s" and d: "can_drag (off_boards s 1) White"
    using demo_opening_reach by blast
  have f: "is_frame 1" by (simp add: is_frame_def)
  show ?thesis using r f d offline_drag_own_colour [OF r f d] by blast
qed

theorem offline_orientation_witness:
  "\<exists>s. off_reach demo_engine demo_ws s \<and> ws_set_resets demo_ws \<and>
     em_role (off_boards s 2) = Some Black \<and> bd_reversed (em_board (off_boards s 2)) \<and>
     \<not> bd_reversed (em_board (off_boards s 1))"
proof -
  obtain s where r: "off_reach demo_engine demo_ws s" and b: "em_role (off_boards s 2) = Some Black"
    using demo_opening_reach by blast
  have w: "ws_set_resets demo_ws" by (simp add: demo_ws_def)
  show ?thesis using r w b offline_orientation [OF r w] by blast
qed

lemma off_exec_deliver_host:
  assumes "off_inv ws s" and "off_to_host s = (w, m) # q"
  shows "off_exec E ws Deliver_host s =
    Some (s\<lparr>off_host := fst (host_handle E (off_host s) w m), off_to_host := q,
            off_inbox := route (snd (host_handle E (off_host s) w m)) (off_inbox s)\<rparr>)"
proof -
  have "h_origin (off_host s) = app_origin" using assms(1) by (simp add: off_inv_def)
  with assms(2) show ?thesis by (simp add: off_exec_def host_event_handle split_def Let_def)
qed

lemma route_both:
  "is_frame j \<Longrightarrow> route [(1, m), (2, m)] ib j = ib j @ [m]"
  by (auto simp: route_def is_frame_def)

lemma embed_game_over_board: "em_board (fst (embed_onMessage ws e (frame_event (GAME_OVER x r)))) = em_board e"
  by (simp add: embed_onMessage_def frame_event_def)

lemma demo_mate_move_run:
  "case off_run demo_engine demo_ws demo_mate_move (off_init demo_engine fresh_store) of
     None \<Rightarrow> False
   | Some s0 \<Rightarrow> off_to_host s0 = [(1, BOARD_UPDATE ''K b'')] \<and>
       currentTurnWindow demo_engine (off_host s0) = Some 1 \<and>
       \<not> eng_checkmate demo_engine (h_chess (off_host s0)) \<and>
       (case off_exec demo_engine demo_ws Deliver_host s0 of
          None \<Rightarrow> False
        | Some s1 \<Rightarrow> eng_checkmate demo_engine (h_chess (off_host s1)) \<and>
            (case off_run demo_engine demo_ws [Deliver_board 1, Deliver_board 2] s1 of
               None \<Rightarrow> False
             | Some s2 \<Rightarrow> off_quiescent s2 \<and> em_moveDisabled (off_boards s2 1) \<and>
                 em_moveDisabled (off_boards s2 2) \<and>
                 (case off_run demo_engine demo_ws demo_after_mate s2 of
                    None \<Rightarrow> False
                  | Some s3 \<Rightarrow> h_chess (off_host s3) \<noteq> h_chess (off_host s2))))"
  by code_simp

lemma demo_opening_bad_drag:
  "case off_run demo_engine demo_ws demo_opening (off_init demo_engine fresh_store) of
     None \<Rightarrow> False
   | Some s \<Rightarrow> off_quiescent s \<and>
       off_run demo_engine demo_ws [User_move 1 ''zz'', Deliver_host] s \<noteq> None"
  by code_simp

text \<open>
  C21. Game over is not final. The host keeps no game-over state: after a report that
  the host accepted turned a live position into checkmate, and both frames have handled
  \<open>GAME_OVER\<close> and have moves disabled with nothing in flight, a later run with no new
  game (frame 2 reloads, the host announces the turn again, black moves) changes the
  host's position.
\<close>

theorem offline_game_over_not_final:
  "\<exists>s0 s1 s2 evs s3. off_reach demo_engine demo_ws s0 \<and>
     \<not> eng_checkmate demo_engine (h_chess (off_host s0)) \<and>
     off_exec demo_engine demo_ws Deliver_host s0 = Some s1 \<and> eng_checkmate demo_engine (h_chess (off_host s1)) \<and>
     off_run demo_engine demo_ws [Deliver_board 1, Deliver_board 2] s1 = Some s2 \<and> off_quiescent s2 \<and>
     em_moveDisabled (off_boards s2 1) \<and> em_moveDisabled (off_boards s2 2) \<and>
     New_game \<notin> set evs \<and> off_run demo_engine demo_ws evs s2 = Some s3 \<and>
     h_chess (off_host s3) \<noteq> h_chess (off_host s2)"
proof -
  obtain s0 s1 s2 s3 where run: "off_run demo_engine demo_ws demo_mate_move (off_init demo_engine fresh_store) = Some s0"
    and p0: "\<not> eng_checkmate demo_engine (h_chess (off_host s0))"
    and e1: "off_exec demo_engine demo_ws Deliver_host s0 = Some s1"
    and p1: "eng_checkmate demo_engine (h_chess (off_host s1))"
    and e2: "off_run demo_engine demo_ws [Deliver_board 1, Deliver_board 2] s1 = Some s2"
    and p2: "off_quiescent s2" "em_moveDisabled (off_boards s2 1)" "em_moveDisabled (off_boards s2 2)"
    and e3: "off_run demo_engine demo_ws demo_after_mate s2 = Some s3"
    and p3: "h_chess (off_host s3) \<noteq> h_chess (off_host s2)"
    using demo_mate_move_run by (auto split: option.splits)
  have r: "off_reach demo_engine demo_ws s0" using off_reach.init run by (rule off_run_reach)
  have "New_game \<notin> set demo_after_mate" by (simp add: demo_after_mate_def)
  with r p0 e1 p1 e2 p2 e3 p3 show ?thesis by blast
qed

text \<open>
  C22. A rejected move is not reverted. In every reachable state with nothing in flight,
  when a frame's user drags a position and the host drops the report (not that frame's
  turn, or a position chess.js rejects), nothing is sent back: afterwards nothing is in
  flight, the host is unchanged, and the frame still shows the dragged position.
\<close>

theorem offline_rejected_move_not_reverted:
  assumes reach: "off_reach E ws s" and q: "off_quiescent s"
    and run: "off_run E ws [User_move w f, Deliver_host] s = Some s'"
    and rej: "currentTurnWindow E (off_host s) \<noteq> Some w \<or> eng_load E f = None"
  shows "off_quiescent s' \<and> off_host s' = off_host s \<and> bd_fen (em_board (off_boards s' w)) = f"
proof -
  let ?e = "off_boards s w"
  let ?e1 = "?e\<lparr>em_board := (em_board ?e)\<lparr>bd_fen := f\<rparr>\<rparr>"
  obtain s1 where m: "off_exec E ws (User_move w f) s = Some s1"
    and d: "off_exec E ws Deliver_host s1 = Some s'"
    using run by (auto split: option.splits)
  have s1: "s1 = s\<lparr>off_boards := (off_boards s)(w := fst (embed_onUserMove ?e1)),
      off_to_host := off_to_host s @ map (Pair w) (snd (embed_onUserMove ?e1))\<rparr>"
    using m by (auto simp: off_exec_def Let_def split_def split: if_splits)
  have "off_to_host s1 \<noteq> []" using d by (auto simp: off_exec_def)
  then have post: "\<not> em_applyingRemote ?e1" and th: "off_to_host s1 = [(w, BOARD_UPDATE f)]"
    using q s1 by (auto simp: off_quiescent_def embed_onUserMove_def split: if_splits)
  have b: "off_boards s1 w = ?e1" using s1 post by (simp add: embed_onUserMove_def)
  have inv1: "off_inv ws s1" using off_reach_inv [OF reach] m by (rule off_exec_inv)
  have hh: "host_handle E (off_host s1) w (BOARD_UPDATE f) = (off_host s1, [])"
    using rej s1 by (auto split: option.splits)
  have "s' = s1\<lparr>off_to_host := [], off_inbox := route [] (off_inbox s1)\<rparr>"
    using d off_exec_deliver_host [OF inv1 th, of E] hh by simp
  then show ?thesis using q s1 b by (simp add: off_quiescent_def route_def)
qed

theorem offline_rejected_move_not_reverted_witness:
  "\<exists>s s'. off_reach demo_engine demo_ws s \<and> off_quiescent s \<and>
     off_run demo_engine demo_ws [User_move 1 ''zz'', Deliver_host] s = Some s' \<and>
     eng_load demo_engine ''zz'' = None \<and> off_quiescent s' \<and> bd_fen (em_board (off_boards s' 1)) = ''zz''"
proof -
  obtain s s' where run: "off_run demo_engine demo_ws demo_opening (off_init demo_engine fresh_store) = Some s"
    and q: "off_quiescent s"
    and r2: "off_run demo_engine demo_ws [User_move 1 ''zz'', Deliver_host] s = Some s'"
    using demo_opening_bad_drag by (auto split: option.splits)
  have r: "off_reach demo_engine demo_ws s" using off_reach.init run by (rule off_run_reach)
  have ld: "eng_load demo_engine ''zz'' = None" by (simp add: demo_engine_def demo_load_def)
  from offline_rejected_move_not_reverted [OF r q r2] ld show ?thesis using r q r2 ld by blast
qed

text \<open>
  C23. The mating position is never mirrored. In every reachable state, when the host
  accepts a report whose position is checkmate, each frame's queue gains exactly one
  message, \<open>GAME_OVER\<close> with the side not to move as winner, and no position: the
  checkmate branch returns before the \<open>SYNC_STATE\<close> to the other frame, and handling
  \<open>GAME_OVER\<close> leaves a frame's board as it was, so the mated side keeps showing the
  position before the mating move.
\<close>

theorem offline_mate_not_mirrored:
  assumes reach: "off_reach E ws s" and th: "off_to_host s = (w, BOARD_UPDATE f) # q"
    and cw: "currentTurnWindow E (off_host s) = Some w" and ld: "eng_load E f = Some p"
    and mate: "eng_checkmate E p" and ex: "off_exec E ws Deliver_host s = Some s'"
  shows "h_chess (off_host s') = p \<and>
    (\<forall>j. is_frame j \<longrightarrow> off_inbox s' j = off_inbox s j @ [GAME_OVER (winner_of (eng_turn E p)) Checkmate]) \<and>
    (\<forall>e x r. em_board (fst (embed_onMessage ws e (frame_event (GAME_OVER x r)))) = em_board e)"
proof -
  have inv: "off_inv ws s" using reach by (rule off_reach_inv)
  have w: "h_window1 (off_host s) = Some 1" "h_window2 (off_host s) = Some 2" using inv by (simp_all add: off_inv_def)
  let ?m = "GAME_OVER (winner_of (eng_turn E p)) Checkmate"
  have hh: "snd (host_handle E (off_host s) w (BOARD_UPDATE f)) = [(1, ?m), (2, ?m)]"
    "h_chess (fst (host_handle E (off_host s) w (BOARD_UPDATE f))) = p"
    using cw ld mate w by (simp_all add: host_accept_def postToBoth_def postTo_def Let_def)
  have "s' = s\<lparr>off_host := fst (host_handle E (off_host s) w (BOARD_UPDATE f)), off_to_host := q,
      off_inbox := route [(1, ?m), (2, ?m)] (off_inbox s)\<rparr>"
    using ex off_exec_deliver_host [OF inv th, of E] hh(1) by simp
  then show ?thesis using hh(2) route_both embed_game_over_board by simp
qed

theorem offline_mate_not_mirrored_witness:
  "\<exists>s s' p. off_reach demo_engine demo_ws s \<and> off_to_host s = [(1, BOARD_UPDATE ''K b'')] \<and>
     currentTurnWindow demo_engine (off_host s) = Some 1 \<and> eng_load demo_engine ''K b'' = Some p \<and>
     eng_checkmate demo_engine p \<and> off_exec demo_engine demo_ws Deliver_host s = Some s' \<and>
     off_inbox s' 2 = off_inbox s 2 @ [GAME_OVER White Checkmate]"
proof -
  obtain s s' where run: "off_run demo_engine demo_ws demo_mate_move (off_init demo_engine fresh_store) = Some s"
    and th: "off_to_host s = [(1, BOARD_UPDATE ''K b'')]" and cw: "currentTurnWindow demo_engine (off_host s) = Some 1"
    and ex: "off_exec demo_engine demo_ws Deliver_host s = Some s'"
    using demo_mate_move_run by (auto split: option.splits)
  have r: "off_reach demo_engine demo_ws s" using off_reach.init run by (rule off_run_reach)
  obtain p where ld: "eng_load demo_engine ''K b'' = Some p" and mt: "eng_checkmate demo_engine p"
    and tw: "winner_of (eng_turn demo_engine p) = White"
    by (simp add: demo_engine_def demo_load_def demo_checkmate_def winner_of_def)
  have "is_frame 2" by (simp add: is_frame_def)
  with offline_mate_not_mirrored [OF r th cw ld mt ex] tw
  show ?thesis using r th cw ld mt ex by auto
qed

end
