(* ===== verification/Offline_Refinement.thy ===== *)
theory Offline_Refinement
  imports Offline
begin

text \<open>
  The offline mode against the game it implements. The abstract game is a position and
  two kinds of action: a side plays, reporting a position the engine accepts while it
  is that side's turn, or the game restarts; a session may also begin at any position
  the engine accepts (a resumed saved game). The abstraction of an offline state is the
  host's engine position (\<open>GameHostComponent.chess\<close>, the single source of truth). Every
  offline step either leaves that position unchanged or is the abstract action its
  event stands for, so every reachable offline state shows a position of the abstract
  game. The spec's game also ends at checkmate; the host has no such state, and the
  offline theory shows a run after a mate that changes the position.

  The second part is progress: whatever is in flight, delivering the queued messages
  (host first, then each frame) ends in a state with nothing in flight, because frames
  never post while handling the host's messages.
\<close>

section \<open>The abstract game\<close>

datatype game_action = Play role fen | Restart

inductive game_step :: "'p chess_engine \<Rightarrow> 'p \<Rightarrow> game_action \<Rightarrow> 'p \<Rightarrow> bool"
  for E :: "'p chess_engine" where
  play: "eng_turn E p = turn_of c \<Longrightarrow> eng_load E f = Some p' \<Longrightarrow> game_step E p (Play c f) p'"
| restart: "game_step E p Restart (eng_start E)"

inductive game_reach :: "'p chess_engine \<Rightarrow> 'p \<Rightarrow> bool"
  for E :: "'p chess_engine" where
  start: "game_reach E (eng_start E)"
| resume: "eng_load E f = Some p \<Longrightarrow> game_reach E p"
| step: "game_reach E p \<Longrightarrow> game_step E p a p' \<Longrightarrow> game_reach E p'"

text \<open>
  The abstract action an offline event stands for: a host delivery of a
  \<open>BOARD_UPDATE\<close> is a play by the role of the frame that sent it, \<open>newGame\<close> is a
  restart; no other event stands for an action.
\<close>

definition off_action :: "'p offline \<Rightarrow> off_event \<Rightarrow> game_action option" where
  "off_action s ev =
     (case ev of
        Deliver_host \<Rightarrow>
          (case off_to_host s of (w, BOARD_UPDATE f) # q \<Rightarrow> Some (Play (frame_role w) f) | _ \<Rightarrow> None)
      | New_game \<Rightarrow> Some Restart
      | _ \<Rightarrow> None)"

section \<open>Simulation\<close>

lemma off_init_game_reach: "game_reach E (h_chess (off_host (off_init E ls)))"
  by (auto simp: off_init_def host_afterViewInit_def host_init_def
      intro: game_reach.start game_reach.resume split: option.splits)

text \<open>Only host deliveries and \<open>newGame\<close> touch the host's position.\<close>

lemma off_exec_frame_steps_keep_chess:
  assumes "off_exec E ws ev s = Some s'" and "ev \<noteq> Deliver_host" and "ev \<noteq> New_game"
  shows "h_chess (off_host s') = h_chess (off_host s)"
  using assms by (cases ev) (auto simp: off_exec_def Let_def split_def split: if_splits list.splits)

lemma off_exec_new_game_chess:
  "off_exec E ws New_game s = Some s' \<Longrightarrow> h_chess (off_host s') = eng_start E"
  by (auto simp: off_exec_def newGame_def broadcastTurn_def Let_def split_def)

lemma off_exec_simulates:
  assumes inv: "off_inv ws s" and ex: "off_exec E ws ev s = Some s'"
  shows "case off_action s ev of
           None \<Rightarrow> h_chess (off_host s') = h_chess (off_host s)
         | Some a \<Rightarrow> h_chess (off_host s') = h_chess (off_host s) \<or>
                     game_step E (h_chess (off_host s)) a (h_chess (off_host s'))"
proof (cases "ev = Deliver_host")
  case True
  from ex True obtain w m q where q: "off_to_host s = (w, m) # q"
    by (auto simp: off_exec_def split: list.splits)
  show ?thesis
  proof (cases "h_chess (off_host s') = h_chess (off_host s)")
    case False
    with deliver_host_accepts [OF inv q] ex True obtain f where
      m: "m = BOARD_UPDATE f" and t: "turn_of (frame_role w) = eng_turn E (h_chess (off_host s))"
      and ld: "eng_load E f = Some (h_chess (off_host s'))"
      by blast
    have "game_step E (h_chess (off_host s)) (Play (frame_role w) f) (h_chess (off_host s'))"
      using t ld by (intro game_step.play) simp_all
    with True q m show ?thesis by (simp add: off_action_def)
  qed (simp split: option.splits)
next
  case nd: False
  show ?thesis
  proof (cases "ev = New_game")
    case True
    then show ?thesis
      using ex off_exec_new_game_chess [of E ws s s'] by (simp add: off_action_def game_step.restart)
  next
    case nn: False
    have "h_chess (off_host s') = h_chess (off_host s)"
      using off_exec_frame_steps_keep_chess [OF ex nd nn] .
    then show ?thesis using nd nn by (cases ev) (simp_all add: off_action_def)
  qed
qed

section \<open>Progress\<close>

lemma off_run_append:
  "off_run E ws (xs @ ys) s = (case off_run E ws xs s of None \<Rightarrow> None | Some s' \<Rightarrow> off_run E ws ys s')"
  by (induction xs arbitrary: s) (simp_all split: option.splits)

text \<open>Handling a host message never adds to the host's own queue.\<close>

lemma deliver_host_pops:
  assumes "off_to_host s = x # q"
  shows "\<exists>s'. off_exec E ws Deliver_host s = Some s' \<and> off_to_host s' = q"
  using assms by (cases x) (simp add: off_exec_def split_def Let_def)

lemma drain_host:
  "\<exists>s'. off_run E ws (replicate (length (off_to_host s)) Deliver_host) s = Some s' \<and> off_to_host s' = []"
proof (induction "off_to_host s" arbitrary: s)
  case Nil
  then show ?case by simp
next
  case (Cons x q)
  obtain s1 where s1: "off_exec E ws Deliver_host s = Some s1" "off_to_host s1 = q"
    using deliver_host_pops [OF Cons.hyps(2) [symmetric]] by blast
  then show ?case using Cons.hyps(1) [of s1] Cons.hyps(2) [symmetric] by simp
qed

text \<open>A frame handling one host message posts nothing and leaves the other queues alone.\<close>

lemma deliver_board_pops:
  assumes "is_frame i" and "off_inbox s i = m # q"
  shows "\<exists>s'. off_exec E ws (Deliver_board i) s = Some s' \<and> off_inbox s' i = q \<and>
           off_to_host s' = off_to_host s \<and> (\<forall>j. j \<noteq> i \<longrightarrow> off_inbox s' j = off_inbox s j)"
proof -
  have "snd (embed_onMessage ws (off_boards s i) (frame_event m)) = []"
    by (simp add: embed_onMessage_def embed_handle_no_echo split: option.splits)
  then show ?thesis using assms by (simp add: off_exec_def split_def Let_def)
qed

lemma drain_board:
  assumes "is_frame i"
  shows "\<exists>s'. off_run E ws (replicate (length (off_inbox s i)) (Deliver_board i)) s = Some s' \<and>
           off_inbox s' i = [] \<and> off_to_host s' = off_to_host s \<and>
           (\<forall>j. j \<noteq> i \<longrightarrow> off_inbox s' j = off_inbox s j)"
proof (induction "off_inbox s i" arbitrary: s)
  case Nil
  then show ?case by simp
next
  case (Cons m q)
  obtain s1 where s1: "off_exec E ws (Deliver_board i) s = Some s1" "off_inbox s1 i = q"
      "off_to_host s1 = off_to_host s" "\<forall>j. j \<noteq> i \<longrightarrow> off_inbox s1 j = off_inbox s j"
    using deliver_board_pops [OF assms Cons.hyps(2) [symmetric]] by blast
  then show ?case using Cons.hyps(1) [of s1] Cons.hyps(2) [symmetric] by auto
qed

lemma off_reach_game_reach: "off_reach E ws s \<Longrightarrow> game_reach E (h_chess (off_host s))"
proof (induction rule: off_reach.induct)
  case (init ls)
  show ?case by (rule off_init_game_reach)
next
  case (step s ev s')
  have "case off_action s ev of
          None \<Rightarrow> h_chess (off_host s') = h_chess (off_host s)
        | Some a \<Rightarrow> h_chess (off_host s') = h_chess (off_host s) \<or>
                    game_step E (h_chess (off_host s)) a (h_chess (off_host s'))"
    using off_exec_simulates [OF off_reach_inv [OF step.hyps(1)] step.hyps(2)] .
  with step.IH show ?case by (auto intro: game_reach.step split: option.splits)
qed

lemma demo_move_action:
  "case off_run demo_engine demo_ws (demo_opening @ [User_move 1 ''Kk b''])
          (off_init demo_engine fresh_store) of
     None \<Rightarrow> False
   | Some s \<Rightarrow> off_action s Deliver_host = Some (Play White ''Kk b'') \<and>
       (case off_exec demo_engine demo_ws Deliver_host s of
          None \<Rightarrow> False
        | Some s' \<Rightarrow> h_chess (off_host s') \<noteq> h_chess (off_host s))"
  by code_simp

section \<open>Claims\<close>

text \<open>
  C24. Progress of the offline protocol: from any state, whatever messages are in
  flight, delivering them (no user input needed) reaches a state with no message in
  flight, by emptying the host's queue and then each frame's queue; the frames never
  answer the host's commands with messages of their own.
\<close>

theorem offline_deliveries_quiesce:
  "\<exists>evs s'. set evs \<subseteq> {Deliver_host, Deliver_board 1, Deliver_board 2} \<and>
     off_run E ws evs s = Some s' \<and> off_quiescent s'"
proof -
  obtain s1 where r1: "off_run E ws (replicate (length (off_to_host s)) Deliver_host) s = Some s1"
    and q1: "off_to_host s1 = []"
    using drain_host by blast
  obtain s2 where r2: "off_run E ws (replicate (length (off_inbox s1 1)) (Deliver_board 1)) s1 = Some s2"
    and q2: "off_inbox s2 1 = []" "off_to_host s2 = []"
    using drain_board [of 1 E ws s1] q1 by (auto simp: is_frame_def)
  obtain s3 where r3: "off_run E ws (replicate (length (off_inbox s2 2)) (Deliver_board 2)) s2 = Some s3"
    and q3: "off_inbox s3 2 = []" "off_to_host s3 = []" "off_inbox s3 1 = []"
    using drain_board [of 2 E ws s2] q2 by (auto simp: is_frame_def)
  let ?evs = "replicate (length (off_to_host s)) Deliver_host @
    replicate (length (off_inbox s1 1)) (Deliver_board 1) @ replicate (length (off_inbox s2 2)) (Deliver_board 2)"
  have "off_run E ws ?evs s = Some s3" using r1 r2 r3 by (simp add: off_run_append)
  moreover have "set ?evs \<subseteq> {Deliver_host, Deliver_board 1, Deliver_board 2}" by auto
  ultimately show ?thesis using q3 unfolding off_quiescent_def by blast
qed

text \<open>
  C30. Refinement: the offline mode implements the abstract game. Every reachable
  offline state shows a position the game can reach, and every step from it either
  keeps the host's position or performs the action its event stands for: a position
  the engine accepts, reported by the frame whose role is to move, or a restart.
\<close>

theorem offline_refines_game:
  assumes "off_reach E ws s"
  shows "game_reach E (h_chess (off_host s)) \<and>
    (\<forall>ev s'. off_exec E ws ev s = Some s' \<longrightarrow>
       (case off_action s ev of
          None \<Rightarrow> h_chess (off_host s') = h_chess (off_host s)
        | Some a \<Rightarrow> h_chess (off_host s') = h_chess (off_host s) \<or>
                    game_step E (h_chess (off_host s)) a (h_chess (off_host s'))))"
  using off_reach_game_reach [OF assms] off_exec_simulates [OF off_reach_inv [OF assms]] by blast

theorem offline_refines_game_witness:
  "\<exists>s s'. off_reach demo_engine demo_ws s \<and> off_exec demo_engine demo_ws Deliver_host s = Some s' \<and>
     game_step demo_engine (h_chess (off_host s)) (Play White ''Kk b'') (h_chess (off_host s'))"
proof -
  obtain s where run: "off_run demo_engine demo_ws (demo_opening @ [User_move 1 ''Kk b''])
      (off_init demo_engine fresh_store) = Some s"
    and act: "off_action s Deliver_host = Some (Play White ''Kk b'')"
    and d: "case off_exec demo_engine demo_ws Deliver_host s of None \<Rightarrow> False
      | Some s' \<Rightarrow> h_chess (off_host s') \<noteq> h_chess (off_host s)"
    using demo_move_action by (auto split: option.splits)
  obtain s' where ex: "off_exec demo_engine demo_ws Deliver_host s = Some s'"
    and ch: "h_chess (off_host s') \<noteq> h_chess (off_host s)"
    using d by (auto split: option.splits)
  have r: "off_reach demo_engine demo_ws s" using off_reach.init run by (rule off_run_reach)
  have "case off_action s Deliver_host of
          None \<Rightarrow> h_chess (off_host s') = h_chess (off_host s)
        | Some a \<Rightarrow> h_chess (off_host s') = h_chess (off_host s) \<or>
                    game_step demo_engine (h_chess (off_host s)) a (h_chess (off_host s'))"
    using offline_refines_game [OF r] ex by blast
  with act ch have "game_step demo_engine (h_chess (off_host s)) (Play White ''Kk b'') (h_chess (off_host s'))"
    by simp
  with r ex show ?thesis by blast
qed

end
