(* ===== verification/Online.thy ===== *)
theory Online
  imports Engine Storage
begin

text \<open>
  The online controller (\<open>OnlineGameComponent\<close>,
  \<open>src/src/app/features/online-game/online-game.component.ts\<close>). Its state is the record
  \<open>online\<close>; the shared room documents live in the Realtime Database, a map from room
  codes to \<open>game_doc\<close>s. The component's \<open>async\<close> methods are split at their
  \<open>await\<close>s: the part before an \<open>await\<close> returns the write it issues (if any) and the
  continuation it waits in (\<open>og_pending\<close>); the continuation is a separate function,
  run later by the system model, so that other clients' steps can interleave. Firebase
  \<open>set\<close> replaces a document; \<open>update\<close> overwrites just the listed top-level fields,
  creating the document if it is missing (\<open>doc_patch\<close>).
\<close>

section \<open>The room document\<close>

datatype game_status = Waiting | Live | Ended

text \<open>\<open>PlayersDoc\<close>: each slot is absent/\<open>null\<close> or \<open>{id}\<close>; the code tests presence with \<open>!!players.white?.id\<close>.\<close>

record players_doc =
  pl_white :: "string option"
  pl_black :: "string option"

text \<open>
  \<open>GameDoc\<close>. A missing \<open>fen\<close> is the empty string (both are falsy for the code's
  \<open>if (val.fen)\<close>); the other optional fields are options; missing \<open>players\<close> is
  \<open>val.players || {}\<close>, both slots absent.
\<close>

record game_doc =
  gd_fen :: fen
  gd_pgn :: "string option"
  gd_turn :: "turn option"
  gd_status :: "game_status option"
  gd_winner :: "role option"
  gd_players :: players_doc

type_synonym room_db = "string \<rightharpoonup> game_doc"

definition no_players :: players_doc where
  "no_players = \<lparr>pl_white = None, pl_black = None\<rparr>"

definition empty_doc :: game_doc where
  "empty_doc = \<lparr>gd_fen = [], gd_pgn = None, gd_turn = None, gd_status = None, gd_winner = None,
     gd_players = no_players\<rparr>"

definition slot_present :: "string option \<Rightarrow> bool" where
  "slot_present sl = (case sl of None \<Rightarrow> False | Some i \<Rightarrow> i \<noteq> [])"

text \<open>The argument of \<open>update(ref, {...})\<close>: the fields it names.\<close>

record doc_patch =
  pt_fen :: "fen option"
  pt_pgn :: "string option"
  pt_turn :: "turn option"
  pt_status :: "game_status option"
  pt_winner :: "role option"
  pt_players :: "players_doc option"

definition no_patch :: doc_patch where
  "no_patch = \<lparr>pt_fen = None, pt_pgn = None, pt_turn = None, pt_status = None, pt_winner = None,
     pt_players = None\<rparr>"

definition apply_patch :: "doc_patch \<Rightarrow> game_doc \<Rightarrow> game_doc" where
  "apply_patch pt d =
     \<lparr>gd_fen = (case pt_fen pt of Some f \<Rightarrow> f | None \<Rightarrow> gd_fen d),
      gd_pgn = (case pt_pgn pt of Some x \<Rightarrow> Some x | None \<Rightarrow> gd_pgn d),
      gd_turn = (case pt_turn pt of Some x \<Rightarrow> Some x | None \<Rightarrow> gd_turn d),
      gd_status = (case pt_status pt of Some x \<Rightarrow> Some x | None \<Rightarrow> gd_status d),
      gd_winner = (case pt_winner pt of Some x \<Rightarrow> Some x | None \<Rightarrow> gd_winner d),
      gd_players = (case pt_players pt of Some x \<Rightarrow> x | None \<Rightarrow> gd_players d)\<rparr>"

datatype db_write = Db_set string game_doc | Db_update string doc_patch

fun apply_write :: "db_write \<Rightarrow> room_db \<Rightarrow> room_db" where
  "apply_write (Db_set c d) db = db(c \<mapsto> d)"
| "apply_write (Db_update c pt) db =
     db(c \<mapsto> apply_patch pt (case db c of None \<Rightarrow> empty_doc | Some d \<Rightarrow> d))"

fun write_room :: "db_write \<Rightarrow> string" where
  "write_room (Db_set c d) = c"
| "write_room (Db_update c pt) = c"

section \<open>The component\<close>

text \<open>
  \<open>OnlineLocalState\<close>, stored under \<open>'online-game-state'\<close>. A stored role that is
  neither \<open>white\<close> nor \<open>black\<close> does not parse (the code would accept any truthy
  string; only this component writes the key).
\<close>

record online_local =
  ol_code :: string
  ol_role :: role
  ol_clientId :: string

fun role_str :: "role \<Rightarrow> string" where
  "role_str White = ''white''"
| "role_str Black = ''black''"

definition parse_role :: "string \<Rightarrow> role option" where
  "parse_role s = (if s = ''white'' then Some White else if s = ''black'' then Some Black else None)"

definition online_stringify :: "online_local \<Rightarrow> string" where
  "online_stringify st = json_stringify_obj
     [(''code'', ol_code st), (''role'', role_str (ol_role st)), (''clientId'', ol_clientId st)]"

definition online_parse :: "string \<Rightarrow> online_local option" where
  "online_parse raw =
     (case json_parse_obj raw of
        None \<Rightarrow> None
      | Some kvs \<Rightarrow>
          (case parse_role (case map_of kvs ''role'' of Some r \<Rightarrow> r | None \<Rightarrow> []) of
             None \<Rightarrow> None
           | Some r \<Rightarrow> Some \<lparr>ol_code = (case map_of kvs ''code'' of Some c \<Rightarrow> c | None \<Rightarrow> []),
                              ol_role = r,
                              ol_clientId = (case map_of kvs ''clientId'' of Some i \<Rightarrow> i | None \<Rightarrow> [])\<rparr>))"

definition online_codec :: "online_local codec" where
  "online_codec = \<lparr>cd_stringify = online_stringify, cd_parse = online_parse\<rparr>"

text \<open>
  The component's fields. \<open>og_gameRef\<close> is the room code of \<open>gameRef\<close> (\<open>null\<close> is
  \<open>None\<close>); \<open>og_unsub\<close> the room of the active \<open>onValue\<close> listener; \<open>og_storage\<close>
  the browser store behind \<open>StorageService\<close>; \<open>og_copied\<close> and \<open>og_copyTimer\<close>
  the \<open>copied\<close> indicator of \<open>copyCode\<close> and the id of its reset timer.
\<close>

record 'p online =
  og_code :: string
  og_statusText :: string
  og_overlayVisible :: bool
  og_overlayText :: string
  og_copied :: bool
  og_copyTimer :: "nat option"
  og_chess :: 'p
  og_role :: "role option"
  og_applyingRemote :: bool
  og_bothJoined :: bool
  og_moveDisabled :: bool
  og_isReversed :: bool
  og_board :: board
  og_gameRef :: "string option"
  og_unsub :: "string option"
  og_clientId :: string
  og_storage :: local_storage

text \<open>Where an \<open>async\<close> method waits, with what its continuation needs.\<close>

datatype og_pending =
    Pend_create
  | Pend_join_get
  | Pend_join_snap "game_doc option"
  | Pend_join_upd
  | Pend_leave_get
  | Pend_leave_snap "game_doc option"
  | Pend_leave_upd
  | Pend_move_upd "role option"
  | Pend_copy

text \<open>The em dash and the ellipsis of the status texts, as UTF-8 bytes.\<close>

definition em_dash :: string where "em_dash = [CHR 0xE2, CHR 0x80, CHR 0x94]"
definition ellipsis :: string where "ellipsis = [CHR 0xE2, CHR 0x80, CHR 0xA6]"

definition share_text :: "string \<Rightarrow> string" where
  "share_text c = ''Game code: '' @ c @ '' '' @ em_dash @ '' share it with your friend''"

definition idle_text :: string where
  "idle_text = ''Create a game or join one.''"

section \<open>Helpers\<close>

definition og_darkDisabled :: "'p online \<Rightarrow> bool" where
  "og_darkDisabled s \<longleftrightarrow> og_role s = Some White \<or> og_moveDisabled s \<or> og_applyingRemote s"

definition og_lightDisabled :: "'p online \<Rightarrow> bool" where
  "og_lightDisabled s \<longleftrightarrow> og_role s = Some Black \<or> og_moveDisabled s \<or> og_applyingRemote s"

definition orientForRole :: "'p online \<Rightarrow> 'p online" where
  "orientForRole s =
     (let shouldBeReversed = (og_role s = Some Black) in
      if shouldBeReversed \<noteq> og_isReversed s
      then s\<lparr>og_board := board_reverse (og_board s), og_isReversed := shouldBeReversed\<rparr>
      else s)"

text \<open>\<open>board.setFEN\<close> inside the \<open>applyingRemote\<close> guard, then re-orient (lines 297--304 and 240--247).\<close>

definition og_apply_fen :: "widget_sem \<Rightarrow> fen \<Rightarrow> 'p online \<Rightarrow> 'p online" where
  "og_apply_fen ws f s =
     (orientForRole (s\<lparr>og_applyingRemote := True, og_board := board_setFEN ws f (og_board s),
                       og_isReversed := False\<rparr>))\<lparr>og_applyingRemote := False\<rparr>"

definition handleGameOver :: "'p online \<Rightarrow> role \<Rightarrow> 'p online" where
  "handleGameOver s winner =
     s\<lparr>og_moveDisabled := True, og_overlayText := checkmate_text winner, og_overlayVisible := True,
       og_storage := storage_clear online_key (og_storage s)\<rparr>"

text \<open>
  \<open>resetLocalUI\<close>: unsubscribe, forget the room and the session, fresh engine, widget
  reset inside the guard (its move callback, if it fires, returns at once on
  \<open>applyingRemote\<close>).
\<close>

definition resetLocalUI :: "'p chess_engine \<Rightarrow> widget_sem \<Rightarrow> 'p online \<Rightarrow> 'p online" where
  "resetLocalUI E ws s =
     s\<lparr>og_unsub := None, og_gameRef := None, og_storage := storage_clear online_key (og_storage s),
       og_role := None, og_code := [], og_statusText := idle_text, og_overlayVisible := False,
       og_overlayText := [], og_bothJoined := False, og_moveDisabled := True, og_isReversed := False,
       og_chess := eng_start E, og_applyingRemote := False, og_board := board_reset ws (og_board s)\<rparr>"

definition listenForUpdates :: "'p online \<Rightarrow> 'p online" where
  "listenForUpdates s = (case og_gameRef s of None \<Rightarrow> s | Some c \<Rightarrow> s\<lparr>og_unsub := Some c\<rparr>)"

section \<open>The subscription callback\<close>

text \<open>The \<open>onValue\<close> callback of \<open>listenForUpdates\<close> (lines 285--330), on a non-null document.\<close>

definition og_on_value :: "'p chess_engine \<Rightarrow> widget_sem \<Rightarrow> 'p online \<Rightarrow> game_doc \<Rightarrow> 'p online" where
  "og_on_value E ws s val =
     (let players = gd_players val;
          s1 = s\<lparr>og_bothJoined := slot_present (pl_white players) \<and> slot_present (pl_black players)\<rparr>;
          s2 = (if gd_fen val \<noteq> []
                then (let s' = og_apply_fen ws (gd_fen val) s1
                      in case eng_load E (gd_fen val) of None \<Rightarrow> s' | Some p \<Rightarrow> s'\<lparr>og_chess := p\<rparr>)
                else s1);
          s3 = (case og_role s2 of
                  None \<Rightarrow> s2\<lparr>og_moveDisabled := True\<rparr>
                | Some r \<Rightarrow> s2\<lparr>og_moveDisabled :=
                    (\<not> og_bothJoined s2 \<or> \<not> (gd_turn val = Some (turn_of r)))\<rparr>)
      in case (gd_status val, gd_winner val) of
           (Some Ended, Some winner) \<Rightarrow> handleGameOver s3 winner
         | _ \<Rightarrow>
         if \<not> og_bothJoined s3
         then s3\<lparr>og_statusText := (if og_role s3 = Some White then share_text (og_code s3)
                                   else ''Waiting for the host'' @ ellipsis)\<rparr>
         else s3\<lparr>og_statusText := ''Game: '' @ og_code s3 @ '' '' @ em_dash @ '' '' @
                   (if gd_turn val = Some Tw then ''White'' else ''Black'') @ '' to move''\<rparr>)"

section \<open>The user move\<close>

text \<open>
  \<open>onUserMove\<close> up to its \<open>await\<close> (lines 229--274): the guards, validation with the
  revert on an invalid position, and the write; the continuation is
  \<open>og_move_done\<close>.
\<close>

definition og_onUserMove ::
  "'p chess_engine \<Rightarrow> widget_sem \<Rightarrow> 'p online \<Rightarrow> 'p online \<times> db_write option \<times> og_pending option" where
  "og_onUserMove E ws s =
     (case (og_gameRef s, og_role s) of
        (Some c, Some r) \<Rightarrow>
      if og_applyingRemote s then (s, None, None)
      else if \<not> og_bothJoined s \<or> og_moveDisabled s then (s, None, None)
      else
        (let fenAfter = bd_fen (og_board s) in
         case eng_load E fenAfter of
           None \<Rightarrow> (og_apply_fen ws (eng_fen E (og_chess s)) s, None, None)
         | Some p \<Rightarrow>
             (let nextTurn = eng_turn E p; pgn = eng_pgn E p; s1 = s\<lparr>og_chess := p\<rparr> in
              if eng_checkmate E p
              then (let winner = winner_of nextTurn in
                    (s1, Some (Db_update c (no_patch\<lparr>pt_fen := Some fenAfter, pt_pgn := Some pgn,
                        pt_turn := Some nextTurn, pt_status := Some Ended, pt_winner := Some winner\<rparr>)),
                     Some (Pend_move_upd (Some winner))))
              else (s1, Some (Db_update c (no_patch\<lparr>pt_fen := Some fenAfter, pt_pgn := Some pgn,
                        pt_turn := Some nextTurn, pt_status := Some Live\<rparr>)),
                    Some (Pend_move_upd None))))
      | _ \<Rightarrow> (s, None, None))"

definition og_move_done :: "'p online \<Rightarrow> role option \<Rightarrow> 'p online" where
  "og_move_done s w = (case w of Some winner \<Rightarrow> handleGameOver s winner | None \<Rightarrow> s\<lparr>og_moveDisabled := True\<rparr>)"

section \<open>Room codes\<close>

text \<open>
  \<open>makeCode\<close> (lines 361--363): \<open>Math.random().toString(36).slice(2, 8).toUpperCase()\<close>.
  The random number is given by the digits of its base-36 expansion:
  \<open>Number.prototype.toString(36)\<close> writes \<open>0\<close> as \<open>"0"\<close> and a fraction as \<open>"0."\<close>
  followed by its digits, \<open>0\<close>--\<open>9\<close> then \<open>a\<close>--\<open>z\<close>.
\<close>

definition js_random_str :: "nat list \<Rightarrow> string" where
  "js_random_str ds = (if ds = [] then ''0'' else ''0.'' @ map hex_digit ds)"

definition js_toUpper :: "char \<Rightarrow> char" where
  "js_toUpper c =
     (let n = (of_char c :: nat) in if 97 \<le> n \<and> n \<le> 122 then char_of (n - 32) else c)"

definition makeCode :: "nat list \<Rightarrow> string" where
  "makeCode ds = map js_toUpper (take 6 (drop 2 (js_random_str ds)))"

text \<open>The characters a shareable code is meant to have: digits and capital letters.\<close>

definition code_char :: "char \<Rightarrow> bool" where
  "code_char c \<longleftrightarrow> (let n = (of_char c :: nat) in (48 \<le> n \<and> n \<le> 57) \<or> (65 \<le> n \<and> n \<le> 90))"

section \<open>Room lifecycle\<close>

text \<open>
  \<open>createGame\<close> up to \<open>await set\<close> (lines 108--130), \<open>rnd\<close> being the digits of
  \<open>Math.random()\<close> that \<open>makeCode\<close> reads. The document is written with \<open>set\<close>, which
  replaces whatever the code already names.
\<close>

definition og_createGame ::
  "'p chess_engine \<Rightarrow> nat list \<Rightarrow> 'p online \<Rightarrow> 'p online \<times> db_write option \<times> og_pending option" where
  "og_createGame E rnd s =
     (if og_role s \<noteq> None then (s, None, None)
      else
        (let newCode = makeCode rnd;
             s1 = s\<lparr>og_role := Some White, og_code := newCode\<rparr>;
             s2 = s1\<lparr>og_storage := storage_save online_key online_codec
                     \<lparr>ol_code = newCode, ol_role = White, ol_clientId = og_clientId s\<rparr> (og_storage s1)\<rparr>;
             s3 = s2\<lparr>og_chess := eng_start E, og_gameRef := Some newCode\<rparr>;
             doc = \<lparr>gd_fen = eng_fen E (eng_start E), gd_pgn = Some (eng_pgn E (eng_start E)),
                    gd_turn = Some Tw, gd_status = Some Waiting, gd_winner = None,
                    gd_players = \<lparr>pl_white = Some (og_clientId s), pl_black = None\<rparr>\<rparr>
         in (s3, Some (Db_set newCode doc), Some Pend_create)))"

text \<open>The continuation of \<open>createGame\<close> (lines 132--136).\<close>

definition og_create_done :: "'p online \<Rightarrow> 'p online" where
  "og_create_done s =
     orientForRole ((listenForUpdates s)\<lparr>og_statusText := share_text (og_code s),
        og_moveDisabled := True, og_isReversed := False\<rparr>)"

text \<open>\<open>joinGame\<close> up to \<open>await get\<close> (lines 140--148).\<close>

definition og_joinGame :: "'p online \<Rightarrow> 'p online \<times> db_write option \<times> og_pending option" where
  "og_joinGame s =
     (if og_role s \<noteq> None then (s, None, None)
      else if og_code s = [] then (s\<lparr>og_statusText := ''Enter a game code first.''\<rparr>, None, None)
      else (s\<lparr>og_gameRef := Some (og_code s)\<rparr>, None, Some Pend_join_get))"

text \<open>
  The continuation after \<open>get\<close> resolved with snapshot \<open>snap\<close> (lines 149--185): the
  slot decision, and the \<open>update\<close> built from the snapshot's \<open>players\<close>.
\<close>

definition og_join_cont ::
  "game_doc option \<Rightarrow> 'p online \<Rightarrow> 'p online \<times> db_write option \<times> og_pending option" where
  "og_join_cont snap s =
     (case (snap, og_gameRef s) of
        (None, _) \<Rightarrow> (s\<lparr>og_statusText := ''Game not found.'', og_gameRef := None\<rparr>, None, None)
      | (Some val, Some c) \<Rightarrow>
          (let players = gd_players val;
               whiteTaken = slot_present (pl_white players);
               blackTaken = slot_present (pl_black players)
           in if whiteTaken \<and> blackTaken
              then (s\<lparr>og_statusText := ''This game already has two players.'', og_gameRef := None\<rparr>, None, None)
              else if whiteTaken \<and> \<not> blackTaken
              then (s\<lparr>og_role := Some Black\<rparr>,
                    Some (Db_update c (no_patch\<lparr>pt_status := Some Live,
                      pt_players := Some (players\<lparr>pl_black := Some (og_clientId s)\<rparr>)\<rparr>)),
                    Some Pend_join_upd)
              else if \<not> whiteTaken
              then (s\<lparr>og_role := Some White\<rparr>,
                    Some (Db_update c (no_patch\<lparr>pt_status := Some Waiting,
                      pt_players := Some (players\<lparr>pl_white := Some (og_clientId s)\<rparr>)\<rparr>)),
                    Some Pend_join_upd)
              else (s\<lparr>og_statusText := ''Unable to join right now.'', og_gameRef := None\<rparr>, None, None))
      | (Some val, None) \<Rightarrow> (s, None, None))"

text \<open>The continuation after the join \<open>update\<close> resolved (lines 188--198).\<close>

definition og_join_done :: "'p online \<Rightarrow> 'p online" where
  "og_join_done s =
     (let s1 = (case og_role s of
                  None \<Rightarrow> s
                | Some r \<Rightarrow> s\<lparr>og_storage := storage_save online_key online_codec
                     \<lparr>ol_code = og_code s, ol_role = r, ol_clientId = og_clientId s\<rparr> (og_storage s)\<rparr>)
      in orientForRole ((listenForUpdates s1)\<lparr>og_statusText := ''Joined game: '' @ og_code s1,
           og_moveDisabled := True, og_isReversed := False\<rparr>))"

text \<open>\<open>leaveGame\<close> up to \<open>await get\<close> (lines 202--208).\<close>

definition og_leaveGame ::
  "'p chess_engine \<Rightarrow> widget_sem \<Rightarrow> 'p online \<Rightarrow> 'p online \<times> db_write option \<times> og_pending option" where
  "og_leaveGame E ws s =
     (if og_role s = None \<or> og_gameRef s = None then (resetLocalUI E ws s, None, None)
      else (s, None, Some Pend_leave_get))"

text \<open>
  The continuation after \<open>get\<close> (lines 209--225): free one's own slot if one still holds
  it, with \<open>status: 'waiting'\<close>; otherwise reset at once.
\<close>

definition og_leave_cont ::
  "'p chess_engine \<Rightarrow> widget_sem \<Rightarrow> game_doc option \<Rightarrow> 'p online \<Rightarrow>
     'p online \<times> db_write option \<times> og_pending option" where
  "og_leave_cont E ws snap s =
     (case (snap, og_gameRef s) of
        (Some val, Some c) \<Rightarrow>
          (let players = gd_players val in
           if og_role s = Some White \<and> pl_white players = Some (og_clientId s)
           then (s, Some (Db_update c (no_patch\<lparr>pt_players := Some (players\<lparr>pl_white := None\<rparr>),
                    pt_status := Some Waiting\<rparr>)), Some Pend_leave_upd)
           else if og_role s = Some Black \<and> pl_black players = Some (og_clientId s)
           then (s, Some (Db_update c (no_patch\<lparr>pt_players := Some (players\<lparr>pl_black := None\<rparr>),
                    pt_status := Some Waiting\<rparr>)), Some Pend_leave_upd)
           else (resetLocalUI E ws s, None, None))
      | _ \<Rightarrow> (resetLocalUI E ws s, None, None))"

definition og_leave_done :: "'p chess_engine \<Rightarrow> widget_sem \<Rightarrow> 'p online \<Rightarrow> 'p online" where
  "og_leave_done E ws s = resetLocalUI E ws s"

section \<open>Copying the code\<close>

text \<open>
  The outcome of the clipboard write of \<open>copyCode\<close>: \<open>navigator.clipboard.writeText\<close>
  resolves or rejects; the \<open>textarea\<close> fallback with \<open>document.execCommand('copy')\<close>
  does not throw, which counts as written.
\<close>

datatype clip_result = Clip_written | Clip_failed

text \<open>\<open>copyCode\<close> up to the clipboard write (lines 401--405): nothing without a code.\<close>

definition og_copyCode :: "'p online \<Rightarrow> 'p online \<times> og_pending option" where
  "og_copyCode s = (if og_code s = [] then (s, None) else (s, Some Pend_copy))"

text \<open>
  The rest of \<open>copyCode\<close> (lines 406--420) once the write has an outcome: a rejected
  write lands in the empty \<open>catch\<close>; otherwise the indicator is set, the previous timer
  (if its id is truthy) is cleared and a new one started with the fresh id \<open>tid\<close> that
  \<open>setTimeout\<close> returns. The result names the timer cleared and the timer started.
\<close>

definition og_copy_done ::
  "clip_result \<Rightarrow> nat \<Rightarrow> 'p online \<Rightarrow> 'p online \<times> nat option \<times> nat option" where
  "og_copy_done r tid s =
     (case r of
        Clip_failed \<Rightarrow> (s, None, None)
      | Clip_written \<Rightarrow>
          (s\<lparr>og_copied := True, og_copyTimer := Some tid\<rparr>,
           (case og_copyTimer s of Some t \<Rightarrow> if t \<noteq> 0 then Some t else None | None \<Rightarrow> None),
           Some tid))"

text \<open>The timer's callback \<open>() => (this.copied = false)\<close>.\<close>

definition og_copy_timeout :: "'p online \<Rightarrow> 'p online" where
  "og_copy_timeout s = s\<lparr>og_copied := False\<rparr>"

text \<open>A client as the witnesses run it: the demo engine, a fresh store, id \<open>A\<close>.\<close>

definition demo_client :: "demo_pos online" where
  "demo_client = \<lparr>og_code = ''R1'', og_statusText = [], og_overlayVisible = False, og_overlayText = [],
     og_copied = False, og_copyTimer = None, og_chess = eng_start demo_engine, og_role = Some White, og_applyingRemote = False,
     og_bothJoined = True, og_moveDisabled = False, og_isReversed = False,
     og_board = \<lparr>bd_fen = ''Kk w'', bd_reversed = False\<rparr>, og_gameRef = Some ''R1'',
     og_unsub = Some ''R1'', og_clientId = ''A'', og_storage = fresh_store\<rparr>"

section \<open>Construction and resume\<close>

text \<open>
  \<open>ensureClientId\<close> (lines 366--373): the id of the stored session, else a fresh random
  one (\<open>crypto.randomUUID()\<close> or its fallback), an argument here. It runs as the
  initialiser of the field \<open>clientId\<close>, after the constructor's parameter property
  \<open>storage\<close> is assigned (TypeScript's \<open>useDefineForClassFields: false\<close>, Angular's
  default).
\<close>

definition ensureClientId :: "local_storage \<Rightarrow> string \<Rightarrow> string" where
  "ensureClientId ls freshId =
     (case storage_load online_key online_codec ls of
        Some st \<Rightarrow> if ol_clientId st \<noteq> [] then ol_clientId st else freshId
      | None \<Rightarrow> freshId)"

text \<open>
  \<open>orientForRole\<close> (lines 344--350) run from the constructor, before the view exists:
  the \<open>@ViewChild\<close> board is still undefined, so the \<open>board.reverse()\<close> it would call
  throws a \<open>TypeError\<close> (\<open>None\<close>); when no flip is needed it does nothing.
\<close>

definition orient_unbuilt :: "'p online \<Rightarrow> 'p online option" where
  "orient_unbuilt s = (if (og_role s = Some Black) \<noteq> og_isReversed s then None else Some s)"

text \<open>\<open>attachToGame\<close> (lines 334--341), called only by the constructor; \<open>None\<close> where it throws.\<close>

definition attachToGame :: "string \<Rightarrow> bool \<Rightarrow> 'p online \<Rightarrow> 'p online option" where
  "attachToGame c resume s =
     (let s1 = s\<lparr>og_gameRef := Some c\<rparr> in
      if \<not> resume then Some s1
      else (case orient_unbuilt ((listenForUpdates s1)\<lparr>og_isReversed := False\<rparr>) of
              None \<Rightarrow> None
            | Some s2 \<Rightarrow> Some (s2\<lparr>og_statusText := ''Resumed game: '' @ c\<rparr>)))"

text \<open>The component's field initialisers (lines 55--80), the random id drawn by \<open>ensureClientId\<close>.\<close>

definition og_fields :: "'p chess_engine \<Rightarrow> local_storage \<Rightarrow> string \<Rightarrow> 'p online" where
  "og_fields E ls freshId =
     \<lparr>og_code = [], og_statusText = idle_text, og_overlayVisible = False, og_overlayText = [],
      og_copied = False, og_copyTimer = None, og_chess = eng_start E, og_role = None, og_applyingRemote = False,
      og_bothJoined = False, og_moveDisabled = True, og_isReversed = False, og_board = board_init,
      og_gameRef = None, og_unsub = None, og_clientId = ensureClientId ls freshId, og_storage = ls\<rparr>"

text \<open>
  The constructor (lines 90--101): the field initialisers, then resume: a stored session
  with a code, a role and an id re-attaches to its room without touching the room
  document. \<open>None\<close>: the constructor throws (a black session, see \<open>orient_unbuilt\<close>),
  and the component is not created.
\<close>

definition og_construct ::
  "'p chess_engine \<Rightarrow> local_storage \<Rightarrow> string \<Rightarrow> 'p online option" where
  "og_construct E ls freshId =
     (let s0 = og_fields E ls freshId
      in case storage_load online_key online_codec ls of
           Some st \<Rightarrow>
             if ol_code st \<noteq> [] \<and> ol_clientId st \<noteq> []
             then attachToGame (ol_code st) True
                    (s0\<lparr>og_clientId := ol_clientId st, og_role := Some (ol_role st), og_code := ol_code st\<rparr>)
             else Some s0
         | None \<Rightarrow> Some s0)"

section \<open>Properties of the online controller\<close>

lemma parse_role_str [simp]: "parse_role (role_str r) = Some r"
  by (cases r) (simp_all add: parse_role_def)

lemma online_codec_ok: "codec_ok online_codec"
  by (simp add: codec_ok_def online_codec_def online_stringify_def online_parse_def
      json_parse_stringify_obj json_stringify_obj_nonempty)

lemma orientForRole_simps [simp]:
  "og_role (orientForRole s) = og_role s" "og_moveDisabled (orientForRole s) = og_moveDisabled s"
  "og_storage (orientForRole s) = og_storage s" "og_gameRef (orientForRole s) = og_gameRef s"
  "og_unsub (orientForRole s) = og_unsub s" "og_code (orientForRole s) = og_code s"
  "og_clientId (orientForRole s) = og_clientId s" "og_chess (orientForRole s) = og_chess s"
  "og_bothJoined (orientForRole s) = og_bothJoined s" "og_applyingRemote (orientForRole s) = og_applyingRemote s"
  "og_statusText (orientForRole s) = og_statusText s"
  "og_isReversed (orientForRole s) = (og_role s = Some Black)"
  "bd_fen (og_board (orientForRole s)) = bd_fen (og_board s)"
  by (simp_all add: orientForRole_def Let_def)

lemma og_apply_fen_simps [simp]:
  "og_role (og_apply_fen ws f s) = og_role s" "og_moveDisabled (og_apply_fen ws f s) = og_moveDisabled s"
  "og_storage (og_apply_fen ws f s) = og_storage s" "og_gameRef (og_apply_fen ws f s) = og_gameRef s"
  "og_chess (og_apply_fen ws f s) = og_chess s" "og_bothJoined (og_apply_fen ws f s) = og_bothJoined s"
  "og_applyingRemote (og_apply_fen ws f s) = False" "og_code (og_apply_fen ws f s) = og_code s"
  "og_clientId (og_apply_fen ws f s) = og_clientId s" "og_unsub (og_apply_fen ws f s) = og_unsub s"
  "bd_fen (og_board (og_apply_fen ws f s)) = f"
  by (simp_all add: og_apply_fen_def)

lemma handleGameOver_simps [simp]:
  "og_moveDisabled (handleGameOver s w) = True" "og_role (handleGameOver s w) = og_role s"
  "og_gameRef (handleGameOver s w) = og_gameRef s" "og_unsub (handleGameOver s w) = og_unsub s"
  "og_clientId (handleGameOver s w) = og_clientId s" "og_code (handleGameOver s w) = og_code s"
  "og_storage (handleGameOver s w) = storage_clear online_key (og_storage s)"
  by (simp_all add: handleGameOver_def)

lemma js_random_str_digits: "drop 2 (js_random_str ds) = map hex_digit ds"
  by (simp add: js_random_str_def)

lemma code_char_digit:
  assumes "d < 36"
  shows "code_char (js_toUpper (hex_digit d))"
proof (cases "d < 10")
  case True
  then show ?thesis by (simp add: hex_digit_def js_toUpper_def code_char_def)
next
  case False
  then have "js_toUpper (hex_digit d) = char_of (55 + d)"
    using assms by (simp add: hex_digit_def js_toUpper_def)
  then show ?thesis using False assms by (simp add: code_char_def)
qed

lemma makeCode_demo: "makeCode [27, 1] = ''R1''"
  by code_simp

section \<open>Claims about the online controller\<close>

text \<open>
  After the subscription callback, moves are enabled exactly when the client has a
  role, the document's turn is that role's side, both player slots are occupied, and the
  document does not record a finished game with a winner.
\<close>

theorem og_on_value_gating:
  "\<not> og_moveDisabled (og_on_value E ws s val) \<longleftrightarrow>
     (\<exists>r. og_role s = Some r \<and> gd_turn val = Some (turn_of r)) \<and>
     slot_present (pl_white (gd_players val)) \<and> slot_present (pl_black (gd_players val)) \<and>
     \<not> (gd_status val = Some Ended \<and> gd_winner val \<noteq> None)"
  by (auto simp: og_on_value_def Let_def split: option.splits game_status.splits)

theorem og_on_value_gating_witness:
  "\<not> og_moveDisabled (og_on_value demo_engine \<lparr>ws_set_resets = True, ws_set_fires_move = False\<rparr>
      demo_client (empty_doc\<lparr>gd_fen := ''Kk w'', gd_turn := Some Tw, gd_status := Some Live,
        gd_players := \<lparr>pl_white = Some ''A'', pl_black = Some ''B''\<rparr>\<rparr>))"
  using og_on_value_gating [of demo_engine "\<lparr>ws_set_resets = True, ws_set_fires_move = False\<rparr>"
      demo_client "empty_doc\<lparr>gd_fen := ''Kk w'', gd_turn := Some Tw, gd_status := Some Live,
        gd_players := \<lparr>pl_white = Some ''A'', pl_black = Some ''B''\<rparr>\<rparr>"]
  by (simp add: demo_client_def slot_present_def empty_doc_def)

text \<open>
  C26. A user move whose position the rules engine rejects writes nothing to the room and
  puts the last known-good position back on the board (inside the echo guard).
\<close>

theorem og_move_invalid_reverts:
  assumes "og_gameRef s = Some c" and "og_role s = Some r" and "\<not> og_applyingRemote s"
    and "og_bothJoined s" and "\<not> og_moveDisabled s" and "eng_load E (bd_fen (og_board s)) = None"
  shows "og_onUserMove E ws s = (og_apply_fen ws (eng_fen E (og_chess s)) s, None, None) \<and>
         bd_fen (og_board (fst (og_onUserMove E ws s))) = eng_fen E (og_chess s)"
  using assms by (simp add: og_onUserMove_def)

theorem og_move_invalid_reverts_witness:
  "fst (snd (og_onUserMove demo_engine \<lparr>ws_set_resets = True, ws_set_fires_move = False\<rparr>
      (demo_client\<lparr>og_board := \<lparr>bd_fen = ''garbage'', bd_reversed = False\<rparr>\<rparr>))) = None \<and>
   bd_fen (og_board (fst (og_onUserMove demo_engine \<lparr>ws_set_resets = True, ws_set_fires_move = False\<rparr>
      (demo_client\<lparr>og_board := \<lparr>bd_fen = ''garbage'', bd_reversed = False\<rparr>\<rparr>)))) = ''Kk w''"
proof -
  let ?s = "demo_client\<lparr>og_board := \<lparr>bd_fen = ''garbage'', bd_reversed = False\<rparr>\<rparr>"
  have h: "og_gameRef ?s = Some ''R1''" "og_role ?s = Some White" "\<not> og_applyingRemote ?s"
    "og_bothJoined ?s" "\<not> og_moveDisabled ?s" "eng_load demo_engine (bd_fen (og_board ?s)) = None"
    by (simp_all add: demo_client_def demo_engine_def demo_load_def)
  show ?thesis
    using og_move_invalid_reverts [OF h, of "\<lparr>ws_set_resets = True, ws_set_fires_move = False\<rparr>"]
    by (simp add: demo_client_def demo_engine_def demo_fen_def)
qed

text \<open>
  C27. A user move whose position loads is written to the room as one \<open>update\<close> of the
  position, the PGN and the side to move, with status \<open>live\<close>, or with status
  \<open>ended\<close> and the side not to move as winner when it checkmates; the continuation
  then freezes the board (and on checkmate runs the local game-over handling).
\<close>

theorem og_move_writes:
  assumes "og_gameRef s = Some c" and "og_role s = Some r" and "\<not> og_applyingRemote s"
    and "og_bothJoined s" and "\<not> og_moveDisabled s" and "eng_load E (bd_fen (og_board s)) = Some p"
  shows "og_onUserMove E ws s =
     (s\<lparr>og_chess := p\<rparr>,
      Some (Db_update c (no_patch\<lparr>pt_fen := Some (bd_fen (og_board s)), pt_pgn := Some (eng_pgn E p),
        pt_turn := Some (eng_turn E p),
        pt_status := Some (if eng_checkmate E p then Ended else Live),
        pt_winner := (if eng_checkmate E p then Some (winner_of (eng_turn E p)) else None)\<rparr>)),
      Some (Pend_move_upd (if eng_checkmate E p then Some (winner_of (eng_turn E p)) else None)))"
  using assms by (simp add: og_onUserMove_def Let_def no_patch_def)

theorem og_move_writes_witness:
  "fst (snd (og_onUserMove demo_engine \<lparr>ws_set_resets = True, ws_set_fires_move = False\<rparr>
      (demo_client\<lparr>og_board := \<lparr>bd_fen = ''K b'', bd_reversed = False\<rparr>\<rparr>))) =
   Some (Db_update ''R1'' (no_patch\<lparr>pt_fen := Some ''K b'', pt_pgn := Some [], pt_turn := Some Tb,
     pt_status := Some Ended, pt_winner := Some White\<rparr>))"
proof -
  let ?s = "demo_client\<lparr>og_board := \<lparr>bd_fen = ''K b'', bd_reversed = False\<rparr>\<rparr>"
  have h: "og_gameRef ?s = Some ''R1''" "og_role ?s = Some White" "\<not> og_applyingRemote ?s"
    "og_bothJoined ?s" "\<not> og_moveDisabled ?s"
    "eng_load demo_engine (bd_fen (og_board ?s)) = Some \<lparr>dp_placement = ''K'', dp_side = Tb\<rparr>"
    by (simp_all add: demo_client_def demo_engine_def demo_load_def)
  show ?thesis
    using og_move_writes [OF h, of "\<lparr>ws_set_resets = True, ws_set_fires_move = False\<rparr>"]
    by (simp add: demo_engine_def demo_checkmate_def winner_of_def no_patch_def)
qed

text \<open>
  C28. Room codes: \<open>makeCode\<close> gives at most six characters, each a digit or a capital
  letter, and exactly six only when \<open>Math.random()\<close>'s base-36 expansion has six or more
  digits; a shorter expansion gives a shorter code, and \<open>Math.random() = 0\<close> gives the
  empty code, with which \<open>createGame\<close> writes to \<open>games/\<close> itself.
\<close>

theorem makeCode_bounds:
  assumes "\<forall>d\<in>set ds. d < 36"
  shows "length (makeCode ds) = min 6 (length ds) \<and> (\<forall>c\<in>set (makeCode ds). code_char c) \<and>
         (makeCode ds = [] \<longleftrightarrow> ds = [])"
proof -
  have m: "makeCode ds = map (js_toUpper \<circ> hex_digit) (take 6 ds)"
    by (simp add: makeCode_def js_random_str_digits take_map)
  have "\<forall>c\<in>set (makeCode ds). code_char c"
    using assms by (auto simp: m dest: in_set_takeD intro: code_char_digit)
  then show ?thesis by (simp add: m)
qed

theorem makeCode_bounds_witness:
  "length (makeCode [27, 1]) = 2 \<and> makeCode [27, 1] = ''R1''"
proof -
  have h: "\<forall>d\<in>set [27, 1::nat]. d < 36" by simp
  show ?thesis using makeCode_bounds [OF h] unfolding makeCode_demo by simp
qed

text \<open>
  C29. The join decision on an existing room: with both slots taken nothing is written;
  with white taken the joiner becomes black and writes status \<open>live\<close> with itself in
  the black slot; with white free it becomes white and writes status \<open>waiting\<close> with
  itself in the white slot. The written \<open>players\<close> are the snapshot's, with one slot
  replaced.
\<close>

theorem og_join_decision:
  assumes "og_gameRef s = Some c"
  shows "og_join_cont (Some val) s =
    (let pl = gd_players val in
     if slot_present (pl_white pl) \<and> slot_present (pl_black pl)
     then (s\<lparr>og_statusText := ''This game already has two players.'', og_gameRef := None\<rparr>, None, None)
     else if slot_present (pl_white pl)
     then (s\<lparr>og_role := Some Black\<rparr>, Some (Db_update c (no_patch\<lparr>pt_status := Some Live,
             pt_players := Some (pl\<lparr>pl_black := Some (og_clientId s)\<rparr>)\<rparr>)), Some Pend_join_upd)
     else (s\<lparr>og_role := Some White\<rparr>, Some (Db_update c (no_patch\<lparr>pt_status := Some Waiting,
             pt_players := Some (pl\<lparr>pl_white := Some (og_clientId s)\<rparr>)\<rparr>)), Some Pend_join_upd))"
  using assms by (simp add: og_join_cont_def Let_def)

theorem og_join_decision_witness:
  "og_join_cont (Some (empty_doc\<lparr>gd_players := \<lparr>pl_white = Some ''A'', pl_black = None\<rparr>\<rparr>))
     (demo_client\<lparr>og_role := None, og_clientId := ''B''\<rparr>) =
   (demo_client\<lparr>og_role := Some Black, og_clientId := ''B''\<rparr>,
    Some (Db_update ''R1'' (no_patch\<lparr>pt_status := Some Live,
      pt_players := Some \<lparr>pl_white = Some ''A'', pl_black = Some ''B''\<rparr>\<rparr>)), Some Pend_join_upd)"
proof -
  have g: "og_gameRef (demo_client\<lparr>og_role := None, og_clientId := ''B''\<rparr>) = Some ''R1''"
    by (simp add: demo_client_def)
  show ?thesis
    using og_join_decision [OF g, of "empty_doc\<lparr>gd_players := \<lparr>pl_white = Some ''A'', pl_black = None\<rparr>\<rparr>"]
    by (simp add: slot_present_def empty_doc_def demo_client_def)
qed

text \<open>
  C31. Reclaiming a vacated white slot while black is present leaves the room with both
  players present and status \<open>waiting\<close> (the spec: the second participant's join
  makes the room live).
\<close>

theorem og_join_reclaim_white_waiting:
  assumes "og_gameRef s = Some c" and "\<not> slot_present (pl_white (gd_players val))"
    and "slot_present (pl_black (gd_players val))" and "og_clientId s \<noteq> []"
  shows "\<exists>w d. fst (snd (og_join_cont (Some val) s)) = Some w \<and> apply_write w db c = Some d \<and>
           gd_status d = Some Waiting \<and> slot_present (pl_white (gd_players d)) \<and>
           slot_present (pl_black (gd_players d))"
  using assms by (simp add: og_join_cont_def Let_def slot_present_def apply_patch_def no_patch_def)

theorem og_join_reclaim_white_waiting_witness:
  "\<exists>w d. fst (snd (og_join_cont (Some (empty_doc\<lparr>gd_players := \<lparr>pl_white = None, pl_black = Some ''B''\<rparr>\<rparr>))
      (demo_client\<lparr>og_role := None, og_clientId := ''C''\<rparr>))) = Some w \<and>
    apply_write w Map.empty ''R1'' = Some d \<and> gd_status d = Some Waiting \<and>
    slot_present (pl_white (gd_players d)) \<and> slot_present (pl_black (gd_players d))"
proof -
  let ?s = "demo_client\<lparr>og_role := None, og_clientId := ''C''\<rparr>"
  let ?v = "empty_doc\<lparr>gd_players := \<lparr>pl_white = None, pl_black = Some ''B''\<rparr>\<rparr>"
  have h: "og_gameRef ?s = Some ''R1''" "\<not> slot_present (pl_white (gd_players ?v))"
    "slot_present (pl_black (gd_players ?v))" "og_clientId ?s \<noteq> []"
    by (simp_all add: demo_client_def slot_present_def)
  show ?thesis by (rule og_join_reclaim_white_waiting [OF h])
qed

text \<open>
  Leaving writes only when the client still occupies its own slot in the snapshot,
  and then clears exactly that slot (the other slot as the snapshot has it) and sets status
  \<open>waiting\<close>.
\<close>

theorem og_leave_own_slot_only:
  assumes "fst (snd (og_leave_cont E ws snap s)) = Some w"
  shows "\<exists>c val. snap = Some val \<and> og_gameRef s = Some c \<and>
     ((og_role s = Some White \<and> pl_white (gd_players val) = Some (og_clientId s) \<and>
       w = Db_update c (no_patch\<lparr>pt_players := Some ((gd_players val)\<lparr>pl_white := None\<rparr>),
                                  pt_status := Some Waiting\<rparr>)) \<or>
      (og_role s = Some Black \<and> pl_black (gd_players val) = Some (og_clientId s) \<and>
       w = Db_update c (no_patch\<lparr>pt_players := Some ((gd_players val)\<lparr>pl_black := None\<rparr>),
                                  pt_status := Some Waiting\<rparr>)))"
  using assms by (auto simp: og_leave_cont_def Let_def split: option.splits if_splits)

theorem og_leave_own_slot_only_witness:
  "fst (snd (og_leave_cont demo_engine \<lparr>ws_set_resets = True, ws_set_fires_move = False\<rparr>
      (Some (empty_doc\<lparr>gd_players := \<lparr>pl_white = Some ''A'', pl_black = Some ''B''\<rparr>\<rparr>)) demo_client)) =
   Some (Db_update ''R1'' (no_patch\<lparr>pt_players := Some \<lparr>pl_white = None, pl_black = Some ''B''\<rparr>,
     pt_status := Some Waiting\<rparr>))"
proof -
  let ?ws = "\<lparr>ws_set_resets = True, ws_set_fires_move = False\<rparr>"
  let ?v = "empty_doc\<lparr>gd_players := \<lparr>pl_white = Some ''A'', pl_black = Some ''B''\<rparr>\<rparr>"
  have e: "fst (snd (og_leave_cont demo_engine ?ws (Some ?v) demo_client)) =
      Some (Db_update ''R1'' (no_patch\<lparr>pt_players := Some \<lparr>pl_white = None, pl_black = Some ''B''\<rparr>,
        pt_status := Some Waiting\<rparr>))"
    by (simp add: og_leave_cont_def demo_client_def empty_doc_def)
  from og_leave_own_slot_only [OF e] show ?thesis using e by simp
qed

text \<open>
  C33. Resume on reload (a finding for black). With a stored session that has a room
  code and a client id, construction reads only the local store, so no slot of the room
  document is claimed again. A white session is taken over: the component gets the
  stored identity, role and room, subscribes to that room, and its board stays
  unflipped. A black session makes the constructor throw: \<open>attachToGame\<close> calls
  \<open>orientForRole\<close>, which calls \<open>board.reverse()\<close> before the \<open>@ViewChild\<close> board
  exists, and no component is created.
\<close>

theorem og_resume_reattaches:
  assumes "ls_ok ls" and "ol_code st \<noteq> []" and "ol_clientId st \<noteq> []"
  shows "case ol_role st of
     White \<Rightarrow> (\<exists>s. og_construct E (storage_save online_key online_codec st ls) freshId = Some s \<and>
       og_clientId s = ol_clientId st \<and> og_role s = Some White \<and> og_code s = ol_code st \<and>
       og_gameRef s = Some (ol_code st) \<and> og_unsub s = Some (ol_code st) \<and>
       \<not> og_isReversed s \<and> \<not> bd_reversed (og_board s) \<and> og_moveDisabled s)
   | Black \<Rightarrow> og_construct E (storage_save online_key online_codec st ls) freshId = None"
proof -
  have ld: "storage_load online_key online_codec (storage_save online_key online_codec st ls) = Some st"
    using assms(1) online_codec_ok by (rule storage_load_save_same)
  show ?thesis
    using assms(2,3) ld
    by (cases "ol_role st") (simp_all add: og_construct_def og_fields_def attachToGame_def
        listenForUpdates_def orient_unbuilt_def Let_def board_init_def)
qed

theorem og_resume_reattaches_witness:
  "(\<exists>s. og_construct demo_engine
      (storage_save online_key online_codec \<lparr>ol_code = ''R1'', ol_role = White, ol_clientId = ''A''\<rparr> fresh_store)
      ''Z'' = Some s \<and> og_role s = Some White) \<and>
   og_construct demo_engine
     (storage_save online_key online_codec \<lparr>ol_code = ''R1'', ol_role = Black, ol_clientId = ''B''\<rparr> fresh_store)
     ''Z'' = None"
proof -
  have w: "ls_ok fresh_store" "ol_code \<lparr>ol_code = ''R1'', ol_role = White, ol_clientId = ''A''\<rparr> \<noteq> []"
    "ol_clientId \<lparr>ol_code = ''R1'', ol_role = White, ol_clientId = ''A''\<rparr> \<noteq> []"
    by (simp_all add: fresh_store_def)
  have b: "ls_ok fresh_store" "ol_code \<lparr>ol_code = ''R1'', ol_role = Black, ol_clientId = ''B''\<rparr> \<noteq> []"
    "ol_clientId \<lparr>ol_code = ''R1'', ol_role = Black, ol_clientId = ''B''\<rparr> \<noteq> []"
    by (simp_all add: fresh_store_def)
  show ?thesis
    using og_resume_reattaches [OF w, of demo_engine "''Z''"] og_resume_reattaches [OF b, of demo_engine "''Z''"]
    by auto
qed

text \<open>
  C34. Creating a room writes it with \<open>set\<close>: whatever the database held under the new
  code, afterwards the room is a fresh \<open>waiting\<close> game with the creator in the white slot
  and no black player; a code collision silently replaces another game.
\<close>

theorem og_create_overwrites:
  assumes "og_role s = None"
  shows "\<exists>d. fst (snd (og_createGame E rnd s)) = Some (Db_set (makeCode rnd) d) \<and>
     gd_status d = Some Waiting \<and> gd_turn d = Some Tw \<and>
     gd_players d = \<lparr>pl_white = Some (og_clientId s), pl_black = None\<rparr> \<and>
     gd_fen d = eng_fen E (eng_start E) \<and> (\<forall>db. apply_write (Db_set (makeCode rnd) d) db (makeCode rnd) = Some d)"
  using assms by (simp add: og_createGame_def Let_def)

theorem og_create_overwrites_witness:
  "\<exists>d. fst (snd (og_createGame demo_engine [27, 1] (demo_client\<lparr>og_role := None\<rparr>))) = Some (Db_set ''R1'' d) \<and>
     apply_write (Db_set ''R1'' d) [''R1'' \<mapsto> empty_doc\<lparr>gd_status := Some Live\<rparr>] ''R1'' = Some d \<and>
     gd_status d = Some Waiting"
proof -
  have n: "og_role (demo_client\<lparr>og_role := None\<rparr>) = None" by simp
  show ?thesis using og_create_overwrites [OF n, of demo_engine "[27, 1]"] unfolding makeCode_demo by blast
qed

text \<open>
  When the subscription delivers a finished game with a winner, the client freezes
  its moves, shows the winner, and deletes its stored session, so a reload does not
  resume the finished game.
\<close>

theorem og_on_value_game_over:
  assumes "gd_status val = Some Ended" and "gd_winner val = Some w"
  shows "og_moveDisabled (og_on_value E ws s val) \<and>
         og_overlayVisible (og_on_value E ws s val) \<and>
         og_overlayText (og_on_value E ws s val) = checkmate_text w \<and>
         storage_load online_key cd (og_storage (og_on_value E ws s val)) = None"
proof -
  have st: "og_storage (og_on_value E ws s val) = storage_clear online_key (og_storage s)"
    using assms by (simp add: og_on_value_def Let_def handleGameOver_def split: option.splits)
  show ?thesis
    using assms st by (simp add: og_on_value_def Let_def handleGameOver_def storage_load_clear_same
        split: option.splits)
qed

theorem og_on_value_game_over_witness:
  "og_moveDisabled (og_on_value demo_engine \<lparr>ws_set_resets = True, ws_set_fires_move = False\<rparr> demo_client
     (empty_doc\<lparr>gd_status := Some Ended, gd_winner := Some White\<rparr>))"
proof -
  have h: "gd_status (empty_doc\<lparr>gd_status := Some Ended, gd_winner := Some White\<rparr>) = Some Ended"
    "gd_winner (empty_doc\<lparr>gd_status := Some Ended, gd_winner := Some White\<rparr>) = Some White"
    by simp_all
  show ?thesis using og_on_value_game_over [OF h, of demo_engine _ demo_client online_codec] by simp
qed


text \<open>
  C40. The participant id does not outlive the session record: after a leave
  (\<open>resetLocalUI\<close>) or a finished game (\<open>handleGameOver\<close>) deleted the stored session,
  the next page load takes the fresh random id, whatever id the client had.
\<close>

theorem og_client_id_not_kept:
  "(\<exists>s1. og_construct E (og_storage (resetLocalUI E ws s)) fid = Some s1 \<and> og_clientId s1 = fid) \<and>
   (\<exists>s2. og_construct E (og_storage (handleGameOver s w)) fid = Some s2 \<and> og_clientId s2 = fid)"
  by (simp add: og_construct_def og_fields_def ensureClientId_def resetLocalUI_def handleGameOver_def Let_def
      storage_load_clear_same)

end
