(* ===== verification/OnlineSys.thy ===== *)
theory OnlineSys
  imports Online
begin

text \<open>
  The online mode as a system: several browser tabs (clients, numbered), each running
  \<open>OnlineGameComponent\<close>, and the shared Realtime Database. Each tab belongs to a
  browser and uses that browser's \<open>localStorage\<close>, shared by all its tabs; each tab
  keeps its pending timers. A step is one event: a user starts an operation on a client
  (create, join with a typed code, leave, drag, copy the code), the server answers a
  pending \<open>get\<close>, a pending promise resolves and its continuation runs, the clipboard
  write resolves or fails, a timer fires, the database notifies a subscribed client of
  the room's current value, or a tab reloads. A client runs at most one of its
  \<open>async\<close> methods at a time.
  A write is applied to the database when it is issued; the writer's own listener on
  that room runs at once (Firebase raises local events synchronously), other clients
  learn of it by a later notification. Between a \<open>get\<close> and the continuation that uses
  its snapshot any other step may happen: this is the race the spec (section 5) accepts.
  Each event that carries a remote operation may also fail (\<open>Os_denied\<close>): the
  \<open>get\<close> rejects, or the server refuses the write, and the \<open>async\<close> method ends at its
  \<open>await\<close> (the code catches none of these rejections). A reload constructs the
  component afresh over the browser's store; where the constructor throws (a resumed
  black session) the tab is crashed and takes no event but another reload.
\<close>

section \<open>System state and events\<close>

record 'p osys =
  os_db :: room_db
  os_clients :: "nat \<Rightarrow> 'p online"
  os_pc :: "nat \<Rightarrow> og_pending option"
  os_browser :: "nat \<Rightarrow> nat"
  os_store :: "nat \<Rightarrow> local_storage"
  os_timers :: "nat \<Rightarrow> nat list"
  os_next_timer :: nat
  os_crashed :: "nat \<Rightarrow> bool"

datatype os_event =
    Os_create nat "nat list"
  | Os_join nat string
  | Os_leave nat
  | Os_move nat fen
  | Os_copy nat
  | Os_read nat
  | Os_resume nat
  | Os_clip nat clip_result
  | Os_timer nat nat
  | Os_notify nat
  | Os_reload nat string
  | Os_denied os_event

text \<open>
  Client \<open>i\<close> is a tab of browser \<open>br i\<close>; tabs of one browser share its store, all
  stores start empty, and client \<open>i\<close> is constructed with random id \<open>ids i\<close> (over an
  empty store the constructor is the field initialisers, \<open>og_construct_fresh\<close>). Timer
  ids start at 1 (browsers return positive ids).
\<close>

definition os_init :: "'p chess_engine \<Rightarrow> (nat \<Rightarrow> string) \<Rightarrow> (nat \<Rightarrow> nat) \<Rightarrow> 'p osys" where
  "os_init E ids br = \<lparr>os_db = Map.empty, os_clients = (\<lambda>i. og_fields E fresh_store (ids i)),
     os_pc = (\<lambda>_. None), os_browser = br, os_store = (\<lambda>_. fresh_store), os_timers = (\<lambda>_. []),
     os_next_timer = 1, os_crashed = (\<lambda>_. False)\<rparr>"

text \<open>A client as its code sees it: its fields, with the store of its browser.\<close>

definition os_client :: "'p osys \<Rightarrow> nat \<Rightarrow> 'p online" where
  "os_client sys i = (os_clients sys i)\<lparr>og_storage := os_store sys (os_browser sys i)\<rparr>"

definition os_put :: "nat \<Rightarrow> 'p online \<Rightarrow> 'p osys \<Rightarrow> 'p osys" where
  "os_put i s sys = sys\<lparr>os_clients := (os_clients sys)(i := s),
     os_store := (os_store sys)(os_browser sys i := og_storage s)\<rparr>"

text \<open>The writer's own listener, run synchronously on the written room's new value.\<close>

definition local_event ::
  "'p chess_engine \<Rightarrow> widget_sem \<Rightarrow> db_write \<Rightarrow> room_db \<Rightarrow> 'p online \<Rightarrow> 'p online" where
  "local_event E ws w db s =
     (case og_unsub s of
        Some r \<Rightarrow> if r = write_room w then (case db r of Some d \<Rightarrow> og_on_value E ws s d | None \<Rightarrow> s) else s
      | None \<Rightarrow> s)"

text \<open>Install the result of a client's code: its new state, the write it issued, where it waits.\<close>

definition os_issue ::
  "'p chess_engine \<Rightarrow> widget_sem \<Rightarrow> nat \<Rightarrow> 'p online \<times> db_write option \<times> og_pending option \<Rightarrow>
     'p osys \<Rightarrow> 'p osys" where
  "os_issue E ws i r sys =
     (case r of
        (s', None, pc) \<Rightarrow> (os_put i s' sys)\<lparr>os_pc := (os_pc sys)(i := pc)\<rparr>
      | (s', Some w, pc) \<Rightarrow>
          (let db' = apply_write w (os_db sys)
           in (os_put i (local_event E ws w db' s') (sys\<lparr>os_db := db'\<rparr>))\<lparr>os_pc := (os_pc sys)(i := pc)\<rparr>))"

definition os_set_client :: "nat \<Rightarrow> 'p online \<Rightarrow> 'p osys \<Rightarrow> 'p osys" where
  "os_set_client i s' sys = (os_put i s' sys)\<lparr>os_pc := (os_pc sys)(i := None)\<rparr>"

text \<open>
  The server refuses the write a client's code issued (a security rule, a lost
  connection): the database keeps its value. Firebase has already raised the local event
  for the optimistic value, and raises another for the server's value when it reverts;
  the promise rejects, so the code after the \<open>await\<close> never runs and the client waits
  for nothing. Code that issued no write has nothing to refuse.
\<close>

definition os_reject ::
  "'p chess_engine \<Rightarrow> widget_sem \<Rightarrow> nat \<Rightarrow> 'p online \<times> db_write option \<times> og_pending option \<Rightarrow>
     'p osys \<Rightarrow> 'p osys option" where
  "os_reject E ws i r sys =
     (case r of
        (s', None, pc) \<Rightarrow> None
      | (s', Some w, pc) \<Rightarrow>
          Some (os_set_client i
            (local_event E ws w (os_db sys) (local_event E ws w (apply_write w (os_db sys)) s')) sys))"

text \<open>The result of a client's code when its remote operation succeeds, or fails.\<close>

definition os_commit ::
  "bool \<Rightarrow> 'p chess_engine \<Rightarrow> widget_sem \<Rightarrow> nat \<Rightarrow> 'p online \<times> db_write option \<times> og_pending option \<Rightarrow>
     'p osys \<Rightarrow> 'p osys option" where
  "os_commit fail E ws i r sys = (if fail then os_reject E ws i r sys else Some (os_issue E ws i r sys))"

text \<open>A step with no remote operation cannot fail.\<close>

definition os_done :: "bool \<Rightarrow> 'p osys \<Rightarrow> 'p osys option" where
  "os_done fail sys = (if fail then None else Some sys)"

text \<open>
  A tab (re)loads the page: the old component and its timers go, and the component is
  constructed over the browser's store. If the constructor throws, the page shows no
  component: the tab is crashed, with nothing subscribed, until it is reloaded again.
\<close>

definition os_reload :: "'p chess_engine \<Rightarrow> nat \<Rightarrow> string \<Rightarrow> 'p osys \<Rightarrow> 'p osys" where
  "os_reload E i fid sys =
     (let ls = os_store sys (os_browser sys i); r = og_construct E ls fid
      in (os_set_client i (case r of Some s \<Rightarrow> s | None \<Rightarrow> og_fields E ls fid) sys)\<lparr>
           os_timers := (os_timers sys)(i := []), os_crashed := (os_crashed sys)(i := (r = None))\<rparr>)"

definition og_can_drag :: "'p online \<Rightarrow> bool" where
  "og_can_drag s \<longleftrightarrow> \<not> og_lightDisabled s \<or> \<not> og_darkDisabled s"

text \<open>
  The timers after a successful copy: the cleared one removed, the started one added.
  A reloaded tab loses its timers with its page.
\<close>

definition timers_after :: "nat list \<Rightarrow> nat option \<Rightarrow> nat option \<Rightarrow> nat list" where
  "timers_after ts clr new =
     filter (\<lambda>t. clr \<noteq> Some t) ts @ (case new of None \<Rightarrow> [] | Some t \<Rightarrow> [t])"

definition os_step ::
  "'p chess_engine \<Rightarrow> widget_sem \<Rightarrow> bool \<Rightarrow> os_event \<Rightarrow> 'p osys \<Rightarrow> 'p osys option" where
  "os_step E ws fail ev sys =
     (case ev of
        Os_create i rnd \<Rightarrow>
          if os_pc sys i \<noteq> None then None
          else os_commit fail E ws i (og_createGame E rnd (os_client sys i)) sys
      | Os_join i code \<Rightarrow>
          if os_pc sys i \<noteq> None then None
          else os_commit fail E ws i (og_joinGame ((os_client sys i)\<lparr>og_code := code\<rparr>)) sys
      | Os_leave i \<Rightarrow>
          if os_pc sys i \<noteq> None then None
          else os_commit fail E ws i (og_leaveGame E ws (os_client sys i)) sys
      | Os_move i f \<Rightarrow>
          (let s = os_client sys i in
           if os_pc sys i \<noteq> None \<or> \<not> og_can_drag s then None
           else os_commit fail E ws i (og_onUserMove E ws (s\<lparr>og_board := (og_board s)\<lparr>bd_fen := f\<rparr>\<rparr>)) sys)
      | Os_copy i \<Rightarrow>
          if os_pc sys i \<noteq> None then None
          else (case og_copyCode (os_client sys i) of
                  (s', pc) \<Rightarrow> Some ((os_put i s' sys)\<lparr>os_pc := (os_pc sys)(i := pc)\<rparr>))
      | Os_read i \<Rightarrow>
          (case (os_pc sys i, og_gameRef (os_clients sys i)) of
             (Some Pend_join_get, Some r) \<Rightarrow>
               Some (sys\<lparr>os_pc := (os_pc sys)(i := if fail then None else Some (Pend_join_snap (os_db sys r)))\<rparr>)
           | (Some Pend_leave_get, Some r) \<Rightarrow>
               Some (sys\<lparr>os_pc := (os_pc sys)(i := if fail then None else Some (Pend_leave_snap (os_db sys r)))\<rparr>)
           | _ \<Rightarrow> None)
      | Os_resume i \<Rightarrow>
          (let s = os_client sys i in
           case os_pc sys i of
             Some Pend_create \<Rightarrow> os_done fail (os_set_client i (og_create_done s) sys)
           | Some (Pend_join_snap snap) \<Rightarrow> os_commit fail E ws i (og_join_cont snap s) sys
           | Some Pend_join_upd \<Rightarrow> os_done fail (os_set_client i (og_join_done s) sys)
           | Some (Pend_leave_snap snap) \<Rightarrow> os_commit fail E ws i (og_leave_cont E ws snap s) sys
           | Some Pend_leave_upd \<Rightarrow> os_done fail (os_set_client i (og_leave_done E ws s) sys)
           | Some (Pend_move_upd w) \<Rightarrow> os_done fail (os_set_client i (og_move_done s w) sys)
           | _ \<Rightarrow> None)
      | Os_clip i r \<Rightarrow>
          (case os_pc sys i of
             Some Pend_copy \<Rightarrow>
               (case og_copy_done r (os_next_timer sys) (os_client sys i) of
                  (s', clr, new) \<Rightarrow>
                    Some ((os_set_client i s' sys)\<lparr>
                      os_timers := (os_timers sys)(i := timers_after (os_timers sys i) clr new),
                      os_next_timer := Suc (os_next_timer sys)\<rparr>))
           | _ \<Rightarrow> None)
      | Os_timer i t \<Rightarrow>
          if t \<in> set (os_timers sys i)
          then Some ((os_put i (og_copy_timeout (os_client sys i)) sys)\<lparr>
                 os_timers := (os_timers sys)(i := remove1 t (os_timers sys i))\<rparr>)
          else None
      | Os_notify i \<Rightarrow>
          (let s = os_client sys i in
           case og_unsub s of
             None \<Rightarrow> None
           | Some r \<Rightarrow> (case os_db sys r of
                          None \<Rightarrow> None
                        | Some d \<Rightarrow> Some (os_put i (og_on_value E ws s d) sys)))
      | Os_reload i fid \<Rightarrow> Some (os_reload E i fid sys)
      | Os_denied ev' \<Rightarrow> None)"

text \<open>
  The events whose remote operation can fail: a \<open>get\<close> (\<open>Os_read\<close>) or a write
  issued by a user operation or by a continuation.
\<close>

fun may_fail :: "os_event \<Rightarrow> bool" where
  "may_fail (Os_create i rnd) = True"
| "may_fail (Os_move i f) = True"
| "may_fail (Os_read i) = True"
| "may_fail (Os_resume i) = True"
| "may_fail _ = False"

text \<open>The tab an event happens in; a crashed tab takes no event but a reload.\<close>

fun ev_tab :: "os_event \<Rightarrow> nat" where
  "ev_tab (Os_create i rnd) = i"
| "ev_tab (Os_join i c) = i"
| "ev_tab (Os_leave i) = i"
| "ev_tab (Os_move i f) = i"
| "ev_tab (Os_copy i) = i"
| "ev_tab (Os_read i) = i"
| "ev_tab (Os_resume i) = i"
| "ev_tab (Os_clip i r) = i"
| "ev_tab (Os_timer i t) = i"
| "ev_tab (Os_notify i) = i"
| "ev_tab (Os_reload i fid) = i"
| "ev_tab (Os_denied ev) = ev_tab ev"

fun is_reload :: "os_event \<Rightarrow> bool" where
  "is_reload (Os_reload i fid) = True"
| "is_reload _ = False"

text \<open>\<open>Os_denied ev\<close>: the event \<open>ev\<close>, with its remote operation refused.\<close>

definition os_exec ::
  "'p chess_engine \<Rightarrow> widget_sem \<Rightarrow> os_event \<Rightarrow> 'p osys \<Rightarrow> 'p osys option" where
  "os_exec E ws ev sys =
     (if os_crashed sys (ev_tab ev) \<and> \<not> is_reload ev then None
      else case ev of
        Os_denied ev' \<Rightarrow> if may_fail ev' then os_step E ws True ev' sys else None
      | _ \<Rightarrow> os_step E ws False ev sys)"

fun os_run :: "'p chess_engine \<Rightarrow> widget_sem \<Rightarrow> os_event list \<Rightarrow> 'p osys \<Rightarrow> 'p osys option" where
  "os_run E ws [] sys = Some sys"
| "os_run E ws (ev # evs) sys =
     (case os_exec E ws ev sys of None \<Rightarrow> None | Some sys' \<Rightarrow> os_run E ws evs sys')"

inductive os_reach :: "'p chess_engine \<Rightarrow> widget_sem \<Rightarrow> 'p osys \<Rightarrow> bool"
  for E :: "'p chess_engine" and ws :: widget_sem where
  init: "os_reach E ws (os_init E ids br)"
| step: "os_reach E ws sys \<Longrightarrow> os_exec E ws ev sys = Some sys' \<Longrightarrow> os_reach E ws sys'"

subsection \<open>Invariants\<close>

text \<open>An ended room records a winner, the side that is not to move.\<close>

definition ended_ok :: "game_doc \<Rightarrow> bool" where
  "ended_ok d \<longleftrightarrow>
     (gd_status d = Some Ended \<longrightarrow> (\<exists>t. gd_turn d = Some t \<and> gd_winner d = Some (winner_of t)))"

definition patch_ok :: "doc_patch \<Rightarrow> bool" where
  "patch_ok p \<longleftrightarrow> pt_status p \<noteq> None \<and>
     (pt_status p = Some Ended \<longrightarrow> (\<exists>t. pt_turn p = Some t \<and> pt_winner p = Some (winner_of t)))"

fun write_ok :: "db_write \<Rightarrow> bool" where
  "write_ok (Db_set c d) = ended_ok d"
| "write_ok (Db_update c p) = patch_ok p"

definition issued_ok :: "'p online \<times> db_write option \<times> og_pending option \<Rightarrow> bool" where
  "issued_ok r \<longleftrightarrow> (case fst (snd r) of None \<Rightarrow> True | Some w \<Rightarrow> write_ok w)"

text \<open>A client's board accepts drags only while it holds a seat and both seats are taken.\<close>

definition og_ok :: "'p online \<Rightarrow> bool" where
  "og_ok s \<longleftrightarrow> (\<not> og_moveDisabled s \<longrightarrow> og_role s \<noteq> None \<and> og_bothJoined s)"

definition os_inv :: "'p osys \<Rightarrow> bool" where
  "os_inv sys \<longleftrightarrow> (\<forall>r d. os_db sys r = Some d \<longrightarrow> ended_ok d) \<and> (\<forall>i. og_ok (os_clients sys i))"

text \<open>
  The copy indicator of client \<open>i\<close>: at most one reset timer is pending, the indicator
  is on exactly when one is, and that timer's (positive) id is the one \<open>copyTimer\<close> holds.
\<close>

definition copy_ok :: "'p osys \<Rightarrow> nat \<Rightarrow> bool" where
  "copy_ok sys i \<longleftrightarrow>
     (case os_timers sys i of
        [] \<Rightarrow> \<not> og_copied (os_clients sys i)
      | [t] \<Rightarrow> og_copied (os_clients sys i) \<and> og_copyTimer (os_clients sys i) = Some t \<and> 0 < t
      | _ \<Rightarrow> False)"

text \<open>Two states of a client agree on the copy indicator and its timer.\<close>

definition same_copy :: "'p online \<Rightarrow> 'p online \<Rightarrow> bool" where
  "same_copy s s' \<longleftrightarrow> og_copied s' = og_copied s \<and> og_copyTimer s' = og_copyTimer s"

definition copy_inv :: "'p osys \<Rightarrow> bool" where
  "copy_inv sys \<longleftrightarrow> 0 < os_next_timer sys \<and> (\<forall>i. copy_ok sys i)"

subsection \<open>Sessions for the witnesses\<close>

definition demo_ids :: "nat \<Rightarrow> string" where
  "demo_ids i = (if i = 1 then ''A'' else if i = 2 then ''B'' else if i = 3 then ''C'' else ''D'')"

text \<open>Clients 1, 2, 3 run in browsers of their own; client 4 is a second tab of client 1's browser.\<close>

definition demo_browsers :: "nat \<Rightarrow> nat" where
  "demo_browsers i = (if i = 4 then 1 else i)"

definition demo_ows :: widget_sem where
  "demo_ows = \<lparr>ws_set_resets = True, ws_set_fires_move = True\<rparr>"

text \<open>Client 1 creates room \<open>R1\<close>; clients 2 and 3 both join it, their \<open>get\<close>s answered before either writes.\<close>

definition demo_join_race :: "os_event list" where
  "demo_join_race = [Os_create 1 [27, 1], Os_resume 1, Os_join 2 ''R1'', Os_join 3 ''R1'',
     Os_read 2, Os_read 3, Os_resume 2, Os_resume 3, Os_resume 2, Os_resume 3,
     Os_notify 1, Os_notify 2, Os_notify 3, Os_move 1 ''Kk b'', Os_resume 1,
     Os_notify 2, Os_notify 3]"

text \<open>Client 1 creates \<open>R1\<close> and starts leaving; client 2 joins in between; client 1's stale write lands.\<close>

definition demo_stale_leave :: "os_event list" where
  "demo_stale_leave = [Os_create 1 [27, 1], Os_resume 1, Os_leave 1, Os_read 1,
     Os_join 2 ''R1'', Os_read 2, Os_resume 2, Os_resume 2, Os_resume 1, Os_resume 1]"

text \<open>
  Client 1 creates \<open>R1\<close>; client 4, a second tab of the same browser, is opened and
  resumes the session client 1 stored; client 2 joins; both tabs of browser 1 then hold
  the white seat with the same id.
\<close>

definition demo_tabs :: "os_event list" where
  "demo_tabs = [Os_create 1 [27, 1], Os_resume 1, Os_reload 4 ''D'', Os_join 2 ''R1'', Os_read 2,
     Os_resume 2, Os_resume 2, Os_notify 1, Os_notify 4]"

text \<open>Client 1 creates \<open>R1\<close> and copies its code twice; the first reset timer is cleared.\<close>

text \<open>
  A room document carries the fields its readers dereference: \<open>turn\<close> and \<open>status\<close>.
  A write keeps that when it is a \<open>set\<close> of such a document, or an \<open>update\<close> that names
  \<open>status\<close> and either names \<open>turn\<close> or lands on an existing document (an \<open>update\<close> of a
  missing path creates a document holding only the fields it names).
\<close>

definition doc_typed :: "game_doc \<Rightarrow> bool" where
  "doc_typed d \<longleftrightarrow> gd_turn d \<noteq> None \<and> gd_status d \<noteq> None"

definition db_typed :: "room_db \<Rightarrow> bool" where
  "db_typed db \<longleftrightarrow> (\<forall>r d. db r = Some d \<longrightarrow> doc_typed d)"

fun write_typed :: "room_db \<Rightarrow> db_write \<Rightarrow> bool" where
  "write_typed db (Db_set c d) = doc_typed d"
| "write_typed db (Db_update c p) = (pt_status p \<noteq> None \<and> (pt_turn p \<noteq> None \<or> db c \<noteq> None))"

definition typed_issue :: "room_db \<Rightarrow> 'p online \<times> db_write option \<times> og_pending option \<Rightarrow> bool" where
  "typed_issue db r \<longleftrightarrow> (case fst (snd r) of None \<Rightarrow> True | Some w \<Rightarrow> write_typed db w)"

text \<open>The snapshot a client holds between a \<open>get\<close> and its continuation.\<close>

fun snap_of :: "og_pending option \<Rightarrow> game_doc option" where
  "snap_of (Some (Pend_join_snap sn)) = sn"
| "snap_of (Some (Pend_leave_snap sn)) = sn"
| "snap_of _ = None"

text \<open>A client holding a snapshot of a room is attached to that room, which exists.\<close>

definition snap_ok :: "'p osys \<Rightarrow> bool" where
  "snap_ok sys \<longleftrightarrow>
     (\<forall>i. snap_of (os_pc sys i) \<noteq> None \<longrightarrow>
        (\<exists>r. og_gameRef (os_clients sys i) = Some r \<and> os_db sys r \<noteq> None))"

definition type_inv :: "'p osys \<Rightarrow> bool" where
  "type_inv sys \<longleftrightarrow> db_typed (os_db sys) \<and> snap_ok sys"

definition demo_copy :: "os_event list" where
  "demo_copy = [Os_create 1 [27, 1], Os_resume 1, Os_copy 1, Os_clip 1 Clip_written,
     Os_copy 1, Os_clip 1 Clip_written]"

text \<open>A whole game: create, join, white mates; the room ends.\<close>

definition demo_online_mate :: "os_event list" where
  "demo_online_mate = [Os_create 1 [27, 1], Os_resume 1, Os_join 2 ''R1'', Os_read 2, Os_resume 2,
     Os_resume 2, Os_notify 1, Os_notify 2, Os_move 1 ''K b'', Os_resume 1, Os_notify 2]"

text \<open>Client 1 creates \<open>R1\<close>, the server refuses the \<open>set\<close>, and the tab is reloaded.\<close>

definition demo_refused_create :: "os_event list" where
  "demo_refused_create = [Os_denied (Os_create 1 [27, 1]), Os_reload 1 ''Z'']"

text \<open>Client 2 joins \<open>R1\<close> as black, and its tab is reloaded.\<close>

definition demo_black_join :: "os_event list" where
  "demo_black_join = [Os_create 1 [27, 1], Os_resume 1, Os_join 2 ''R1'', Os_read 2, Os_resume 2, Os_resume 2]"

section \<open>The invariant\<close>

lemma og_construct_fresh: "og_construct E fresh_store fid = Some (og_fields E fresh_store fid)"
  by (simp add: og_construct_def fresh_store_def storage_load_def)

lemma os_run_reach:
  "os_reach E ws sys \<Longrightarrow> os_run E ws evs sys = Some sys' \<Longrightarrow> os_reach E ws sys'"
proof (induction evs arbitrary: sys)
  case Nil
  then show ?case by simp
next
  case (Cons ev evs)
  then obtain s1 where s1: "os_exec E ws ev sys = Some s1" and rest: "os_run E ws evs s1 = Some sys'"
    by (auto split: option.splits)
  from Cons.prems(1) s1 have "os_reach E ws s1" by (rule os_reach.step)
  then show ?case using rest by (rule Cons.IH)
qed

lemma apply_patch_ended_ok: "patch_ok p \<Longrightarrow> ended_ok (apply_patch p d)"
  by (auto simp: patch_ok_def ended_ok_def apply_patch_def)

lemma apply_write_ended_ok:
  assumes "write_ok w" and "\<forall>r d. db r = Some d \<longrightarrow> ended_ok d"
  shows "\<forall>r d. apply_write w db r = Some d \<longrightarrow> ended_ok d"
  using assms by (cases w) (auto simp: apply_patch_ended_ok)

lemma issued_ok_ops [intro!]:
  "issued_ok (og_createGame E c s)" "issued_ok (og_joinGame s)" "issued_ok (og_join_cont snap s)"
  "issued_ok (og_leaveGame E ws s)" "issued_ok (og_leave_cont E ws snap s)"
  "issued_ok (og_onUserMove E ws s)"
  unfolding issued_ok_def
  by (auto simp: og_createGame_def og_joinGame_def og_join_cont_def og_leaveGame_def
      og_leave_cont_def og_onUserMove_def Let_def ended_ok_def patch_ok_def
      split: option.splits prod.splits)

lemma og_ok_helpers [intro!]:
  "og_ok s \<Longrightarrow> og_ok (orientForRole s)"
  "og_ok s \<Longrightarrow> og_ok (og_apply_fen ws f s)"
  "og_ok (handleGameOver s w)"
  "og_ok (resetLocalUI E ws s)"
  "og_ok s \<Longrightarrow> og_ok (listenForUpdates s)"
  by (auto simp: og_ok_def orientForRole_def og_apply_fen_def handleGameOver_def resetLocalUI_def
      listenForUpdates_def Let_def split: option.splits)

lemma og_ok_on_value [intro!]: "og_ok (og_on_value E ws s d)"
  by (auto simp: og_on_value_def og_ok_def handleGameOver_def Let_def og_apply_fen_def
      orientForRole_def split: option.splits game_status.splits)

lemma og_ok_ops [intro!]:
  "og_ok s \<Longrightarrow> og_ok (fst (og_createGame E c s))"
  "og_ok s \<Longrightarrow> og_ok (fst (og_joinGame s))"
  "og_ok s \<Longrightarrow> og_ok (fst (og_join_cont snap s))"
  "og_ok s \<Longrightarrow> og_ok (fst (og_leaveGame E ws s))"
  "og_ok s \<Longrightarrow> og_ok (fst (og_leave_cont E ws snap s))"
  "og_ok s \<Longrightarrow> og_ok (fst (og_onUserMove E ws s))"
  "og_ok s \<Longrightarrow> og_ok (og_create_done s)"
  "og_ok s \<Longrightarrow> og_ok (og_join_done s)"
  "og_ok (og_leave_done E ws s)"
  "og_ok (og_move_done s w)"
  "og_ok (case og_construct E ls fid of Some s' \<Rightarrow> s' | None \<Rightarrow> og_fields E ls fid)"
  "og_ok s \<Longrightarrow> og_ok (fst (og_copyCode s))"
  "og_ok s \<Longrightarrow> og_ok (fst (og_copy_done r t s))"
  "og_ok s \<Longrightarrow> og_ok (og_copy_timeout s)"
  "og_ok (s\<lparr>og_storage := ls\<rparr>) = og_ok s"
  by (auto simp: og_copyCode_def og_copy_done_def og_copy_timeout_def split: clip_result.splits)
    (auto simp: og_createGame_def og_joinGame_def og_join_cont_def og_leaveGame_def
      og_leave_cont_def og_onUserMove_def og_create_done_def og_join_done_def og_leave_done_def
      og_move_done_def og_construct_def og_fields_def attachToGame_def orient_unbuilt_def local_event_def
      Let_def og_ok_def orientForRole_def
      og_apply_fen_def handleGameOver_def resetLocalUI_def listenForUpdates_def
      split: option.splits prod.splits)

lemma og_ok_local_event [intro!]: "og_ok s \<Longrightarrow> og_ok (local_event E ws w db s)"
  by (simp add: local_event_def og_ok_on_value split: option.splits)

lemma os_put_inv: "os_inv sys \<Longrightarrow> og_ok s \<Longrightarrow> os_inv (os_put i s sys)"
  by (simp add: os_put_def os_inv_def)

lemma os_issue_inv:
  assumes "os_inv sys" and "issued_ok r" and "og_ok (fst r)"
  shows "os_inv (os_issue E ws i r sys)"
  using assms
  by (cases r) (auto simp: os_issue_def os_put_def os_inv_def issued_ok_def Let_def apply_write_ended_ok
      split: option.splits)

lemma os_set_client_inv: "os_inv sys \<Longrightarrow> og_ok s \<Longrightarrow> os_inv (os_set_client i s sys)"
  by (simp add: os_set_client_def os_put_def os_inv_def)

lemma os_commit_inv:
  assumes "os_commit fail E ws i r sys = Some sys'" and "os_inv sys" and "issued_ok r" and "og_ok (fst r)"
  shows "os_inv sys'"
proof (cases fail)
  case False
  with assms show ?thesis by (auto simp: os_commit_def intro: os_issue_inv)
next
  case True
  with assms show ?thesis
    by (cases r) (auto simp: os_commit_def os_reject_def intro!: os_set_client_inv split: option.splits)
qed

lemma os_step_inv:
  assumes "os_inv sys" and "os_step E ws fail ev sys = Some sys'"
  shows "os_inv sys'"
proof -
  have ok: "og_ok (os_client sys i)" for i using assms(1) by (simp add: os_inv_def os_client_def og_ok_def)
  have ok_board: "og_ok ((os_client sys i)\<lparr>og_board := b\<rparr>)" "og_ok ((os_client sys i)\<lparr>og_code := c\<rparr>)"
    for i b c using ok [of i] by (simp_all add: og_ok_def)
  show ?thesis
  proof (cases ev)
    case (Os_read i)
    with assms show ?thesis
      by (auto simp: os_step_def os_inv_def split: option.splits og_pending.splits)
  next
    case (Os_notify i)
    with assms ok show ?thesis
      by (auto simp: os_step_def Let_def intro!: os_put_inv split: option.splits)
  next
    case (Os_resume i)
    with assms ok show ?thesis
      by (auto simp: os_step_def os_done_def Let_def intro: os_commit_inv intro!: os_set_client_inv
          split: option.splits og_pending.splits if_splits)
  next
    case (Os_copy i)
    with assms ok show ?thesis
      by (auto simp: os_step_def og_copyCode_def os_put_def os_inv_def split: if_splits)
  next
    case (Os_clip i r)
    with assms ok show ?thesis
      by (auto simp: os_step_def os_set_client_def os_put_def os_inv_def og_copy_done_def
          os_client_def og_ok_def split: option.splits og_pending.splits clip_result.splits)
  next
    case (Os_timer i t)
    with assms ok show ?thesis
      by (auto simp: os_step_def os_put_def os_inv_def split: if_splits)
  next
    case (Os_reload i fid)
    with assms show ?thesis
      by (auto simp: os_step_def os_reload_def Let_def os_set_client_def os_put_def os_inv_def)
  qed (use assms ok ok_board in \<open>auto simp: os_step_def Let_def intro: os_commit_inv split: if_splits\<close>)
qed

lemma os_exec_inv: "os_inv sys \<Longrightarrow> os_exec E ws ev sys = Some sys' \<Longrightarrow> os_inv sys'"
  by (auto simp: os_exec_def intro: os_step_inv split: os_event.splits if_splits)

lemma os_reach_inv: "os_reach E ws sys \<Longrightarrow> os_inv sys"
proof (induction rule: os_reach.induct)
  case init
  then show ?case by (auto simp: os_inv_def os_init_def og_fields_def og_ok_def)
next
  case (step sys ev sys')
  from step.IH step.hyps(2) show ?case by (rule os_exec_inv)
qed

subsection \<open>The copy indicator\<close>

lemma same_copy_ops [intro!]:
  "same_copy s (fst (og_createGame E c s))" "same_copy s (fst (og_joinGame s))"
  "same_copy s (fst (og_join_cont snap s))" "same_copy s (fst (og_leaveGame E ws s))"
  "same_copy s (fst (og_leave_cont E ws snap s))" "same_copy s (fst (og_onUserMove E ws s))"
  "same_copy s (og_create_done s)" "same_copy s (og_join_done s)" "same_copy s (og_leave_done E ws s)"
  "same_copy s (og_move_done s w)" "same_copy s (fst (og_copyCode s))"
  "same_copy s (s\<lparr>og_storage := ls\<rparr>)" "same_copy s (s\<lparr>og_code := code\<rparr>)" "same_copy s (s\<lparr>og_board := b\<rparr>)"
  by (auto simp: same_copy_def og_createGame_def og_joinGame_def og_join_cont_def og_leaveGame_def
      og_leave_cont_def og_onUserMove_def og_create_done_def og_join_done_def og_leave_done_def
      og_move_done_def og_copyCode_def Let_def orientForRole_def og_apply_fen_def
      handleGameOver_def resetLocalUI_def listenForUpdates_def split: option.splits prod.splits)

lemma same_copy_on_value [intro!]: "same_copy s (og_on_value E ws s d)"
  by (auto simp: same_copy_def og_on_value_def handleGameOver_def Let_def og_apply_fen_def
      orientForRole_def split: option.splits game_status.splits)

lemma same_copy_trans: "same_copy s s' \<Longrightarrow> same_copy s' s'' \<Longrightarrow> same_copy s s''"
  by (simp add: same_copy_def)

lemma same_copy_local_event: "same_copy s s' \<Longrightarrow> same_copy s (local_event E ws w db s')"
  by (auto simp: local_event_def intro: same_copy_trans split: option.splits)

lemma copy_ok_cong:
  "os_timers sys' j = os_timers sys j \<Longrightarrow> same_copy (os_clients sys j) (os_clients sys' j) \<Longrightarrow>
     copy_ok sys' j = copy_ok sys j"
  by (simp add: copy_ok_def same_copy_def split: list.splits)

lemma copy_inv_pc [simp]: "copy_inv (sys\<lparr>os_pc := pc\<rparr>) = copy_inv sys"
proof -
  have "copy_ok (sys\<lparr>os_pc := pc\<rparr>) j = copy_ok sys j" for j
    by (rule copy_ok_cong) (simp_all add: same_copy_def)
  then show ?thesis by (simp add: copy_inv_def)
qed

lemma copy_inv_put:
  assumes "copy_inv sys" and "same_copy (os_client sys i) s"
  shows "copy_inv (os_put i s sys)"
proof -
  have "copy_ok (os_put i s sys) j = copy_ok sys j" for j
    using assms(2) by (intro copy_ok_cong) (auto simp: os_put_def os_client_def same_copy_def)
  then show ?thesis using assms(1) by (simp add: copy_inv_def os_put_def)
qed

lemma copy_inv_issue:
  assumes "copy_inv sys" and "same_copy (os_client sys i) (fst r)"
  shows "copy_inv (os_issue E ws i r sys)"
proof (cases r)
  case (fields s' w pc)
  have "same_copy (os_client (sys\<lparr>os_db := db'\<rparr>) i) (local_event E ws w' db' s')" for db' w'
    using assms(2) fields same_copy_local_event by (simp add: os_client_def)
  moreover have "copy_ok (sys\<lparr>os_db := db'\<rparr>) j = copy_ok sys j" for db' j
    by (rule copy_ok_cong) (simp_all add: same_copy_def)
  then have "copy_inv (sys\<lparr>os_db := db'\<rparr>)" for db' using assms(1) by (simp add: copy_inv_def)
  ultimately show ?thesis using assms fields
    by (auto simp: os_issue_def Let_def intro: copy_inv_put split: option.splits)
qed

lemma copy_inv_set_client:
  "copy_inv sys \<Longrightarrow> same_copy (os_client sys i) s \<Longrightarrow> copy_inv (os_set_client i s sys)"
  by (simp add: os_set_client_def copy_inv_put)

lemma copy_inv_commit:
  assumes "os_commit fail E ws i r sys = Some sys'" and "copy_inv sys" and "same_copy (os_client sys i) (fst r)"
  shows "copy_inv sys'"
proof (cases fail)
  case False
  with assms show ?thesis by (auto simp: os_commit_def intro: copy_inv_issue)
next
  case True
  with assms show ?thesis
    by (cases r) (auto simp: os_commit_def os_reject_def intro!: copy_inv_set_client same_copy_local_event
        split: option.splits)
qed

lemma same_copy_refl [simp]: "same_copy s s"
  by (simp add: same_copy_def)

lemma og_construct_not_copied [simp]:
  "\<not> og_copied (case og_construct E ls fid of Some s' \<Rightarrow> s' | None \<Rightarrow> og_fields E ls fid)"
  by (simp add: og_construct_def og_fields_def attachToGame_def orient_unbuilt_def Let_def listenForUpdates_def
      split: option.splits)

lemma copy_inv_update:
  assumes "copy_inv sys" "0 < os_next_timer sys'" "copy_ok sys' i"
    "\<And>j. j \<noteq> i \<Longrightarrow> copy_ok sys' j = copy_ok sys j"
  shows "copy_inv sys'"
  using assms unfolding copy_inv_def by metis

lemma copy_inv_clip:
  assumes inv: "copy_inv sys"
    and d: "og_copy_done r (os_next_timer sys) (os_client sys i) = (s', clr, new)"
  shows "copy_inv ((os_set_client i s' sys)\<lparr>
      os_timers := (os_timers sys)(i := timers_after (os_timers sys i) clr new),
      os_next_timer := Suc (os_next_timer sys)\<rparr>)" (is "copy_inv ?sys'")
proof -
  have ok: "copy_ok sys i" and pos: "0 < os_next_timer sys" using inv by (simp_all add: copy_inv_def)
  have i: "copy_ok ?sys' i"
    using ok pos d
    by (cases r) (auto simp: copy_ok_def og_copy_done_def timers_after_def os_set_client_def os_put_def
        os_client_def split: list.splits if_splits option.splits)
  have j: "copy_ok ?sys' j = copy_ok sys j" if "j \<noteq> i" for j
    using that by (intro copy_ok_cong) (simp_all add: os_set_client_def os_put_def same_copy_def)
  show ?thesis
    by (rule copy_inv_update [OF inv _ i j]) (use inv in \<open>simp add: copy_inv_def\<close>)
qed

lemma copy_inv_timer:
  assumes inv: "copy_inv sys" and t: "t \<in> set (os_timers sys i)"
  shows "copy_inv ((os_put i (og_copy_timeout (os_client sys i)) sys)\<lparr>
      os_timers := (os_timers sys)(i := remove1 t (os_timers sys i))\<rparr>)" (is "copy_inv ?sys'")
proof -
  have ok: "copy_ok sys i" using inv by (simp add: copy_inv_def)
  have i: "copy_ok ?sys' i"
    using ok t by (auto simp: copy_ok_def og_copy_timeout_def os_put_def split: list.splits)
  have j: "copy_ok ?sys' j = copy_ok sys j" if "j \<noteq> i" for j
    using that by (intro copy_ok_cong) (simp_all add: os_put_def same_copy_def)
  show ?thesis
    by (rule copy_inv_update [OF inv _ i j]) (use inv in \<open>simp add: copy_inv_def os_put_def\<close>)
qed

lemma copy_inv_reload:
  assumes inv: "copy_inv sys"
  shows "copy_inv (os_reload E i fid sys)" (is "copy_inv ?sys'")
proof -
  have i: "copy_ok ?sys' i"
    by (simp add: copy_ok_def os_reload_def Let_def os_set_client_def os_put_def)
  have j: "copy_ok ?sys' j = copy_ok sys j" if "j \<noteq> i" for j
    using that by (intro copy_ok_cong) (simp_all add: os_reload_def Let_def os_set_client_def os_put_def same_copy_def)
  show ?thesis
    by (rule copy_inv_update [OF inv _ i j]) (use inv in \<open>simp add: copy_inv_def os_reload_def Let_def os_set_client_def os_put_def\<close>)
qed

lemma os_step_copy_inv:
  assumes inv: "copy_inv sys" and ex: "os_step E ws fail ev sys = Some sys'"
  shows "copy_inv sys'"
proof (cases ev)
  case (Os_clip i r)
  with ex obtain s' clr new where "os_pc sys i = Some Pend_copy"
    and d: "og_copy_done r (os_next_timer sys) (os_client sys i) = (s', clr, new)"
    and "sys' = (os_set_client i s' sys)\<lparr>
      os_timers := (os_timers sys)(i := timers_after (os_timers sys i) clr new),
      os_next_timer := Suc (os_next_timer sys)\<rparr>"
    by (auto simp: os_step_def split: option.splits og_pending.splits prod.splits)
  then show ?thesis using copy_inv_clip [OF inv d] by simp
next
  case (Os_timer i t)
  with ex inv show ?thesis by (auto simp: os_step_def intro: copy_inv_timer split: if_splits)
next
  case (Os_reload i fid)
  with ex inv show ?thesis by (auto simp: os_step_def intro: copy_inv_reload)
next
  case (Os_read i)
  with ex inv show ?thesis by (auto simp: os_step_def split: option.splits og_pending.splits if_splits)
next
  case (Os_resume i)
  with ex inv show ?thesis
    by (auto simp: os_step_def os_done_def Let_def intro: copy_inv_commit intro!: copy_inv_set_client
        split: option.splits og_pending.splits if_splits)
next
  case (Os_notify i)
  with ex inv show ?thesis by (auto simp: os_step_def Let_def intro!: copy_inv_put split: option.splits)
next
  case (Os_copy i)
  with ex inv show ?thesis
    by (auto simp: os_step_def og_copyCode_def intro!: copy_inv_put split: if_splits prod.splits)
qed (use ex inv in \<open>auto simp: os_step_def Let_def intro: copy_inv_commit same_copy_trans
      split: if_splits\<close>)

lemma os_exec_copy_inv: "copy_inv sys \<Longrightarrow> os_exec E ws ev sys = Some sys' \<Longrightarrow> copy_inv sys'"
  by (auto simp: os_exec_def intro: os_step_copy_inv split: os_event.splits if_splits)

lemma os_reach_copy_inv: "os_reach E ws sys \<Longrightarrow> copy_inv sys"
proof (induction rule: os_reach.induct)
  case (init ids br)
  show ?case by (simp add: copy_inv_def copy_ok_def os_init_def og_fields_def)
next
  case (step sys ev sys')
  from step.IH step.hyps(2) show ?case by (rule os_exec_copy_inv)
qed

subsection \<open>Room documents keep their fields\<close>

lemma db_typed_apply_write: "db_typed db \<Longrightarrow> write_typed db w \<Longrightarrow> db_typed (apply_write w db)"
  by (cases w) (auto simp: db_typed_def doc_typed_def apply_patch_def split: option.splits)

lemma apply_write_keeps_room: "db r = Some d \<Longrightarrow> \<exists>d'. apply_write w db r = Some d'"
  by (cases w) auto

lemma typed_issue_ops [intro!]:
  "typed_issue db (og_createGame E c s)" "typed_issue db (og_joinGame s)"
  "typed_issue db (og_leaveGame E ws s)" "typed_issue db (og_onUserMove E ws s)"
  "(snap \<noteq> None \<Longrightarrow> \<exists>r. og_gameRef s = Some r \<and> db r \<noteq> None) \<Longrightarrow> typed_issue db (og_join_cont snap s)"
  "(snap \<noteq> None \<Longrightarrow> \<exists>r. og_gameRef s = Some r \<and> db r \<noteq> None) \<Longrightarrow> typed_issue db (og_leave_cont E ws snap s)"
  unfolding typed_issue_def
  by (auto simp: og_createGame_def og_joinGame_def og_join_cont_def og_leaveGame_def
      og_leave_cont_def og_onUserMove_def Let_def doc_typed_def split: option.splits prod.splits)

lemma snap_of_ops [simp]:
  "snap_of (snd (snd (og_createGame E c s))) = None" "snap_of (snd (snd (og_joinGame s))) = None"
  "snap_of (snd (snd (og_leaveGame E ws s))) = None" "snap_of (snd (snd (og_onUserMove E ws s))) = None"
  "snap_of (snd (snd (og_join_cont snap s))) = None" "snap_of (snd (snd (og_leave_cont E ws snap s))) = None"
  by (auto simp: og_createGame_def og_joinGame_def og_join_cont_def og_leaveGame_def
      og_leave_cont_def og_onUserMove_def Let_def split: option.splits prod.splits)

lemma og_gameRef_keep [simp]:
  "og_gameRef (og_on_value E ws s d) = og_gameRef s" "og_gameRef (og_copy_timeout s) = og_gameRef s"
  "og_gameRef (os_client sys i) = og_gameRef (os_clients sys i)"
  by (auto simp: og_on_value_def handleGameOver_def Let_def og_apply_fen_def orientForRole_def
      og_copy_timeout_def os_client_def split: option.splits game_status.splits)

lemma type_inv_timers [simp]:
  "type_inv (sys\<lparr>os_timers := ts\<rparr>) = type_inv sys"
  "type_inv (sys\<lparr>os_timers := ts, os_next_timer := n\<rparr>) = type_inv sys"
  by (simp_all add: type_inv_def snap_ok_def)

lemma type_inv_issue:
  assumes "type_inv sys" "typed_issue (os_db sys) r" "snap_of (snd (snd r)) = None"
  shows "type_inv (os_issue E ws i r sys)"
  using assms
  by (cases r) (fastforce simp: os_issue_def Let_def type_inv_def snap_ok_def os_put_def typed_issue_def
      db_typed_apply_write intro: apply_write_keeps_room split: option.splits)

lemma type_inv_put:
  "type_inv sys \<Longrightarrow> og_gameRef s = og_gameRef (os_clients sys i) \<Longrightarrow> type_inv (os_put i s sys)"
  by (simp add: type_inv_def snap_ok_def os_put_def)

lemma type_inv_set_client: "type_inv sys \<Longrightarrow> type_inv (os_set_client i s sys)"
  by (simp add: type_inv_def snap_ok_def os_set_client_def os_put_def)

lemma type_inv_commit:
  assumes "os_commit fail E ws i r sys = Some sys'" and "type_inv sys" and "typed_issue (os_db sys) r"
    and "snap_of (snd (snd r)) = None"
  shows "type_inv sys'"
proof (cases fail)
  case False
  with assms show ?thesis by (auto simp: os_commit_def intro: type_inv_issue)
next
  case True
  with assms show ?thesis
    by (cases r) (auto simp: os_commit_def os_reject_def intro!: type_inv_set_client split: option.splits)
qed

lemma os_step_type_inv:
  assumes inv: "type_inv sys" and ex: "os_step E ws fail ev sys = Some sys'"
  shows "type_inv sys'"
proof -
  have snap: "snap \<noteq> None \<Longrightarrow> \<exists>r. og_gameRef (os_client sys i) = Some r \<and> os_db sys r \<noteq> None"
    if "snap_of (os_pc sys i) = snap" for i snap
    using inv that by (simp add: type_inv_def snap_ok_def)
  show ?thesis
  proof (cases ev)
    case (Os_read i)
    with ex inv show ?thesis
      by (auto simp: os_step_def type_inv_def snap_ok_def split: option.splits og_pending.splits if_split_asm)
  next
    case (Os_resume i)
    with ex inv snap show ?thesis
      by (auto simp: os_step_def os_done_def Let_def intro: type_inv_commit intro!: type_inv_set_client
          split: option.splits og_pending.splits if_splits)
  next
    case (Os_copy i)
    with ex inv show ?thesis
      by (auto simp: os_step_def og_copyCode_def os_put_def type_inv_def snap_ok_def split: if_splits)
  next
    case (Os_clip i r)
    with ex inv show ?thesis
      by (auto simp: os_step_def intro: type_inv_set_client split: option.splits og_pending.splits prod.splits)
  next
    case (Os_timer i t)
    with ex inv show ?thesis by (auto simp: os_step_def intro!: type_inv_put split: if_splits)
  next
    case (Os_notify i)
    with ex inv show ?thesis by (auto simp: os_step_def Let_def intro!: type_inv_put split: option.splits)
  next
    case (Os_reload i fid)
    with ex inv show ?thesis
      by (auto simp: os_step_def os_reload_def Let_def type_inv_def snap_ok_def os_set_client_def os_put_def)
  qed (use ex inv in \<open>auto simp: os_step_def Let_def intro: type_inv_commit split: if_splits\<close>)
qed

lemma os_exec_type_inv: "type_inv sys \<Longrightarrow> os_exec E ws ev sys = Some sys' \<Longrightarrow> type_inv sys'"
  by (auto simp: os_exec_def intro: os_step_type_inv split: os_event.splits if_splits)

lemma os_reach_type_inv: "os_reach E ws sys \<Longrightarrow> type_inv sys"
proof (induction rule: os_reach.induct)
  case (init ids br)
  show ?case by (simp add: type_inv_def db_typed_def snap_ok_def os_init_def)
next
  case (step sys ev sys')
  from step.IH step.hyps(2) show ?case by (rule os_exec_type_inv)
qed

subsection \<open>Refused writes\<close>

lemma og_on_value_sync:
  "og_unsub (og_on_value E ws s d) = og_unsub s"
  "gd_fen d \<noteq> [] \<Longrightarrow> bd_fen (og_board (og_on_value E ws s d)) = gd_fen d"
  "gd_fen d \<noteq> [] \<Longrightarrow> eng_load E (gd_fen d) = Some p \<Longrightarrow> og_chess (og_on_value E ws s d) = p"
  by (auto simp: og_on_value_def Let_def handleGameOver_def split: option.splits prod.splits game_status.splits)

lemma local_event_unsub [simp]: "og_unsub (local_event E ws w db s) = og_unsub s"
  by (auto simp: local_event_def og_on_value_sync split: option.splits)

lemma local_event_listening:
  "og_unsub s = Some (write_room w) \<Longrightarrow> db (write_room w) = Some d \<Longrightarrow> local_event E ws w db s = og_on_value E ws s d"
  by (simp add: local_event_def)

lemma og_onUserMove_write:
  "og_onUserMove E ws s = (s', Some w, pc) \<Longrightarrow>
     og_gameRef s = Some (write_room w) \<and> og_unsub s' = og_unsub s"
  by (auto simp: og_onUserMove_def Let_def split: option.splits if_splits)

text \<open>A refused write leaves the database and the other clients alone; the writer ends on the revert event.\<close>

lemma os_reject_result:
  assumes "os_reject E ws i (s', Some w, pc) sys = Some sys'"
  shows "os_db sys' = os_db sys \<and> os_pc sys' i = None \<and> (\<forall>j. j \<noteq> i \<longrightarrow> os_clients sys' j = os_clients sys j) \<and>
    os_clients sys' i = local_event E ws w (os_db sys) (local_event E ws w (apply_write w (os_db sys)) s')"
  using assms by (auto simp: os_reject_def os_set_client_def os_put_def)

lemma og_construct_black:
  "storage_load online_key online_codec ls = Some st \<Longrightarrow> ol_role st = Black \<Longrightarrow> ol_code st \<noteq> [] \<Longrightarrow>
     ol_clientId st \<noteq> [] \<Longrightarrow> og_construct E ls fid = None"
  by (simp add: og_construct_def og_fields_def attachToGame_def orient_unbuilt_def listenForUpdates_def Let_def)

lemma os_crashed_blocks:
  "os_crashed sys (ev_tab ev) \<Longrightarrow> \<not> is_reload ev \<Longrightarrow> os_exec E ws ev sys = None"
  by (simp add: os_exec_def)

subsection \<open>Join and leave steps\<close>

lemma og_role_local_event [simp]: "og_role (local_event E ws w db s) = og_role s"
  by (auto simp: local_event_def og_on_value_def Let_def handleGameOver_def split: option.splits prod.splits
      game_status.splits)

lemma os_exec_read_join:
  "\<not> os_crashed sys j \<Longrightarrow> os_pc sys j = Some Pend_join_get \<Longrightarrow> og_gameRef (os_clients sys j) = Some r \<Longrightarrow>
     os_exec E ws (Os_read j) sys = Some (sys\<lparr>os_pc := (os_pc sys)(j := Some (Pend_join_snap (os_db sys r)))\<rparr>)"
  by (simp add: os_exec_def os_step_def)

text \<open>The join continuation on a snapshot with white taken and black free claims black.\<close>

lemma os_exec_resume_join_black:
  assumes "\<not> os_crashed sys j" and "os_pc sys j = Some (Pend_join_snap (Some v))"
    and "og_gameRef (os_clients sys j) = Some r"
    and "slot_present (pl_white (gd_players v))" and "\<not> slot_present (pl_black (gd_players v))"
  shows "\<exists>sys' d'. os_exec E ws (Os_resume j) sys = Some sys' \<and>
    og_role (os_clients sys' j) = Some Black \<and> os_pc sys' j = Some Pend_join_upd \<and>
    os_db sys' r = Some d' \<and> pl_black (gd_players d') = Some (og_clientId (os_clients sys j)) \<and>
    (\<forall>i. i \<noteq> j \<longrightarrow> os_clients sys' i = os_clients sys i \<and> os_pc sys' i = os_pc sys i) \<and>
    os_crashed sys' = os_crashed sys"
  using assms
  by (auto simp: os_exec_def os_step_def os_commit_def os_issue_def og_join_cont_def Let_def os_put_def
      os_client_def apply_patch_def no_patch_def)

section \<open>Sessions\<close>

lemma demo_join_race_start:
  "case os_run demo_engine demo_ows (take 4 demo_join_race) (os_init demo_engine demo_ids demo_browsers) of
     None \<Rightarrow> False
   | Some sys \<Rightarrow> \<not> os_crashed sys 2 \<and> \<not> os_crashed sys 3 \<and>
       os_pc sys 2 = Some Pend_join_get \<and> os_pc sys 3 = Some Pend_join_get \<and>
       og_gameRef (os_clients sys 2) = Some ''R1'' \<and> og_gameRef (os_clients sys 3) = Some ''R1'' \<and>
       og_clientId (os_clients sys 3) = ''C'' \<and>
       (case os_db sys ''R1'' of None \<Rightarrow> False
        | Some d \<Rightarrow> slot_present (pl_white (gd_players d)) \<and> \<not> slot_present (pl_black (gd_players d)))"
  by code_simp

lemma demo_stale_leave_start:
  "case os_run demo_engine demo_ows (take 8 demo_stale_leave) (os_init demo_engine demo_ids demo_browsers) of
     None \<Rightarrow> False
   | Some sys \<Rightarrow> \<not> os_crashed sys 1 \<and> og_gameRef (os_clients sys 1) = Some ''R1'' \<and>
       og_role (os_clients sys 1) = Some White \<and>
       (case os_pc sys 1 of Some (Pend_leave_snap (Some v)) \<Rightarrow>
          pl_white (gd_players v) = Some (og_clientId (os_clients sys 1)) \<and> pl_black (gd_players v) = None
        | _ \<Rightarrow> False) \<and>
       (case os_db sys ''R1'' of None \<Rightarrow> False | Some d \<Rightarrow> pl_black (gd_players d) = Some ''B'')"
  by code_simp

lemma demo_online_mate_run:
  "case os_run demo_engine demo_ows demo_online_mate (os_init demo_engine demo_ids demo_browsers) of
     None \<Rightarrow> False
   | Some sys \<Rightarrow> os_db sys ''R1'' \<noteq> None \<and> gd_status (the (os_db sys ''R1'')) = Some Ended"
  by code_simp

lemma demo_online_mate_drag:
  "case os_run demo_engine demo_ows (take 8 demo_online_mate) (os_init demo_engine demo_ids demo_browsers) of
     None \<Rightarrow> False
   | Some sys \<Rightarrow> \<not> og_lightDisabled (os_clients sys 1)"
  by code_simp

lemma demo_copy_run:
  "case os_run demo_engine demo_ows demo_copy (os_init demo_engine demo_ids demo_browsers) of
     None \<Rightarrow> False
   | Some sys \<Rightarrow> os_timers sys 1 = [2] \<and> os_next_timer sys = 3"
  by code_simp

lemma demo_tabs_run:
  "case os_run demo_engine demo_ows demo_tabs (os_init demo_engine demo_ids demo_browsers) of
     None \<Rightarrow> False
   | Some sys \<Rightarrow> os_browser sys 1 = os_browser sys 4 \<and>
       og_clientId (os_clients sys 1) = ''A'' \<and> og_clientId (os_clients sys 4) = ''A'' \<and>
       og_role (os_clients sys 1) = Some White \<and> og_role (os_clients sys 4) = Some White \<and>
       og_gameRef (os_clients sys 1) = Some ''R1'' \<and> og_gameRef (os_clients sys 4) = Some ''R1'' \<and>
       \<not> og_lightDisabled (os_clients sys 1) \<and> \<not> og_lightDisabled (os_clients sys 4)"
  by code_simp

lemma demo_refused_move_run:
  "case os_run demo_engine demo_ows (take 8 demo_online_mate) (os_init demo_engine demo_ids demo_browsers) of
     None \<Rightarrow> False
   | Some sys \<Rightarrow> os_exec demo_engine demo_ows (Os_denied (Os_move 1 ''K b'')) sys \<noteq> None \<and>
       og_unsub (os_clients sys 1) = Some ''R1'' \<and> og_gameRef (os_clients sys 1) = Some ''R1'' \<and>
       (case os_db sys ''R1'' of None \<Rightarrow> False
        | Some d \<Rightarrow> gd_fen d \<noteq> [] \<and> gd_fen d \<noteq> ''K b'' \<and> eng_load demo_engine (gd_fen d) \<noteq> None)"
  by code_simp

lemma demo_refused_create_run:
  "case os_run demo_engine demo_ows demo_refused_create (os_init demo_engine demo_ids demo_browsers) of
     None \<Rightarrow> False
   | Some sys \<Rightarrow> os_db sys ''R1'' = None \<and> og_role (os_clients sys 1) = Some White \<and>
       og_gameRef (os_clients sys 1) = Some ''R1'' \<and> og_unsub (os_clients sys 1) = Some ''R1'' \<and>
       os_pc sys 1 = None"
  by code_simp

lemma demo_black_join_run:
  "case os_run demo_engine demo_ows demo_black_join (os_init demo_engine demo_ids demo_browsers) of
     None \<Rightarrow> False
   | Some sys \<Rightarrow> og_role (os_clients sys 2) = Some Black \<and> os_pc sys 2 = None \<and> \<not> os_crashed sys 2 \<and>
       storage_load online_key online_codec (os_store sys (os_browser sys 2)) =
         Some \<lparr>ol_code = ''R1'', ol_role = Black, ol_clientId = ''B''\<rparr>"
  by code_simp

section \<open>Claims about the online system\<close>

text \<open>
  C36. In every reachable state of any number of clients, for any engine, a room whose
  status is \<open>ended\<close> records a turn and a winner, and the winner is the side not to move:
  every write the clients issue (\<open>set\<close> on create, the join and leave \<open>update\<close>s, the move
  \<open>update\<close>) keeps this, whatever interleaving the races produce.
\<close>

theorem online_ended_room_has_winner:
  assumes "os_reach E ws sys" and "os_db sys r = Some d" and "gd_status d = Some Ended"
  shows "\<exists>t. gd_turn d = Some t \<and> gd_winner d = Some (winner_of t)"
  using os_reach_inv [OF assms(1)] assms(2,3) by (auto simp: os_inv_def ended_ok_def)

theorem online_ended_room_has_winner_witness:
  "\<exists>sys d t. os_reach demo_engine demo_ows sys \<and> os_db sys ''R1'' = Some d \<and>
     gd_status d = Some Ended \<and> gd_turn d = Some t \<and> gd_winner d = Some (winner_of t)"
proof -
  obtain sys where run: "os_run demo_engine demo_ows demo_online_mate (os_init demo_engine demo_ids demo_browsers) = Some sys"
    and e: "os_db sys ''R1'' \<noteq> None" "gd_status (the (os_db sys ''R1'')) = Some Ended"
    using demo_online_mate_run by (auto split: option.splits)
  obtain d where d: "os_db sys ''R1'' = Some d" using e(1) by auto
  have r: "os_reach demo_engine demo_ows sys"
    using os_reach.init run by (rule os_run_reach)
  have st: "gd_status d = Some Ended" using e(2) d by simp
  show ?thesis using r d st online_ended_room_has_winner [OF r d st] by blast
qed

text \<open>
  C37. In every reachable state, a client's board lets the user drag white pieces only if
  the client holds the white seat, and black pieces only if it holds the black seat, and
  in both cases only once the room shows both seats taken.
\<close>

theorem online_drag_needs_seat:
  assumes "os_reach E ws sys" and "s = os_clients sys i"
  shows "(\<not> og_lightDisabled s \<longrightarrow> og_role s = Some White \<and> og_bothJoined s) \<and>
         (\<not> og_darkDisabled s \<longrightarrow> og_role s = Some Black \<and> og_bothJoined s)"
proof -
  have "og_ok s" using os_reach_inv [OF assms(1)] assms(2) by (simp add: os_inv_def)
  then show ?thesis
    by (cases "og_role s") (auto simp: og_ok_def og_lightDisabled_def og_darkDisabled_def elim: role.exhaust)
qed

theorem online_drag_needs_seat_witness:
  "\<exists>sys. os_reach demo_engine demo_ows sys \<and> \<not> og_lightDisabled (os_clients sys 1) \<and>
     og_role (os_clients sys 1) = Some White \<and> og_bothJoined (os_clients sys 1)"
proof -
  obtain sys where run: "os_run demo_engine demo_ows (take 8 demo_online_mate)
      (os_init demo_engine demo_ids demo_browsers) = Some sys" and l: "\<not> og_lightDisabled (os_clients sys 1)"
    using demo_online_mate_drag by (auto split: option.splits)
  have r: "os_reach demo_engine demo_ows sys"
    using os_reach.init run by (rule os_run_reach)
  show ?thesis using r l online_drag_needs_seat [OF r refl, of 1] by blast
qed

text \<open>
  C38. Join race (a finding). \<open>joinGame\<close> checks the slots on its \<open>get\<close> snapshot and
  claims one with a later \<open>update\<close>. Whenever two clients wait on a \<open>get\<close> of a room
  whose white seat is taken and black seat free, the interleaving in which both reads
  come before either continuation makes both clients black; the database keeps the
  later joiner's id.
\<close>

theorem online_join_race_two_blacks:
  assumes "j \<noteq> k" and "\<not> os_crashed sys j" and "\<not> os_crashed sys k"
    and "os_pc sys j = Some Pend_join_get" and "os_pc sys k = Some Pend_join_get"
    and "og_gameRef (os_clients sys j) = Some r" and "og_gameRef (os_clients sys k) = Some r"
    and "os_db sys r = Some d" and "slot_present (pl_white (gd_players d))"
    and "\<not> slot_present (pl_black (gd_players d))"
  shows "\<exists>sys' d'. os_run E ws [Os_read j, Os_read k, Os_resume j, Os_resume k] sys = Some sys' \<and>
    og_role (os_clients sys' j) = Some Black \<and> og_role (os_clients sys' k) = Some Black \<and>
    os_pc sys' j = Some Pend_join_upd \<and> os_pc sys' k = Some Pend_join_upd \<and>
    os_db sys' r = Some d' \<and> pl_black (gd_players d') = Some (og_clientId (os_clients sys k))"
proof -
  let ?s1 = "sys\<lparr>os_pc := (os_pc sys)(j := Some (Pend_join_snap (os_db sys r)))\<rparr>"
  let ?s2 = "?s1\<lparr>os_pc := (os_pc ?s1)(k := Some (Pend_join_snap (os_db ?s1 r)))\<rparr>"
  have e1: "os_exec E ws (Os_read j) sys = Some ?s1"
    using assms by (intro os_exec_read_join) simp_all
  have e2: "os_exec E ws (Os_read k) ?s1 = Some ?s2"
    using assms by (intro os_exec_read_join) simp_all
  obtain s3 d3 where e3: "os_exec E ws (Os_resume j) ?s2 = Some s3"
    and r3: "og_role (os_clients s3 j) = Some Black" "os_pc s3 j = Some Pend_join_upd"
    and o3: "\<forall>i. i \<noteq> j \<longrightarrow> os_clients s3 i = os_clients ?s2 i \<and> os_pc s3 i = os_pc ?s2 i"
    and c3: "os_crashed s3 = os_crashed ?s2"
    using os_exec_resume_join_black [of ?s2 j d r E ws] assms by auto
  obtain s4 d4 where e4: "os_exec E ws (Os_resume k) s3 = Some s4"
    and r4: "og_role (os_clients s4 k) = Some Black" "os_pc s4 k = Some Pend_join_upd"
      "os_db s4 r = Some d4" "pl_black (gd_players d4) = Some (og_clientId (os_clients s3 k))"
    and o4: "\<forall>i. i \<noteq> k \<longrightarrow> os_clients s4 i = os_clients s3 i \<and> os_pc s4 i = os_pc s3 i"
    using os_exec_resume_join_black [of s3 k d r E ws] assms o3 c3 by auto
  have "os_run E ws [Os_read j, Os_read k, Os_resume j, Os_resume k] sys = Some s4"
    using e1 e2 e3 e4 by simp
  with r3 r4 o3 o4 assms(1) show ?thesis by auto
qed

theorem online_join_race_two_blacks_witness:
  "\<exists>sys d sys' d'. os_reach demo_engine demo_ows sys \<and> \<not> os_crashed sys 2 \<and> \<not> os_crashed sys 3 \<and>
     os_pc sys 2 = Some Pend_join_get \<and> os_pc sys 3 = Some Pend_join_get \<and>
     og_gameRef (os_clients sys 2) = Some ''R1'' \<and> og_gameRef (os_clients sys 3) = Some ''R1'' \<and>
     os_db sys ''R1'' = Some d \<and> slot_present (pl_white (gd_players d)) \<and>
     \<not> slot_present (pl_black (gd_players d)) \<and>
     os_run demo_engine demo_ows [Os_read 2, Os_read 3, Os_resume 2, Os_resume 3] sys = Some sys' \<and>
     og_role (os_clients sys' 2) = Some Black \<and> og_role (os_clients sys' 3) = Some Black \<and>
     os_db sys' ''R1'' = Some d' \<and> pl_black (gd_players d') = Some ''C''"
proof -
  obtain sys where run: "os_run demo_engine demo_ows (take 4 demo_join_race)
      (os_init demo_engine demo_ids demo_browsers) = Some sys"
    and p: "\<not> os_crashed sys 2" "\<not> os_crashed sys 3"
      "os_pc sys 2 = Some Pend_join_get" "os_pc sys 3 = Some Pend_join_get"
      "og_gameRef (os_clients sys 2) = Some ''R1''" "og_gameRef (os_clients sys 3) = Some ''R1''"
      "og_clientId (os_clients sys 3) = ''C''"
    and db: "case os_db sys ''R1'' of None \<Rightarrow> False
      | Some d \<Rightarrow> slot_present (pl_white (gd_players d)) \<and> \<not> slot_present (pl_black (gd_players d))"
    using demo_join_race_start by (auto split: option.splits)
  obtain d where d: "os_db sys ''R1'' = Some d" using db by (auto split: option.splits)
  have sl: "slot_present (pl_white (gd_players d))" "\<not> slot_present (pl_black (gd_players d))"
    using db d by simp_all
  have r: "os_reach demo_engine demo_ows sys"
    using os_reach.init run by (rule os_run_reach)
  have "(2::nat) \<noteq> 3" by simp
  from online_join_race_two_blacks [OF this p(1-6) d sl, of demo_engine demo_ows] p(7)
  show ?thesis using r p d sl by auto
qed

text \<open>
  C39. Stale leave (a finding). \<open>leaveGame\<close> writes back the \<open>players\<close> object of the
  snapshot its \<open>get\<close> returned. Whatever the room holds when the continuation runs, the
  leaver's write sets the players to the snapshot's with its own seat cleared: a seat
  taken since the \<open>get\<close> is erased.
\<close>

theorem online_stale_leave_erases_seat:
  assumes "\<not> os_crashed sys j" and "os_pc sys j = Some (Pend_leave_snap (Some v))"
    and "og_gameRef (os_clients sys j) = Some r" and "og_role (os_clients sys j) = Some White"
    and "pl_white (gd_players v) = Some (og_clientId (os_clients sys j))" and "os_db sys r = Some d"
  shows "\<exists>sys' d'. os_exec E ws (Os_resume j) sys = Some sys' \<and> os_db sys' r = Some d' \<and>
    gd_players d' = (gd_players v)\<lparr>pl_white := None\<rparr> \<and> gd_status d' = Some Waiting \<and>
    gd_fen d' = gd_fen d \<and> gd_turn d' = gd_turn d"
  using assms
  by (simp add: os_exec_def os_step_def os_commit_def os_issue_def og_leave_cont_def Let_def os_put_def
      os_client_def apply_patch_def no_patch_def)

theorem online_stale_leave_erases_seat_witness:
  "\<exists>sys v d sys' d'. os_reach demo_engine demo_ows sys \<and> \<not> os_crashed sys 1 \<and>
     os_pc sys 1 = Some (Pend_leave_snap (Some v)) \<and> og_gameRef (os_clients sys 1) = Some ''R1'' \<and>
     og_role (os_clients sys 1) = Some White \<and> pl_white (gd_players v) = Some (og_clientId (os_clients sys 1)) \<and>
     os_db sys ''R1'' = Some d \<and> pl_black (gd_players d) = Some ''B'' \<and>
     os_exec demo_engine demo_ows (Os_resume 1) sys = Some sys' \<and> os_db sys' ''R1'' = Some d' \<and>
     pl_black (gd_players d') = None"
proof -
  obtain sys where run: "os_run demo_engine demo_ows (take 8 demo_stale_leave)
      (os_init demo_engine demo_ids demo_browsers) = Some sys"
    and p: "\<not> os_crashed sys 1" "og_gameRef (os_clients sys 1) = Some ''R1''"
      "og_role (os_clients sys 1) = Some White"
    and pc: "case os_pc sys 1 of Some (Pend_leave_snap (Some v)) \<Rightarrow>
        pl_white (gd_players v) = Some (og_clientId (os_clients sys 1)) \<and> pl_black (gd_players v) = None
      | _ \<Rightarrow> False"
    and db: "case os_db sys ''R1'' of None \<Rightarrow> False | Some d \<Rightarrow> pl_black (gd_players d) = Some ''B''"
    using demo_stale_leave_start by (auto split: option.splits)
  obtain v where v: "os_pc sys 1 = Some (Pend_leave_snap (Some v))"
    "pl_white (gd_players v) = Some (og_clientId (os_clients sys 1))" "pl_black (gd_players v) = None"
    using pc by (auto split: option.splits og_pending.splits)
  obtain d where d: "os_db sys ''R1'' = Some d" "pl_black (gd_players d) = Some ''B''"
    using db by (auto split: option.splits)
  have r: "os_reach demo_engine demo_ows sys"
    using os_reach.init run by (rule os_run_reach)
  from online_stale_leave_erases_seat [OF p(1) v(1) p(2,3) v(2) d(1), of demo_engine demo_ows] v(3)
  show ?thesis using r p v d by auto
qed

text \<open>
  C11. The copy indicator (\<open>copyCode\<close>). In every reachable state, each client has at
  most one pending timeout: none while \<open>copied\<close> is false, and while it is true exactly
  one, the non-zero timer id the component keeps in \<open>copyTimer\<close>. A second copy inside
  the 1200 ms window clears the first timer before it arms a new one, so an earlier
  timeout never hides the indicator of a later copy.
\<close>

theorem online_copy_indicator:
  assumes "os_reach E ws sys"
  shows "case os_timers sys i of
           [] \<Rightarrow> \<not> og_copied (os_clients sys i)
         | [t] \<Rightarrow> og_copied (os_clients sys i) \<and> og_copyTimer (os_clients sys i) = Some t \<and> 0 < t
         | _ \<Rightarrow> False"
  using os_reach_copy_inv [OF assms] by (simp add: copy_inv_def copy_ok_def)

theorem online_copy_indicator_witness:
  "\<exists>sys. os_reach demo_engine demo_ows sys \<and> os_timers sys 1 = [2] \<and> os_next_timer sys = 3 \<and>
     og_copied (os_clients sys 1) \<and> og_copyTimer (os_clients sys 1) = Some 2"
proof -
  obtain sys where run: "os_run demo_engine demo_ows demo_copy (os_init demo_engine demo_ids demo_browsers) = Some sys"
    and t: "os_timers sys 1 = [2]" "os_next_timer sys = 3"
    using demo_copy_run by (auto split: option.splits)
  have r: "os_reach demo_engine demo_ows sys"
    using os_reach.init run by (rule os_run_reach)
  show ?thesis using r t online_copy_indicator [OF r, of 1] by auto
qed

text \<open>
  C16. Tabs of one browser share one seat (a finding). \<open>ensureClientId\<close> keeps the
  client id in \<open>localStorage\<close>, which every tab of a browser shares, and the constructor
  resumes the stored session. A second tab opened, or reloaded, after the first created a
  room takes the first tab's id and its white seat: both tabs attach to the room as
  white and both accept drags of the white pieces once the second player has joined.
  The spec calls the id a stable per-tab identifier.
\<close>

theorem online_tabs_share_seat:
  "\<exists>sys. os_reach demo_engine demo_ows sys \<and> os_browser sys 1 = os_browser sys 4 \<and>
     og_clientId (os_clients sys 1) = og_clientId (os_clients sys 4) \<and>
     og_role (os_clients sys 1) = Some White \<and> og_role (os_clients sys 4) = Some White \<and>
     og_gameRef (os_clients sys 1) = Some ''R1'' \<and> og_gameRef (os_clients sys 4) = Some ''R1'' \<and>
     \<not> og_lightDisabled (os_clients sys 1) \<and> \<not> og_lightDisabled (os_clients sys 4)"
proof -
  obtain sys where run: "os_run demo_engine demo_ows demo_tabs (os_init demo_engine demo_ids demo_browsers) = Some sys"
    and p: "os_browser sys 1 = os_browser sys 4 \<and>
       og_clientId (os_clients sys 1) = ''A'' \<and> og_clientId (os_clients sys 4) = ''A'' \<and>
       og_role (os_clients sys 1) = Some White \<and> og_role (os_clients sys 4) = Some White \<and>
       og_gameRef (os_clients sys 1) = Some ''R1'' \<and> og_gameRef (os_clients sys 4) = Some ''R1'' \<and>
       \<not> og_lightDisabled (os_clients sys 1) \<and> \<not> og_lightDisabled (os_clients sys 4)"
    using demo_tabs_run by (auto split: option.splits)
  have "os_reach demo_engine demo_ows sys"
    using os_reach.init run by (rule os_run_reach)
  with p show ?thesis by auto
qed

text \<open>
  C18. Room documents are well-typed. In every reachable state, for any engine and any
  interleaving, every room document in the database has a \<open>turn\<close> and a \<open>status\<close>, the
  fields the snapshot handler reads. The join and leave \<open>update\<close>s do not name
  \<open>turn\<close>; they are safe because they follow a \<open>get\<close> that found the room, and rooms
  are never removed.
\<close>

theorem online_rooms_typed:
  assumes "os_reach E ws sys" and "os_db sys r = Some d"
  shows "\<exists>t st. gd_turn d = Some t \<and> gd_status d = Some st"
  using os_reach_type_inv [OF assms(1)] assms(2) by (auto simp: type_inv_def db_typed_def doc_typed_def)

theorem online_rooms_typed_witness:
  "\<exists>sys d t st. os_reach demo_engine demo_ows sys \<and> os_db sys ''R1'' = Some d \<and>
     gd_turn d = Some t \<and> gd_status d = Some st"
proof -
  obtain sys where run: "os_run demo_engine demo_ows demo_online_mate (os_init demo_engine demo_ids demo_browsers) = Some sys"
    and e: "os_db sys ''R1'' \<noteq> None"
    using demo_online_mate_run by (auto split: option.splits)
  obtain d where d: "os_db sys ''R1'' = Some d" using e by auto
  have r: "os_reach demo_engine demo_ows sys"
    using os_reach.init run by (rule os_run_reach)
  show ?thesis using r d online_rooms_typed [OF r d] by blast
qed

text \<open>
  C25. A refused move write heals at the mover (error path). When the server refuses
  the \<open>update\<close> of a move, the database keeps its value, the mover waits for nothing,
  no other client changes, and the mover's own listener, which showed the optimistic
  position, receives the reverted room: its board shows the room's position again and
  its engine holds that position, so the refused move leaves no trace.
\<close>

theorem online_refused_move_reverts:
  assumes ex: "os_exec E ws (Os_denied (Os_move i f)) sys = Some sys'"
    and sub: "og_unsub (os_clients sys i) = Some r" and ref: "og_gameRef (os_clients sys i) = Some r"
    and room: "os_db sys r = Some d" and fen: "gd_fen d \<noteq> []" and ld: "eng_load E (gd_fen d) = Some p"
  shows "os_db sys' = os_db sys \<and> os_pc sys' i = None \<and> (\<forall>j. j \<noteq> i \<longrightarrow> os_clients sys' j = os_clients sys j) \<and>
    bd_fen (og_board (os_clients sys' i)) = gd_fen d \<and> og_chess (os_clients sys' i) = p"
proof -
  let ?s = "os_client sys i"
  let ?m = "?s\<lparr>og_board := (og_board ?s)\<lparr>bd_fen := f\<rparr>\<rparr>"
  obtain s' w pc where mv: "og_onUserMove E ws ?m = (s', Some w, pc)"
    and rj: "os_reject E ws i (s', Some w, pc) sys = Some sys'"
    using ex by (auto simp: os_exec_def os_step_def os_commit_def os_reject_def Let_def
        split: if_splits prod.splits option.splits)
  have "og_gameRef ?m = Some (write_room w)" and u: "og_unsub s' = og_unsub ?m"
    using og_onUserMove_write [OF mv] by auto
  then have wr: "write_room w = r" and u': "og_unsub s' = Some r"
    using sub ref by (simp_all add: os_client_def)
  let ?s1 = "local_event E ws w (apply_write w (os_db sys)) s'"
  have "og_unsub ?s1 = Some (write_room w)" using u' wr by simp
  then have "local_event E ws w (os_db sys) ?s1 = og_on_value E ws ?s1 d"
    using room wr by (intro local_event_listening) simp_all
  with os_reject_result [OF rj] fen ld show ?thesis by (simp add: og_on_value_sync)
qed

theorem online_refused_move_reverts_witness:
  "\<exists>sys sys' d p. os_exec demo_engine demo_ows (Os_denied (Os_move 1 ''K b'')) sys = Some sys' \<and>
     og_unsub (os_clients sys 1) = Some ''R1'' \<and> og_gameRef (os_clients sys 1) = Some ''R1'' \<and>
     os_db sys ''R1'' = Some d \<and> gd_fen d \<noteq> [] \<and> eng_load demo_engine (gd_fen d) = Some p \<and>
     os_db sys' = os_db sys \<and> bd_fen (og_board (os_clients sys' 1)) = gd_fen d \<and> gd_fen d \<noteq> ''K b''"
proof -
  obtain sys where run: "os_run demo_engine demo_ows (take 8 demo_online_mate)
      (os_init demo_engine demo_ids demo_browsers) = Some sys"
    and c: "os_exec demo_engine demo_ows (Os_denied (Os_move 1 ''K b'')) sys \<noteq> None"
      "og_unsub (os_clients sys 1) = Some ''R1''" "og_gameRef (os_clients sys 1) = Some ''R1''"
    and db: "case os_db sys ''R1'' of None \<Rightarrow> False
        | Some d \<Rightarrow> gd_fen d \<noteq> [] \<and> gd_fen d \<noteq> ''K b'' \<and> eng_load demo_engine (gd_fen d) \<noteq> None"
    using demo_refused_move_run by (auto split: option.splits)
  obtain sys' where ex: "os_exec demo_engine demo_ows (Os_denied (Os_move 1 ''K b'')) sys = Some sys'"
    using c(1) by auto
  obtain d where d: "os_db sys ''R1'' = Some d" using db by (auto split: option.splits)
  obtain p where p: "eng_load demo_engine (gd_fen d) = Some p" using db d by auto
  have f: "gd_fen d \<noteq> []" "gd_fen d \<noteq> ''K b''" using db d by auto
  show ?thesis
    using online_refused_move_reverts [OF ex c(2,3) d f(1) p] ex c(2,3) d f p by blast
qed

text \<open>
  C32. A refused create leaves a session for a room that does not exist (a finding).
  \<open>createGame\<close> takes the white role, stores the session and sets \<open>gameRef\<close> before its
  \<open>await set\<close>; when the server refuses the \<open>set\<close> nothing undoes this. After a reload
  the tab resumes the stored session: it is white in room \<open>R1\<close> and listens to it, the
  room does not exist, and \<open>createGame\<close> does nothing any more, since a role is set.
\<close>

theorem online_refused_create_stale_session:
  "\<exists>sys. os_reach demo_engine demo_ows sys \<and> os_db sys ''R1'' = None \<and>
     og_role (os_clients sys 1) = Some White \<and> og_gameRef (os_clients sys 1) = Some ''R1'' \<and>
     og_unsub (os_clients sys 1) = Some ''R1'' \<and> os_pc sys 1 = None \<and>
     (\<forall>rnd. og_createGame demo_engine rnd (os_client sys 1) = (os_client sys 1, None, None))"
proof -
  obtain sys where run: "os_run demo_engine demo_ows demo_refused_create
      (os_init demo_engine demo_ids demo_browsers) = Some sys"
    and p: "os_db sys ''R1'' = None" "og_role (os_clients sys 1) = Some White"
      "og_gameRef (os_clients sys 1) = Some ''R1''" "og_unsub (os_clients sys 1) = Some ''R1''"
      "os_pc sys 1 = None"
    using demo_refused_create_run by (auto split: option.splits)
  have r: "os_reach demo_engine demo_ows sys"
    using os_reach.init run by (rule os_run_reach)
  have "og_createGame demo_engine rnd (os_client sys 1) = (os_client sys 1, None, None)" for rnd
    using p(2) by (simp add: og_createGame_def os_client_def)
  with r p show ?thesis by blast
qed

text \<open>
  A black player cannot resume (a finding). Reloading a tab whose browser keeps a
  black session (code, role and id stored by \<open>joinGame\<close>) crashes the page: the
  constructor throws in \<open>orientForRole\<close>, so the tab shows no component and takes no
  event but another reload. The crash writes nothing: the session stays in the store
  and the room is untouched, so every later reload of that tab crashes again.
\<close>

theorem online_black_reload_crashes:
  assumes ex: "os_exec E ws (Os_reload i fid) sys = Some sys'"
    and ld: "storage_load online_key online_codec (os_store sys (os_browser sys i)) = Some st"
    and st: "ol_role st = Black" "ol_code st \<noteq> []" "ol_clientId st \<noteq> []"
  shows "os_crashed sys' i \<and> os_store sys' = os_store sys \<and> os_db sys' = os_db sys \<and>
    (\<forall>ev. ev_tab ev = i \<and> \<not> is_reload ev \<longrightarrow> os_exec E ws ev sys' = None)"
proof -
  have n: "og_construct E (os_store sys (os_browser sys i)) fid = None"
    using og_construct_black [OF ld st] .
  have s': "sys' = os_reload E i fid sys"
    using ex by (simp add: os_exec_def os_step_def split: if_splits)
  have c: "os_crashed sys' i" and r: "os_store sys' = os_store sys" "os_db sys' = os_db sys"
    using n by (simp_all add: s' os_reload_def Let_def os_set_client_def os_put_def og_fields_def)
  with os_crashed_blocks [of sys' _ E ws] show ?thesis by auto
qed

theorem online_black_reload_crashes_witness:
  "\<exists>sys sys' st. os_reach demo_engine demo_ows sys \<and> os_exec demo_engine demo_ows (Os_reload 2 ''Q'') sys = Some sys' \<and>
     storage_load online_key online_codec (os_store sys (os_browser sys 2)) = Some st \<and>
     ol_role st = Black \<and> ol_code st \<noteq> [] \<and> ol_clientId st \<noteq> [] \<and> og_role (os_clients sys 2) = Some Black \<and>
     os_crashed sys' 2 \<and> os_exec demo_engine demo_ows (Os_leave 2) sys' = None"
proof -
  obtain sys where run: "os_run demo_engine demo_ows demo_black_join (os_init demo_engine demo_ids demo_browsers) = Some sys"
    and p: "og_role (os_clients sys 2) = Some Black" "os_pc sys 2 = None" "\<not> os_crashed sys 2"
      "storage_load online_key online_codec (os_store sys (os_browser sys 2)) =
         Some \<lparr>ol_code = ''R1'', ol_role = Black, ol_clientId = ''B''\<rparr>"
    using demo_black_join_run by (auto split: option.splits)
  have r: "os_reach demo_engine demo_ows sys"
    using os_reach.init run by (rule os_run_reach)
  let ?sys' = "os_reload demo_engine 2 ''Q'' sys"
  from p(3) have ex: "os_exec demo_engine demo_ows (Os_reload 2 ''Q'') sys = Some ?sys'"
    by (simp add: os_exec_def os_step_def)
  have st: "ol_role \<lparr>ol_code = ''R1'', ol_role = Black, ol_clientId = ''B''\<rparr> = Black"
    "ol_code \<lparr>ol_code = ''R1'', ol_role = Black, ol_clientId = ''B''\<rparr> \<noteq> []"
    "ol_clientId \<lparr>ol_code = ''R1'', ol_role = Black, ol_clientId = ''B''\<rparr> \<noteq> []" by simp_all
  have "os_crashed ?sys' 2 \<and> os_exec demo_engine demo_ows (Os_leave 2) ?sys' = None"
    using online_black_reload_crashes [OF ex p(4) st] by simp
  with r ex p st show ?thesis by blast
qed

end
