(* ===== verification/Routing.thy ===== *)
theory Routing
  imports Chess_Prelude
begin

text \<open>
  The application's route tables (\<open>src/unnamed/part_000\<close> holds two versions of
  \<open>AppRoutingModule\<close>, \<open>src/unnamed/part_001\<close> a third) and the way Angular's router
  resolves a URL against such a flat table: routes are tried in order, the first one
  whose processing succeeds wins, a \<open>loadComponent\<close> route must consume the whole URL,
  a redirect replaces the segments it consumed and matching restarts on the result.
  After a redirect the router processes the same level again with redirects disabled
  (the \<open>allowRedirects = false\<close> argument of its recogniser); the number of successive
  redirects it follows is the parameter \<open>n\<close> of \<open>resolve\<close>, one for the router the
  code uses. The tables have no parameter segments, children or outlets, so matching
  compares segments literally.
\<close>

section \<open>Route tables\<close>

datatype view = GameHostComponent | BoardEmbedComponent | OnlineGameComponent

datatype path_match = Prefix | Full

datatype route_target = Load view | Redirect string

record route =
  rt_path :: string
  rt_match :: path_match
  rt_target :: route_target

definition load_route :: "string \<Rightarrow> view \<Rightarrow> route" where
  "load_route p v = \<lparr>rt_path = p, rt_match = Prefix, rt_target = Load v\<rparr>"

definition redirect_route :: "string \<Rightarrow> path_match \<Rightarrow> string \<Rightarrow> route" where
  "redirect_route p m t = \<lparr>rt_path = p, rt_match = m, rt_target = Redirect t\<rparr>"

text \<open>The first \<open>AppRoutingModule\<close> of \<open>part_000\<close> (lines 4--29).\<close>

definition routes_000a :: "route list" where
  "routes_000a =
     [load_route ''game/offline'' GameHostComponent,
      load_route ''embed-board'' BoardEmbedComponent,
      load_route ''game/online'' OnlineGameComponent,
      redirect_route ''mainpage'' Full ''game/offline'',
      redirect_route ''iframepage'' Full ''embed-board'',
      redirect_route ''**'' Prefix ''game/offline'']"

text \<open>The second \<open>AppRoutingModule\<close> of \<open>part_000\<close> (lines 40--66).\<close>

definition routes_000b :: "route list" where
  "routes_000b =
     [load_route ''game/offline'' GameHostComponent,
      load_route ''embed-board'' BoardEmbedComponent,
      load_route ''game/online'' OnlineGameComponent,
      redirect_route ''game'' Full ''game/offline'',
      redirect_route ''mainpage'' Full ''game/offline'',
      redirect_route ''iframepage'' Full ''embed-board'',
      redirect_route [] Full ''game'']"

text \<open>The \<open>AppRoutingModule\<close> of \<open>part_001\<close> (lines 4--27).\<close>

definition routes_001 :: "route list" where
  "routes_001 =
     [load_route ''game'' GameHostComponent,
      load_route ''embed/board'' BoardEmbedComponent,
      load_route ''online'' OnlineGameComponent,
      redirect_route [] Full ''game'']"

text \<open>\<open>GameHostComponent.boardSrc\<close>: the URL both iframes load.\<close>

definition boardSrc :: string where
  "boardSrc = ''/embed-board''"

section \<open>URL resolution\<close>

text \<open>A path split at \<open>/\<close> (JavaScript's \<open>split('/')\<close>, empty pieces kept).\<close>

fun split_slash :: "string \<Rightarrow> string list" where
  "split_slash [] = [[]]"
| "split_slash (c # cs) =
     (if c = CHR ''/'' then [] # split_slash cs
      else (case split_slash cs of p # ps \<Rightarrow> (c # p) # ps | [] \<Rightarrow> [[c]]))"

text \<open>The URL parser's segments of an absolute or relative path: empty pieces dropped.\<close>

definition url_segments :: "string \<Rightarrow> string list" where
  "url_segments u = filter (\<lambda>p. p \<noteq> []) (split_slash u)"

text \<open>
  \<open>match\<close> of the router on one route: the remaining segments when the route matches.
  \<open>**\<close> consumes everything; the empty path consumes nothing and, with
  \<open>pathMatch: 'full'\<close>, needs an empty URL; otherwise the route's parts must be a
  prefix of the URL, the whole URL under \<open>'full'\<close>.
\<close>

definition route_match :: "route \<Rightarrow> string list \<Rightarrow> string list option" where
  "route_match r segs =
     (if rt_path r = ''**'' then Some []
      else if rt_path r = [] then
        (if rt_match r = Full \<and> segs \<noteq> [] then None else Some segs)
      else
        (let parts = split_slash (rt_path r) in
         if length segs < length parts then None
         else if rt_match r = Full \<and> length parts < length segs then None
         else if take (length parts) segs = parts then Some (drop (length parts) segs)
         else None))"

text \<open>
  \<open>try_routes n tbl rs segs\<close> processes \<open>segs\<close> against the routes \<open>rs\<close> still to try,
  \<open>tbl\<close> being the whole table; \<open>n\<close> redirects may still be followed. A route whose
  processing fails passes on to the next route.
\<close>

fun try_routes :: "nat \<Rightarrow> route list \<Rightarrow> route list \<Rightarrow> string list \<Rightarrow> view option" where
  "try_routes n tbl [] segs = None"
| "try_routes n tbl (r # rs) segs =
     (case route_match r segs of
        None \<Rightarrow> try_routes n tbl rs segs
      | Some rest \<Rightarrow>
          (case rt_target r of
             Load v \<Rightarrow> if rest = [] then Some v else try_routes n tbl rs segs
           | Redirect t \<Rightarrow>
               (case n of
                  0 \<Rightarrow> try_routes n tbl rs segs
                | Suc m \<Rightarrow>
                    (case try_routes m tbl tbl (url_segments t @ rest) of
                       Some v \<Rightarrow> Some v
                     | None \<Rightarrow> try_routes n tbl rs segs))))"

text \<open>The view a navigation to \<open>url\<close> shows; \<open>None\<close> is the router's \<open>NG04002\<close> error.\<close>

definition resolve :: "nat \<Rightarrow> route list \<Rightarrow> string \<Rightarrow> view option" where
  "resolve n tbl url = try_routes n tbl tbl (url_segments url)"

section \<open>Resolution lemmas\<close>

lemma route_match_wildcard [simp]: "route_match (redirect_route ''**'' m t) segs = Some []"
  by (simp add: route_match_def redirect_route_def)

text \<open>A table that ends with a \<open>**\<close> redirect resolves every URL, provided the redirect target does.\<close>

lemma try_routes_wildcard:
  assumes "try_routes m tbl tbl (url_segments t) \<noteq> None"
  shows "try_routes (Suc m) tbl (rs @ [redirect_route ''**'' pm t]) segs \<noteq> None"
proof (induction rs)
  case Nil
  then show ?case using assms by (auto simp: redirect_route_def route_match_def split: option.splits)
next
  case (Cons r rs)
  then show ?case by (simp split: option.splits route_target.splits)
qed

text \<open>A route matched under \<open>pathMatch: 'full'\<close>, or \<open>**\<close>, leaves nothing to redirect with.\<close>

lemma route_match_full_rest:
  "route_match r segs = Some rest \<Longrightarrow> rt_match r = Full \<or> rt_path r = ''**'' \<Longrightarrow> rest = []"
  by (auto simp: route_match_def Let_def split: if_splits)

text \<open>
  Raising the redirect bound changes nothing once every redirect target of the table
  resolves the same under the two smaller bounds.
\<close>

lemma try_routes_stable:
  assumes "set rs \<subseteq> set tbl"
    and tgt: "\<forall>r\<in>set tbl. \<forall>t. rt_target r = Redirect t \<longrightarrow> (rt_match r = Full \<or> rt_path r = ''**'') \<and>
               try_routes m tbl tbl (url_segments t) = try_routes m' tbl tbl (url_segments t)"
  shows "try_routes (Suc m) tbl rs segs = try_routes (Suc m') tbl rs segs"
  using assms(1)
proof (induction rs)
  case Nil
  then show ?case by simp
next
  case (Cons r rs)
  then have r: "r \<in> set tbl" and IH: "try_routes (Suc m) tbl rs segs = try_routes (Suc m') tbl rs segs"
    by auto
  show ?case
  proof (cases "route_match r segs")
    case (Some rest)
    show ?thesis
    proof (cases "rt_target r")
      case (Redirect t)
      with tgt r have fr: "rt_match r = Full \<or> rt_path r = ''**''"
        and eq: "try_routes m tbl tbl (url_segments t) = try_routes m' tbl tbl (url_segments t)" by auto
      have "rest = []" using route_match_full_rest [OF Some fr] .
      with Some Redirect eq IH show ?thesis by (simp split: option.split)
    qed (use Some IH in simp)
  qed (use IH in simp)
qed

text \<open>
  Which segment lists each table sends to the board, and the second table of
  \<open>part_000\<close> to the host, by the shape of the list (empty, one segment, two or more).
\<close>

lemmas route_tables = routes_000a_def routes_000b_def routes_001_def load_route_def redirect_route_def

lemma try_routes_000a_board:
  "try_routes (Suc n) routes_000a routes_000a segs = Some BoardEmbedComponent \<longleftrightarrow>
   segs \<in> {[''embed-board''], [''iframepage'']}"
  by (cases segs rule: remdups_adj.cases)
     (auto simp: route_tables route_match_def url_segments_def Let_def split: if_splits)

lemma try_routes_000b_board:
  "try_routes (Suc n) routes_000b routes_000b segs = Some BoardEmbedComponent \<longleftrightarrow>
   segs \<in> {[''embed-board''], [''iframepage'']}"
  by (cases segs rule: remdups_adj.cases; cases n)
     (auto simp: route_tables route_match_def url_segments_def Let_def split: if_splits)

lemma try_routes_001_board:
  "try_routes n routes_001 routes_001 segs = Some BoardEmbedComponent \<longleftrightarrow> segs = [''embed'', ''board'']"
  by (cases segs rule: remdups_adj.cases; cases n)
     (auto simp: route_tables route_match_def url_segments_def Let_def split: if_splits)

lemma try_routes_000b_host:
  "try_routes (Suc n) routes_000b routes_000b segs = Some GameHostComponent \<longleftrightarrow>
   segs \<in> {[''game'', ''offline''], [''game''], [''mainpage'']} \<or> (segs = [] \<and> 0 < n)"
  by (cases segs rule: remdups_adj.cases; cases n)
     (auto simp: route_tables route_match_def url_segments_def Let_def split: if_splits)

section \<open>Claims about routing\<close>

text \<open>
  C12. Which URLs show the board. The host's iframe URL \<open>boardSrc\<close> has the one segment
  \<open>embed-board\<close>. Under both tables of \<open>part_000\<close>, once the router follows a redirect,
  a URL shows the board exactly when its segments are \<open>embed-board\<close> or \<open>iframepage\<close>;
  under \<open>part_001\<close>, at any bound, exactly when they are \<open>embed/board\<close>, so the host's
  iframes find no board there. Under the second table of \<open>part_000\<close> a URL shows the
  offline host exactly when it is \<open>game/offline\<close>, \<open>game\<close> or \<open>mainpage\<close>, or it is the
  root and the router follows a second redirect.
\<close>

theorem routing_board_urls:
  "url_segments boardSrc = [''embed-board''] \<and>
   (resolve (Suc n) routes_000a url = Some BoardEmbedComponent \<longleftrightarrow>
      url_segments url \<in> {[''embed-board''], [''iframepage'']}) \<and>
   (resolve (Suc n) routes_000b url = Some BoardEmbedComponent \<longleftrightarrow>
      url_segments url \<in> {[''embed-board''], [''iframepage'']}) \<and>
   (resolve n routes_001 url = Some BoardEmbedComponent \<longleftrightarrow> url_segments url = [''embed'', ''board'']) \<and>
   (resolve (Suc n) routes_000b url = Some GameHostComponent \<longleftrightarrow>
      url_segments url \<in> {[''game'', ''offline''], [''game''], [''mainpage'']} \<or> (url_segments url = [] \<and> 0 < n))"
  by (simp add: resolve_def try_routes_000a_board try_routes_000b_board try_routes_001_board
      try_routes_000b_host) (simp add: boardSrc_def url_segments_def)

theorem routing_board_urls_witness:
  "resolve 1 routes_000a boardSrc = Some BoardEmbedComponent \<and>
   resolve 1 routes_001 boardSrc \<noteq> Some BoardEmbedComponent \<and>
   resolve 1 routes_000b ''/'' \<noteq> Some GameHostComponent \<and>
   resolve 2 routes_000b ''/'' = Some GameHostComponent"
  using routing_board_urls [of 0 boardSrc] routing_board_urls [of 1 boardSrc]
    routing_board_urls [of 0 "''/''"] routing_board_urls [of 1 "''/''"]
  by (simp_all add: url_segments_def boardSrc_def numeral_2_eq_2)

text \<open>
  C14. Under the first table of \<open>part_000\<close> every URL shows one of the three views as
  soon as the router follows a redirect: the \<open>**\<close> route catches every URL no earlier
  route serves and sends it to the offline host.
\<close>

theorem routing_000a_total:
  assumes "0 < n"
  shows "resolve n routes_000a url \<noteq> None"
proof -
  obtain m where n: "n = Suc m" using assms by (cases n) auto
  have t: "try_routes m routes_000a routes_000a (url_segments ''game/offline'') \<noteq> None"
    by (simp add: routes_000a_def url_segments_def load_route_def route_match_def Let_def)
  have "routes_000a = take 5 routes_000a @ [redirect_route ''**'' Prefix ''game/offline'']"
    by (simp add: routes_000a_def)
  then show ?thesis
    using try_routes_wildcard [OF t, of "take 5 routes_000a" Prefix "url_segments url"] n
    by (metis resolve_def)
qed

theorem routing_000a_total_witness:
  "0 < (1::nat) \<and> resolve 1 routes_000a ''/no/such/page'' \<noteq> None"
  using routing_000a_total [of 1 "''/no/such/page''"] by simp

text \<open>
  C10. Redirect processing terminates. In each of the three route tables every chain
  of redirects ends within two steps, so following further redirects never changes
  where a URL leads: for every URL and every bound of at least two, resolution gives the
  same view as with two. A redirect cycle or a chain of three in a table would make the
  result depend on the bound.
\<close>

theorem routing_redirects_terminate:
  "resolve (n + 2) routes_000a url = resolve 2 routes_000a url \<and>
   resolve (n + 2) routes_000b url = resolve 2 routes_000b url \<and>
   resolve (n + 2) routes_001 url = resolve 2 routes_001 url"
proof -
  have a: "\<forall>r\<in>set routes_000a. \<forall>t. rt_target r = Redirect t \<longrightarrow> (rt_match r = Full \<or> rt_path r = ''**'') \<and>
      try_routes (Suc n) routes_000a routes_000a (url_segments t) =
      try_routes (Suc 0) routes_000a routes_000a (url_segments t)"
    by (simp add: routes_000a_def load_route_def redirect_route_def url_segments_def route_match_def)
  have b: "\<forall>r\<in>set routes_000b. \<forall>t. rt_target r = Redirect t \<longrightarrow> (rt_match r = Full \<or> rt_path r = ''**'') \<and>
      try_routes (Suc n) routes_000b routes_000b (url_segments t) =
      try_routes (Suc 0) routes_000b routes_000b (url_segments t)"
    by (simp add: routes_000b_def load_route_def redirect_route_def url_segments_def route_match_def)
  have c: "\<forall>r\<in>set routes_001. \<forall>t. rt_target r = Redirect t \<longrightarrow> (rt_match r = Full \<or> rt_path r = ''**'') \<and>
      try_routes (Suc n) routes_001 routes_001 (url_segments t) =
      try_routes (Suc 0) routes_001 routes_001 (url_segments t)"
    by (simp add: routes_001_def load_route_def redirect_route_def url_segments_def route_match_def)
  show ?thesis
    using try_routes_stable [OF order_refl a] try_routes_stable [OF order_refl b]
      try_routes_stable [OF order_refl c] by (simp add: resolve_def eval_nat_numeral)
qed

end
