(* ===== verification/Spec2Isabelle.thy ===== *)
theory Spec2Isabelle
  imports Offline_Refinement OnlineSys Routing
begin

text \<open>
  \<^bold>\<open>A verification model of pencil-chess.\<close>

  \<^emph>\<open>The program.\<close> pencil-chess is an Angular application with three views
  (\<open>src/unnamed/part_000\<close>, \<open>part_001\<close>: route tables). The offline view
  (\<open>GameHostComponent\<close>, \<open>src/src/app/features/game-host/game-host.component.ts\<close>)
  owns the game and loads the same embedded board page (\<open>BoardEmbedComponent\<close>,
  \<open>src/src/app/features/board-embed/board-embed.component.ts\<close>) in two iframes; host
  and frames talk only by \<open>postMessage\<close>, with the closed message union of
  \<open>src/unnamed/part_004\<close>. The host decides roles by frame, checks turns, validates and
  persists positions (\<open>StorageService\<close>, \<open>src/src/app/services/storage.service.ts\<close>,
  over \<open>localStorage\<close>), mirrors accepted moves and announces turns and checkmate; each
  frame applies these commands to its board widget and reports user drags. The online
  view (\<open>OnlineGameComponent\<close>) synchronises through a shared Firebase document instead.
  Chess rules (chess.js) and the board widget (ngx-chess-board) are external libraries.

  \<^emph>\<open>The theories.\<close>
  \<^item> \<open>Chess_Prelude\<close>: the names of the basic types (position strings, origins, window
    identities, FIFO channels) and the rule collections the components share.
  \<^item> \<open>Messages\<close>: \<open>role\<close>, \<open>turn\<close>, the datatype \<open>wire_message\<close> with the source's
    eight tags and their fields, the \<open>msg_event\<close> record a listener sees, and the
    helpers both sides compute (whose turn, who won).
  \<^item> \<open>Engine\<close>: the interfaces of the two libraries, as parameters. \<open>'p chess_engine\<close>
    is a record of chess.js's operations (\<open>load\<close> returns \<open>None\<close> where chess.js throws);
    \<open>engine_contract\<close> is the spec's contract on it. \<open>board\<close> is the widget's displayed
    position and orientation; \<open>widget_sem\<close> fixes the two library behaviours the code
    relies on without controlling them: whether \<open>setFEN\<close>/\<open>reset\<close> restore the default
    orientation, and whether a programmatic change fires the move callback. A small
    executable demo engine instantiates the interface in witnesses.
  \<^item> \<open>Json_String\<close>, \<open>Json\<close>: \<open>JSON.stringify\<close>/\<open>JSON.parse\<close> on flat objects of
    strings (the session records), with the parse-after-stringify round trip.
  \<^item> \<open>Storage\<close>: \<open>localStorage\<close> as a map with a usable flag, the service's
    \<open>storage_load\<close>, \<open>storage_save\<close>, \<open>storage_clear\<close> (exceptions swallowed), the
    offline record \<open>saved_state\<close> and its codec, the two keys.
  \<^item> \<open>Embed\<close>: the record \<open>embed\<close> of \<open>BoardEmbedComponent\<close>'s fields; \<open>embed_handle\<close>
    is the \<open>switch\<close> of \<open>onMessage\<close> (one equation per tag), \<open>embed_onMessage\<close> adds its
    guards, \<open>embed_onUserMove\<close>, \<open>ensureOrientation\<close>, the drag gating getters, and
    \<open>guarded_board_change\<close> for the \<open>applyingRemote\<close> guard around \<open>setFEN\<close>/\<open>reset\<close>
    (the widget's callback, if it fires, runs inside the guard). Every handler returns the
    new state and the messages posted to the parent, in order.
  \<^item> \<open>Host\<close>: the record \<open>host\<close> of \<open>GameHostComponent\<close> (the two frames' windows, the
    engine position, texts, the browser store); \<open>host_handle\<close> is the \<open>switch\<close> of
    \<open>onMessage\<close>, \<open>host_accept\<close> its accepted-move branch, \<open>host_onMessage\<close> adds the
    origin, source and shape guards; \<open>host_afterViewInit\<close>, \<open>newGame\<close>,
    \<open>openOverlay\<close>; posts are (window, message) lists in posting order.
  \<^item> \<open>Offline\<close>: the offline mode as a system. Its state is the host, one board
    controller per frame (windows 1 and 2; the host is window 0), a FIFO queue into the
    host whose entries carry their source frame, and one queue per frame. \<open>off_exec\<close>
    runs one browser event: the host or a frame handles its oldest message, a user drags
    on a frame (only a colour the widget lets them drag; the new position is arbitrary,
    since move generation is the widget's), a frame (re)loads, or the user starts a new
    game. \<open>off_reach\<close> is the set of reachable states from any initial store, so resume
    from storage is covered. The interleaving of events is arbitrary; order within each
    queue is FIFO, as \<open>postMessage\<close> guarantees.
  \<^item> \<open>Offline_Refinement\<close>: the abstract game the offline mode implements
    (\<open>game_step\<close>: a side plays a position the engine accepts on its turn, or the game
    restarts; \<open>game_reach\<close> also starts from any resumable position), the action
    \<open>off_action\<close> each offline event stands for, and the progress argument that
    deliveries alone empty every queue.
  \<^item> \<open>Online\<close>: \<open>OnlineGameComponent\<close>
    (\<open>src/src/app/features/online-game/online-game.component.ts\<close>). The room document
    \<open>games/{code}\<close> is the record \<open>game_doc\<close>, the database a map from codes to
    documents; \<open>db_write\<close> is a \<open>set\<close> (replace) or an \<open>update\<close> (a \<open>doc_patch\<close>
    naming the fields it writes). The record \<open>online\<close> holds the component's fields;
    each \<open>async\<close> method is split at its \<open>await\<close>s: the part before returns the new
    state, the write it issues and an \<open>og_pending\<close> value naming where it waits, and
    the continuation (\<open>og_create_done\<close>, \<open>og_join_cont\<close>, \<open>og_join_done\<close>,
    \<open>og_leave_cont\<close>, \<open>og_leave_done\<close>, \<open>og_move_done\<close>) is a function of its own.
    \<open>og_on_value\<close> is the \<open>onValue\<close> callback. \<open>og_fields\<close> holds the field
    initialisers and \<open>og_construct\<close> the constructor with resume (\<open>ensureClientId\<close> and
    \<open>attachToGame\<close> as in the source); it is partial: \<open>orient_unbuilt\<close> is
    \<open>orientForRole\<close> run before the \<open>@ViewChild\<close> board exists, which throws
    (\<open>None\<close>) exactly when it would call \<open>board.reverse()\<close>. The online session record
    has its JSON codec. \<open>makeCode\<close> is
    \<open>Math.random().toString(36).slice(2, 8).toUpperCase()\<close> over the base-36 digits of
    the random number, which are the argument of \<open>og_createGame\<close>. \<open>copyCode\<close> is
    \<open>og_copyCode\<close> up to the clipboard write, \<open>og_copy_done\<close> after it (the outcome
    \<open>clip_result\<close>: written, or rejected and swallowed), which sets \<open>copied\<close>, returns
    the old timer to clear and the new one to arm, and \<open>og_copy_timeout\<close>, the timer's
    callback.
  \<^item> \<open>OnlineSys\<close>: the online mode as a system of numbered clients (tabs) and the
    shared database. Each tab belongs to a browser (\<open>os_browser\<close>) and reads and writes
    that browser's \<open>localStorage\<close>, which all its tabs share (\<open>os_client\<close>,
    \<open>os_put\<close>); each tab has its list of pending timers, with ids drawn from a counter
    that starts at 1, as browser timer ids are positive. \<open>os_exec\<close> runs one event: a
    user starts create/join/leave, drags or copies the code; the server answers a
    pending \<open>get\<close> with the room's current value (\<open>Os_read\<close>); a pending promise resolves
    and its continuation runs (\<open>Os_resume\<close>); the clipboard write resolves or fails
    (\<open>Os_clip\<close>); a timer fires (\<open>Os_timer\<close>); the database notifies a subscribed client
    (\<open>Os_notify\<close>); a tab reloads (\<open>os_reload\<close>), dropping its timers and
    constructing the component over its browser's store; where the constructor throws
    the tab is crashed (\<open>os_crashed\<close>) and \<open>os_exec\<close> refuses it every event but a
    reload. A write is applied when issued
    and the writer's own listener runs on it at once, as Firebase raises local events
    synchronously; other clients see it at a later notification. A client runs one
    \<open>async\<close> method at a time (the buttons are its only callers). Every event that
    carries a remote operation (\<open>may_fail\<close>) also has a failing form \<open>Os_denied ev\<close>:
    \<open>os_step\<close> runs the event with its operation refused, a \<open>get\<close> rejects, and a refused
    \<open>set\<close>/\<open>update\<close> (\<open>os_reject\<close>) leaves the database as it was, raises the optimistic
    local event and then the revert event on the writer's listener, and ends the
    \<open>async\<close> method at its \<open>await\<close>, as the code has no \<open>try\<close> around any of them; the
    refusal is decided when the write is issued. \<open>os_reach\<close> is the set of reachable
    states.
  \<^item> \<open>Routing\<close>: the three route tables (\<open>routes_000a\<close>, \<open>routes_000b\<close>: the two
    \<open>AppRoutingModule\<close>s of \<open>part_000\<close>; \<open>routes_001\<close>: \<open>part_001\<close>) as lists of
    \<open>route\<close> records, the host's iframe URL \<open>boardSrc\<close>, and Angular's resolution of a URL
    (\<open>resolve\<close>): routes in order, the first whose processing succeeds, leaf routes
    consuming the whole URL, redirects replacing what they matched. The bound \<open>n\<close> on
    successive redirects is a parameter: the recogniser reprocesses a redirected URL with
    redirects disabled, which is \<open>n = 1\<close>.

  \<^emph>\<open>What is proved.\<close>
  \<^item> Host (C1, C2, C6, C7, C15, C17, C20): turn gating and validation reject with no
    effect; the accepted-move and checkmate branches post exactly what the spec says, in
    order; refresh-resume restores the accepted position; roles follow frame identity.
    Also proved: \<open>newGame\<close> restarts and clears storage, foreign messages are dropped.
  \<^item> Board controller (C5, C9, C19): no echo of host-driven changes whatever the
    widget does; idempotent role assignment; the orientation logic is correct exactly when \<open>setFEN\<close> resets the
    widget's orientation. Also proved: the exact \<open>TURN\<close> and \<open>RESET\<close> behaviour.
  \<^item> Storage (C13): the session round trip through the JSON text.
  \<^item> Routing (C10, C12, C14): redirect processing terminates: in every table each
    redirect chain ends within two redirects, so a larger bound never changes the view
    (a stabilisation lemma over \<open>try_routes\<close>); for every URL, exactly which segment
    lists show the board under each table (by the shape of the list), so the host's
    iframe URL reaches the board under both modules of \<open>part_000\<close> and no route of
    \<open>part_001\<close>, and exactly which show the host under the second \<open>part_000\<close> module,
    whose root URL needs two successive redirects; the first module resolves every URL.
  \<^item> Offline system (C3, C4, C8, C21--C23): by rule induction over reachable states, an
    invariant that ties every frame's role to its window (also for role assignments still
    in flight), its gating invariant and (under the resetting widget) its orientation;
    from it, every accepted move comes from the frame whose colour is to move, and a
    frame can drag only its own colour. What the protocol does not guarantee: in every
    reachable state a drag the host rejects is dropped with nothing sent back, so the
    frame keeps the rejected position (C22), and an accepted checkmate sends each frame
    only \<open>GAME_OVER\<close>, which leaves its board as it is, so the mating position never
    reaches the mated side (C23); a run of the demo engine from a live position through an
    accepted mate, with both frames frozen, then changes the position without a new
    game: game over is not final (C21).
  \<^item> Offline refinement and progress (C24, C30): every reachable offline state's position
    is reachable in the abstract game and every step stutters or performs its event's
    abstract action (a forward simulation with stuttering, proved from the system
    invariant); from any state, deliveries alone reach quiescence.
  \<^item> Online controller (C26--C29, C31, C33, C34, C40): a drag of an invalid position reverts the board and writes
    nothing; the exact move \<open>update\<close>; the join slot decision on every branch of the
    snapshot; the reclaim of the white seat (which leaves the room \<open>waiting\<close>); a resumed white session
    re-attaches without writing, and a resumed black session throws in the constructor
    (C33); create overwrites an
    existing room; room codes have at most six characters, fewer for short random
    expansions and none when \<open>Math.random()\<close> is 0 (C28); the participant id is lost
    with the session record at a leave or game end. Also proved: the subscription
    callback's gating and game-over handling, and that leave frees only one's own seat.
  \<^item> Online system (C11, C16, C18, C25, C32, C36--C39): by rule induction over all
    interleavings, failing remote operations included, with any engine, an ended room always records the winner as the side
    not to move; every room document has a \<open>turn\<close> and a \<open>status\<close> (a type invariant,
    with the auxiliary fact that a client holding a snapshot of a room is attached to
    it and the room exists); a client accepts drags only of the colour of its own seat
    and only with both seats taken; each client has at most one pending copy-reset
    timer, exactly while \<open>copied\<close> is on, and it is the one \<open>copyTimer\<close> names. What the
    code leaves open: whenever two joiners both hold a snapshot with only white taken,
    both become black and the room keeps the later id (C38); a white leave writes back
    its snapshot's players, whatever the room holds now, erasing a seat taken since its
    \<open>get\<close> (C39); a reload of a tab holding a black session crashes it, and every event
    but a reload is refused afterwards (\<open>online_black_reload_crashes\<close>); two tabs of one browser share
    the client id and so the seat; a refused \<open>set\<close> of \<open>createGame\<close> leaves a stored
    session for a room that does not exist, which a reload resumes. A refused move
    \<open>update\<close> heals at the mover: the revert event restores its board and engine to the
    room's position, and nothing else changes.
  \<^item> Equivalence (C35, in this theory): under the projection \<open>embed_of_online\<close>, the
    online controller's drag gates, \<open>orientForRole\<close>, role assignment and
    \<open>og_apply_fen\<close> are the embed's getters, \<open>ensureOrientation\<close>, \<open>ROLE_ASSIGN\<close> and
    \<open>SYNC_STATE\<close> handlers, for every widget behaviour, so the orientation results for
    the embed carry over to the online board.
  Properties with hypotheses have witnesses that run the definitions on concrete inputs
  by \<open>simp\<close> or \<open>code_simp\<close>; system witnesses evaluate a run with \<open>off_run\<close> or
  \<open>os_run\<close> and obtain reachability from \<open>off_run_reach\<close> or \<open>os_run_reach\<close>.

  \<^emph>\<open>Bounds and fuel.\<close> No loop of the program is unbounded: every handler is a
  non-recursive function; runs are lists of events, and the recursive definitions (JSON
  scanning, URL splitting, route tables) terminate by structural recursion, by the
  length of the input, or lexicographically on the redirect bound and the routes left.
  Angular's own redirect limit is not needed: no table here needs more than two
  successive redirects, and C10 shows that any bound of two or more gives the same
  result. Timers fire at any later step, so the 1200 ms of \<open>copyCode\<close> is not a bound.

  \<^emph>\<open>Not modelled.\<close> Chess rules and the board widget's rendering (external libraries,
  parameters here); the \<open>NgModule\<close> wrappers of the route tables (they only register
  them) and route features the tables do not use (parameters, children, guards); the
  empty component stubs (\<open>part_003\<close>, lines 1--13 of \<open>board-embed.component.ts\<close>);
  the text \<open>copyCode\<close> puts on the clipboard (only the write's outcome is modelled) and
  the 1200 ms delay (a timer fires at any later step); the test specs; the
  overlay and status texts beyond what the handlers set; the Firebase connection set-up
  (\<open>initializeApp\<close>, \<open>getDatabase\<close>); a write that stays pending while offline and
  is refused later (the refusal is taken at issue, so no other step sees the optimistic
  value); \<open>ngOnDestroy\<close> of the two components (a reload replaces the page's state,
  listeners included); deletion of rooms, which the code
  never does; concurrent clicks on one client while its own \<open>async\<close> method waits.
\<close>

section \<open>The online controller's board logic and the embed's\<close>

text \<open>
  \<open>OnlineGameComponent\<close> drives its board with a copy of the embed's board logic
  (\<open>darkDisabled\<close>/\<open>lightDisabled\<close>, \<open>orientForRole\<close> for \<open>ensureOrientation\<close>, the
  guarded \<open>setFEN\<close> of \<open>applyState\<close> for the \<open>SYNC_STATE\<close> handler). The projection below
  reads an online component's board fields as an embed.
\<close>

definition embed_of_online :: "origin \<Rightarrow> 'p online \<Rightarrow> embed" where
  "embed_of_online orig s =
     \<lparr>em_origin = orig, em_role = og_role s, em_moveDisabled = og_moveDisabled s,
      em_applyingRemote = og_applyingRemote s, em_isReversed = og_isReversed s,
      em_board = og_board s\<rparr>"

text \<open>
  C35. The online component's board logic is the embed's. Under the projection, its
  drag gates are the embed's, \<open>orientForRole\<close> is \<open>ensureOrientation\<close>, taking a role and
  orienting is the embed's \<open>ROLE_ASSIGN\<close>, and applying a remote position
  (\<open>og_apply_fen\<close>) is the embed's \<open>SYNC_STATE\<close> handler, which posts nothing, for
  every widget behaviour.
\<close>

theorem online_board_logic_is_embed:
  "darkDisabled (embed_of_online orig s) = og_darkDisabled s \<and>
   lightDisabled (embed_of_online orig s) = og_lightDisabled s \<and>
   ensureOrientation (embed_of_online orig s) = embed_of_online orig (orientForRole s) \<and>
   embed_handle ws (embed_of_online orig s) (ROLE_ASSIGN r) =
     (embed_of_online orig (orientForRole (s\<lparr>og_role := Some r\<rparr>)), []) \<and>
   embed_handle ws (embed_of_online orig s) (SYNC_STATE f pgn) =
     (embed_of_online orig (og_apply_fen ws f s), [])"
  by (simp add: embed_of_online_def darkDisabled_def og_darkDisabled_def lightDisabled_def
      og_lightDisabled_def ensureOrientation_def orientForRole_def og_apply_fen_def
      guarded_board_change_def embed_onUserMove_def Let_def)

end
